(* ===== verification/Prelude.thy ===== *)
theory Prelude
  imports Complex_Main "HOL-Library.Multiset"
begin

text \<open>
  Shared vocabulary of the development: the Python exceptions the scripts can raise, an
  IEEE-like value type for the float64 arrays numpy computes (finite, infinite, NaN), the
  numpy slice assignment used by the debouncer, and the run-length encoding of a list
  that the debouncer and the transition extractor are specified against.  The lemmas
  at the end are the generic facts on these that the component theories share.
\<close>

section \<open>Python and numpy vocabulary\<close>

text \<open>Exceptions raised by the scripts (or by the libraries they call).\<close>

datatype py_error =
    IndexError
  | TypeError string
  | ValueError string
  | ZeroDivisionError
  | RuntimeError string
  | ArgumentTypeError string
  | AttributeError string
  | OverflowError string
  | FileNotFoundError string

text \<open>
  A float64 value as numpy computes it: \<open>np.log(0)\<close> is \<open>-inf\<close>,
  \<open>np.log\<close> of a negative number and the mean of an empty slice are \<open>nan\<close>.
\<close>

datatype f64 = Fin real | PosInf | NegInf | NaN

fun isfinite :: "f64 \<Rightarrow> bool" where
  "isfinite (Fin _) = True"
| "isfinite _ = False"

text \<open>Python's \<open>value > threshold\<close> for a float64 value and a finite threshold.\<close>

fun f64_gt :: "f64 \<Rightarrow> real \<Rightarrow> bool" where
  "f64_gt (Fin x) t = (t < x)"
| "f64_gt PosInf _ = True"
| "f64_gt NegInf _ = False"
| "f64_gt NaN _ = False"

text \<open>\<open>np.log\<close> on a float64 value.\<close>

fun f64_log :: "f64 \<Rightarrow> f64" where
  "f64_log (Fin x) = (if 0 < x then Fin (ln x) else if x = 0 then NegInf else NaN)"
| "f64_log PosInf = PosInf"
| "f64_log NegInf = NaN"
| "f64_log NaN = NaN"

text \<open>\<open>np.exp\<close> on a float64 value.\<close>

fun f64_exp :: "f64 \<Rightarrow> f64" where
  "f64_exp (Fin x) = Fin (exp x)"
| "f64_exp PosInf = PosInf"
| "f64_exp NegInf = Fin 0"
| "f64_exp NaN = NaN"

text \<open>
  float64 arithmetic on this type, with the IEEE rules for infinities and NaN (rounding is
  not modelled: finite values are exact reals).  \<open>f64_div\<close> is numpy's true division of
  two finite values, which gives an infinity or NaN, not an exception, on a zero divisor.
\<close>

fun f64_neg :: "f64 \<Rightarrow> f64" where
  "f64_neg (Fin a) = Fin (- a)"
| "f64_neg PosInf = NegInf"
| "f64_neg NegInf = PosInf"
| "f64_neg NaN = NaN"

fun f64_add :: "f64 \<Rightarrow> f64 \<Rightarrow> f64" where
  "f64_add (Fin a) (Fin b) = Fin (a + b)"
| "f64_add NaN _ = NaN"
| "f64_add _ NaN = NaN"
| "f64_add PosInf NegInf = NaN"
| "f64_add NegInf PosInf = NaN"
| "f64_add PosInf _ = PosInf"
| "f64_add _ PosInf = PosInf"
| "f64_add NegInf _ = NegInf"
| "f64_add _ NegInf = NegInf"

definition f64_sub :: "f64 \<Rightarrow> f64 \<Rightarrow> f64" where
  "f64_sub a b = f64_add a (f64_neg b)"

fun f64_mul :: "f64 \<Rightarrow> f64 \<Rightarrow> f64" where
  "f64_mul (Fin a) (Fin b) = Fin (a * b)"
| "f64_mul NaN _ = NaN"
| "f64_mul _ NaN = NaN"
| "f64_mul (Fin a) PosInf = (if a = 0 then NaN else if 0 < a then PosInf else NegInf)"
| "f64_mul (Fin a) NegInf = (if a = 0 then NaN else if 0 < a then NegInf else PosInf)"
| "f64_mul PosInf (Fin b) = (if b = 0 then NaN else if 0 < b then PosInf else NegInf)"
| "f64_mul NegInf (Fin b) = (if b = 0 then NaN else if 0 < b then NegInf else PosInf)"
| "f64_mul PosInf PosInf = PosInf"
| "f64_mul NegInf NegInf = PosInf"
| "f64_mul PosInf NegInf = NegInf"
| "f64_mul NegInf PosInf = NegInf"

definition f64_div :: "real \<Rightarrow> real \<Rightarrow> f64" where
  "f64_div a b =
     (if b = 0 then (if a = 0 then NaN else if 0 < a then PosInf else NegInf) else Fin (a / b))"

text \<open>\<open>np.sum\<close> and \<open>np.mean\<close> of a flat array; the mean of an empty array is NaN.\<close>

definition f64_sum :: "f64 list \<Rightarrow> f64" where
  "f64_sum xs = fold (\<lambda>x s. f64_add s x) xs (Fin 0)"

fun f64_divn :: "f64 \<Rightarrow> nat \<Rightarrow> f64" where
  "f64_divn (Fin a) n = Fin (a / real n)"
| "f64_divn v _ = v"

definition f64_mean :: "f64 list \<Rightarrow> f64" where
  "f64_mean xs = (if xs = [] then NaN else f64_divn (f64_sum xs) (length xs))"

text \<open>
  numpy slice assignment \<open>a[lo:hi] = v\<close> with a scalar \<open>v\<close>: the slice bounds are
  clamped to the array, every element in the slice is overwritten.
\<close>

definition slice_fill :: "'a list \<Rightarrow> nat \<Rightarrow> nat \<Rightarrow> 'a \<Rightarrow> 'a list" where
  "slice_fill xs lo hi v = map (\<lambda>k. if lo \<le> k \<and> k < hi then v else xs ! k) [0..<length xs]"

text \<open>Python indexing \<open>xs[i]\<close> with a non-negative index: IndexError out of range.\<close>

definition py_nth :: "'a list \<Rightarrow> nat \<Rightarrow> py_error + 'a" where
  "py_nth xs i = (if i < length xs then Inr (xs ! i) else Inl IndexError)"

text \<open>A \<open>for\<close> loop whose body may raise: the first exception ends the loop.\<close>

fun fold_err :: "('a \<Rightarrow> 'b \<Rightarrow> py_error + 'b) \<Rightarrow> 'a list \<Rightarrow> 'b \<Rightarrow> py_error + 'b" where
  "fold_err f [] b = Inr b"
| "fold_err f (x # xs) b = (case f x b of Inl e \<Rightarrow> Inl e | Inr b' \<Rightarrow> fold_err f xs b')"

text \<open>An assignment \<open>xs[i] = f(i)\<close> in a loop, where computing \<open>f(i)\<close> may raise.\<close>

definition assign_err :: "(nat \<Rightarrow> py_error + 'a) \<Rightarrow> nat \<Rightarrow> 'a list \<Rightarrow> py_error + 'a list" where
  "assign_err f i xs = (case f i of Inl e \<Rightarrow> Inl e | Inr v \<Rightarrow> Inr (xs[i := v]))"

text \<open>
  Values passed as keyword arguments and stored in neo annotation dictionaries.
\<close>

datatype pyval =
    PFloat real | PInt int | PBool bool | PStr string | PPair real real
  | PArr "real list" | PNone | PF64 f64

text \<open>
  A call \<open>f(..., k1=v1, ..., **extra)\<close>: Python raises TypeError when a key of
  \<open>extra\<close> is also an explicit keyword; otherwise the keywords are merged.
\<close>

definition merge_kwargs :: "(string \<times> 'v) list \<Rightarrow> (string \<rightharpoonup> 'v) \<Rightarrow> py_error + (string \<rightharpoonup> 'v)" where
  "merge_kwargs explicit extra =
     (if list_ex (\<lambda>k. extra k \<noteq> None) (map fst explicit)
      then Inl (TypeError ''got multiple values for keyword argument'')
      else Inr (extra ++ map_of explicit))"

section \<open>Run-length encoding\<close>

text \<open>
  The maximal runs of equal elements of a list, each with its length; \<open>unruns\<close>
  decodes them.
\<close>

fun runs :: "'a list \<Rightarrow> ('a \<times> nat) list" where
  "runs [] = []"
| "runs (x # xs) =
     (case runs xs of
        [] \<Rightarrow> [(x, 1)]
      | (y, n) # rs \<Rightarrow> (if x = y then (x, Suc n) # rs else (x, 1) # (y, n) # rs))"

definition unruns :: "('a \<times> nat) list \<Rightarrow> 'a list" where
  "unruns rs = concat (map (\<lambda>(x, n). replicate n x) rs)"

text \<open>A run list is well formed when every run is non-empty and adjacent runs differ.\<close>

fun runs_wf :: "('a \<times> nat) list \<Rightarrow> bool" where
  "runs_wf [] = True"
| "runs_wf [(x, n)] = (0 < n)"
| "runs_wf ((x, n) # (y, m) # rs) = (0 < n \<and> x \<noteq> y \<and> runs_wf ((y, m) # rs))"

text \<open>
  \<open>coal acc qs\<close> merges adjacent entries of equal value of a run list that need not be
  well formed (\<open>acc\<close> is the run being accumulated): it is the run-length encoding of
  the decoded list.  \<open>blocks_ok Q b qs\<close> says that every entry whose value differs
  from the value before it (\<open>b\<close> for the first) satisfies \<open>Q\<close>, i.e. every merged
  block starts with an entry satisfying \<open>Q\<close>.
\<close>

fun coal :: "'a \<times> nat \<Rightarrow> ('a \<times> nat) list \<Rightarrow> ('a \<times> nat) list" where
  "coal (b, a) [] = [(b, a)]"
| "coal (b, a) ((c, n) # qs) = (if c = b then coal (b, a + n) qs else (b, a) # coal (c, n) qs)"

fun blocks_ok :: "('a \<times> nat \<Rightarrow> bool) \<Rightarrow> 'a \<Rightarrow> ('a \<times> nat) list \<Rightarrow> bool" where
  "blocks_ok Q b [] = True"
| "blocks_ok Q b ((c, n) # qs) = ((c \<noteq> b \<longrightarrow> Q (c, n)) \<and> blocks_ok Q c qs)"

named_theorems run_simps "facts on the run-length encoding used by the component proofs"

section \<open>Shared lemmas\<close>

lemma length_slice_fill [simp]: "length (slice_fill xs lo hi v) = length xs"
  by (simp add: slice_fill_def)

lemma nth_slice_fill [simp]:
  "k < length xs \<Longrightarrow> slice_fill xs lo hi v ! k = (if lo \<le> k \<and> k < hi then v else xs ! k)"
  by (simp add: slice_fill_def)

lemma py_nth_in [simp]: "i < length xs \<Longrightarrow> py_nth xs i = Inr (xs ! i)"
  by (simp add: py_nth_def)

lemma fold_err_append:
  "fold_err f (xs @ ys) b = (case fold_err f xs b of Inl e \<Rightarrow> Inl e | Inr b' \<Rightarrow> fold_err f ys b')"
  by (induction xs arbitrary: b) (auto split: sum.splits)

lemma fold_err_snoc:
  "fold_err f (xs @ [x]) b = (case fold_err f xs b of Inl e \<Rightarrow> Inl e | Inr b' \<Rightarrow> f x b')"
  by (simp add: fold_err_append split: sum.splits)

lemma unruns_Nil [simp, run_simps]: "unruns [] = []"
  by (simp add: unruns_def)

lemma unruns_Cons [simp, run_simps]: "unruns ((x, n) # rs) = replicate n x @ unruns rs"
  by (simp add: unruns_def)

lemma unruns_append [run_simps]: "unruns (rs @ qs) = unruns rs @ unruns qs"
  by (simp add: unruns_def)

lemma unruns_runs [simp, run_simps]: "unruns (runs xs) = xs"
  by (induction xs) (auto split: list.splits)

lemma runs_eq_Nil_iff [simp]: "runs xs = [] \<longleftrightarrow> xs = []"
  by (cases xs) (auto split: list.splits)

lemma runs_wf_Cons: "runs_wf ((x, n) # rs) \<Longrightarrow> runs_wf rs"
  by (cases rs) auto

lemma runs_wf_runs [simp]: "runs_wf (runs xs)"
proof (induction xs)
  case Nil
  then show ?case by simp
next
  case (Cons x xs)
  then show ?case
    by (cases "runs xs") (auto split: prod.splits list.splits elim: runs_wf.elims)
qed

lemma runs_replicate_append [run_simps]:
  "0 < n \<Longrightarrow> (ys = [] \<or> hd ys \<noteq> x) \<Longrightarrow> runs (replicate n x @ ys) = (x, n) # runs ys"
proof (induction n)
  case 0
  then show ?case by simp
next
  case (Suc n)
  show ?case
  proof (cases n)
    case 0
    with Suc.prems show ?thesis by (cases ys) (auto split: list.splits)
  next
    case (Suc k)
    with Suc.IH Suc.prems show ?thesis by simp
  qed
qed

lemma runs_unruns_coal [run_simps]:
  "0 < a \<Longrightarrow> \<forall>(c, n) \<in> set qs. 0 < n \<Longrightarrow> runs (replicate a b @ unruns qs) = coal (b, a) qs"
proof (induction qs arbitrary: b a)
  case Nil
  then show ?case using runs_replicate_append [of a "[]" b] by simp
next
  case (Cons q qs)
  obtain c n where q: "q = (c, n)" by fastforce
  show ?case
  proof (cases "c = b")
    case True
    have "runs (replicate a b @ unruns (q # qs)) = runs (replicate (a + n) b @ unruns qs)"
      by (simp add: q True replicate_add)
    also have "\<dots> = coal (b, a + n) qs" using Cons.IH Cons.prems q by simp
    finally show ?thesis using True q by simp
  next
    case False
    from Cons.prems q have "0 < n" by simp
    then have "runs (replicate a b @ unruns (q # qs)) = (b, a) # runs (replicate n c @ unruns qs)"
      using runs_replicate_append [of a "replicate n c @ unruns qs" b] Cons.prems(1) False
      by (simp add: q)
    with Cons False q \<open>0 < n\<close> show ?thesis by simp
  qed
qed

lemma coal_hd: "\<exists>k qs'. coal (b, a) qs = (b, a + k) # qs'"
proof (induction qs arbitrary: a b)
  case Nil
  then show ?case by simp
next
  case (Cons q qs)
  then show ?case by (cases q) (auto, metis add.assoc)
qed

lemma blocks_ok_coal:
  assumes mono: "\<And>c n k. Q (c, n) \<Longrightarrow> Q (c, n + k)"
  shows "blocks_ok Q b qs \<Longrightarrow> list_all Q (drop 1 (coal (b, a) qs))"
proof (induction qs arbitrary: b a)
  case Nil
  then show ?case by simp
next
  case (Cons q qs)
  obtain c n where q: "q = (c, n)" by fastforce
  show ?case
  proof (cases "c = b")
    case True
    with Cons q show ?thesis by simp
  next
    case False
    with Cons.prems q have "Q (c, n)" and ok: "blocks_ok Q c qs" by simp_all
    obtain k qs' where h: "coal (c, n) qs = (c, n + k) # qs'" using coal_hd [of c n qs] by blast
    with \<open>Q (c, n)\<close> mono have "Q (c, n + k)" by blast
    moreover have "list_all Q qs'" using Cons.IH [OF ok, of n] h by simp
    ultimately show ?thesis using False q h by simp
  qed
qed


lemma f64_sub_Fin [simp]: "f64_sub (Fin a) (Fin b) = Fin (a - b)"
  by (simp add: f64_sub_def)

lemma f64_sum_Fin_gen: "fold (\<lambda>x s. f64_add s x) (map Fin xs) (Fin a) = Fin (a + sum_list xs)"
  by (induction xs arbitrary: a) (simp_all add: algebra_simps)

lemma f64_sum_Fin [simp]: "f64_sum (map Fin xs) = Fin (sum_list xs)"
  using f64_sum_Fin_gen [of xs 0] by (simp add: f64_sum_def)

lemma f64_mean_Fin [simp]:
  "xs \<noteq> [] \<Longrightarrow> f64_mean (map Fin xs) = Fin (sum_list xs / real (length xs))"
  by (simp add: f64_mean_def)

lemma f64_add_NaN_right [simp]: "f64_add a NaN = NaN"
  by (cases a) simp_all

lemma f64_sum_NaN: "NaN \<in> set xs \<Longrightarrow> f64_sum xs = NaN"
proof -
  have gen: "fold (\<lambda>x s. f64_add s x) xs NaN = NaN" for xs
    by (induction xs) simp_all
  have "NaN \<in> set xs \<Longrightarrow> fold (\<lambda>x s. f64_add s x) xs a = NaN" for a
  proof (induction xs arbitrary: a)
    case Nil
    then show ?case by simp
  next
    case (Cons x xs)
    then show ?case by (cases "x = NaN") (auto simp: gen)
  qed
  then show "NaN \<in> set xs \<Longrightarrow> f64_sum xs = NaN" by (simp add: f64_sum_def)
qed


lemma fold_err_inv:
  assumes step: "\<And>x b. x \<in> set xs \<Longrightarrow> P b \<Longrightarrow> \<exists>b'. f x b = Inr b' \<and> P b'"
  shows "P b \<Longrightarrow> \<exists>b'. fold_err f xs b = Inr b' \<and> P b'"
  using step
proof (induction xs arbitrary: b)
  case Nil
  then show ?case by simp
next
  case (Cons x xs)
  then obtain b' where "f x b = Inr b'" "P b'" by (meson list.set_intros(1))
  with Cons.IH [of b'] Cons.prems show ?case by simp
qed

lemma fold_err_assign:
  "fold_err (assign_err f) [0..<k] xs = Inr M \<Longrightarrow>
   k \<le> length xs \<Longrightarrow> length M = length xs \<and> (\<forall>i<k. f i = Inr (M ! i))"
proof (induction k arbitrary: M)
  case 0
  then show ?case by simp
next
  case (Suc k)
  have e: "fold_err (assign_err f) [0..<Suc k] xs =
      (case fold_err (assign_err f) [0..<k] xs of Inl e \<Rightarrow> Inl e | Inr b' \<Rightarrow> assign_err f k b')"
    by (simp only: upt_Suc_append [OF le0] fold_err_snoc)
  obtain M0 where m0: "fold_err (assign_err f) [0..<k] xs = Inr M0"
    using Suc.prems(1) unfolding e by (cases "fold_err (assign_err f) [0..<k] xs") simp_all
  then have s: "assign_err f k M0 = Inr M" using Suc.prems(1) unfolding e by simp
  then obtain v where fk: "f k = Inr v" and m: "M = M0[k := v]"
    by (cases "f k") (simp_all add: assign_err_def)
  from Suc.IH [OF m0] Suc.prems(2) have l: "length M0 = length xs" and ih: "\<forall>i<k. f i = Inr (M0 ! i)"
    by simp_all
  show ?case using l ih fk m Suc.prems(2) by (auto simp: nth_list_update less_Suc_eq)
qed

lemma fold_err_assign_ok:
  assumes "\<forall>i<k. \<exists>v. f i = Inr v"
  shows "\<exists>M. fold_err (assign_err f) [0..<k] xs = Inr M"
proof -
  have "\<exists>M. fold_err (assign_err f) [0..<k] xs = Inr M \<and> True"
  proof (rule fold_err_inv)
    fix i and M :: "'a list" assume "i \<in> set [0..<k]"
    then obtain v where "f i = Inr v" using assms by auto
    then show "\<exists>M'. assign_err f i M = Inr M' \<and> True" by (simp add: assign_err_def)
  qed simp
  then show ?thesis by simp
qed

lemma fold_err_assign_first:
  "f 0 = Inl e \<Longrightarrow> 0 < k \<Longrightarrow> fold_err (assign_err f) [0..<k] xs = Inl e"
  by (simp add: upt_rec assign_err_def)

lemma merge_kwargs_Inr:
  "merge_kwargs explicit extra = Inr kw \<Longrightarrow>
   (\<forall>k\<in>set (map fst explicit). extra k = None) \<and> kw = extra ++ map_of explicit"
  by (auto simp: merge_kwargs_def list_ex_iff split: if_splits)

lemma fold_err_Inl: "fold_err f xs b = Inl e \<Longrightarrow> \<exists>x\<in>set xs. \<exists>b'. f x b' = Inl e"
  by (induction xs arbitrary: b) (auto split: sum.splits)

end
