(* ===== verification/Debounce.thy ===== *)
theory Debounce
  imports Prelude
begin

text \<open>
  The StateDebouncer: \<open>remove_short_states\<close> of
  \<open>src/pipeline/fieldpotential_analysis/scripts/fp_up_down_detection.py\<close> (lines 57--77).
  The two nested \<open>while\<close> loops are \<open>count_run\<close> (the inner run-length loop with
  its \<open>break\<close>) and \<open>clean_pass\<close> (the outer scan, one pass for one lambda of
  \<open>clean_order\<close>); the in-place slice assignment is \<open>slice_fill\<close>.  The pass is
  proved equal to a specification on the run-length encoding, \<open>clear_short_runs\<close>:
  every run of the target value after the first one that is shorter than the minimum
  duration is flipped.  From it follow termination, length preservation, the
  post-condition of both passes, idempotence, and the exemption of the first run.
\<close>

section \<open>The scan loops\<close>

text \<open>
  The inner loop, entered at a sample \<open>i\<close> that starts a run:
  \<^verbatim>\<open>while op(state_vector[i]):
    duration += 1; i += 1
    if i >= len(state_vector): break\<close>
  It returns the index after the run and the run's length.
\<close>

function count_run :: "(bool \<Rightarrow> bool) \<Rightarrow> bool list \<Rightarrow> nat \<Rightarrow> nat \<Rightarrow> nat \<times> nat" where
  "count_run op sv i duration =
     (if op (sv ! i)
      then (if length sv \<le> Suc i then (Suc i, Suc duration)
            else count_run op sv (Suc i) (Suc duration))
      else (i, duration))"
  by pat_completeness auto
termination
  by (relation "measure (\<lambda>(op, sv, i, d). length sv - i)") auto

text \<open>
  The outer loop of one pass, \<open>while i < len(state_vector)-1\<close>: on a transition into
  the target value (\<open>op(not sv[i]) and op(sv[i+1])\<close>) the run is measured and, if it
  is shorter than \<open>min_state_duration\<close>, overwritten with \<open>op(False)\<close>.
\<close>

function clean_pass :: "(bool \<Rightarrow> bool) \<Rightarrow> int \<Rightarrow> bool list \<Rightarrow> nat \<Rightarrow> bool list" where
  "clean_pass op min_state_duration sv i =
     (if Suc i < length sv then
        (if op (\<not> sv ! i) \<and> op (sv ! Suc i) then
           (case count_run op sv (Suc i) 0 of
              (j, duration) \<Rightarrow>
                clean_pass op min_state_duration
                  (if int duration < min_state_duration
                   then slice_fill sv (j - duration) j (op False) else sv) j)
         else clean_pass op min_state_duration sv (Suc i))
      else sv)"
  by pat_completeness auto
termination
proof -
  have mono: "k \<le> fst (count_run op sv k d)" for op sv k d
  proof (induction op sv k d rule: count_run.induct)
    case (1 op sv i duration)
    then show ?case
      by (cases "op (sv ! i)"; cases "length sv \<le> Suc i") (simp_all add: count_run.simps [of op sv i])
  qed
  have step: "(j, e) = count_run op sv k d \<Longrightarrow> k \<le> j" for op sv k d j e
    using mono [of k op sv d] by (metis fst_conv)
  show ?thesis
    by (relation "measure (\<lambda>(op, m, sv, i). length sv - i)") (auto dest!: step simp del: count_run.simps)
qed

text \<open>
  \<open>clean_order = [lambda x: not x, lambda x: x]\<close>, reversed unless
  \<open>remove_down_first\<close>: the first lambda targets DOWN runs (\<open>False\<close>), the second UP
  runs.
\<close>

definition clean_order :: "bool \<Rightarrow> (bool \<Rightarrow> bool) list" where
  "clean_order remove_down_first =
     (let order = [\<lambda>x. \<not> x, \<lambda>x. x] in if \<not> remove_down_first then rev order else order)"

text \<open>The procedure mutates its argument in place; the model returns the new vector.\<close>

definition remove_short_states :: "bool list \<Rightarrow> int \<Rightarrow> bool \<Rightarrow> bool list" where
  "remove_short_states state_vector min_state_duration remove_down_first =
     fold (\<lambda>op sv. clean_pass op min_state_duration sv 0)
       (clean_order remove_down_first) state_vector"

section \<open>Cost of the scan\<close>

text \<open>
  The work a pass does, counted as in \<open>clean_pass\<close>: one unit per iteration of the outer
  loop, one per iteration of the inner loop (the run's \<open>duration\<close>) and one per sample the
  slice assignment overwrites.  \<open>T_remove_short_states\<close> adds the two passes.
\<close>

function T_clean_pass :: "(bool \<Rightarrow> bool) \<Rightarrow> int \<Rightarrow> bool list \<Rightarrow> nat \<Rightarrow> nat" where
  "T_clean_pass op min_state_duration sv i =
     (if Suc i < length sv then
        (if op (\<not> sv ! i) \<and> op (sv ! Suc i) then
           (case count_run op sv (Suc i) 0 of
              (j, duration) \<Rightarrow>
                1 + duration + (if int duration < min_state_duration then duration else 0) +
                T_clean_pass op min_state_duration
                  (if int duration < min_state_duration
                   then slice_fill sv (j - duration) j (op False) else sv) j)
         else 1 + T_clean_pass op min_state_duration sv (Suc i))
      else 0)"
  by pat_completeness auto
termination
proof -
  have mono: "k \<le> fst (count_run op sv k d)" for op sv k d
  proof (induction op sv k d rule: count_run.induct)
    case (1 op sv i duration)
    then show ?case
      by (cases "op (sv ! i)"; cases "length sv \<le> Suc i") (simp_all add: count_run.simps [of op sv i])
  qed
  have step: "(j, e) = count_run op sv k d \<Longrightarrow> k \<le> j" for op sv k d j e
    using mono [of k op sv d] by (metis fst_conv)
  show ?thesis
    by (relation "measure (\<lambda>(op, m, sv, i). length sv - i)") (auto dest!: step simp del: count_run.simps)
qed

definition T_remove_short_states :: "bool list \<Rightarrow> int \<Rightarrow> bool \<Rightarrow> nat" where
  "T_remove_short_states state_vector min_state_duration remove_down_first =
     (case clean_order remove_down_first of
        [op1, op2] \<Rightarrow> T_clean_pass op1 min_state_duration state_vector 0 +
                      T_clean_pass op2 min_state_duration (clean_pass op1 min_state_duration state_vector 0) 0)"

section \<open>Specification on runs\<close>

text \<open>
  \<open>clear_runs t m p rs\<close> flips a run of the target value \<open>t\<close> that is entered from a
  different value (\<open>p\<close> is the value before the first run) and is shorter than
  \<open>m\<close>.  Starting with \<open>p = t\<close>, the first run of the vector is never entered by a
  transition.
\<close>

fun clear_runs :: "bool \<Rightarrow> int \<Rightarrow> bool \<Rightarrow> (bool \<times> nat) list \<Rightarrow> (bool \<times> nat) list" where
  "clear_runs t m p [] = []"
| "clear_runs t m p ((b, n) # rs) =
     (if b = t \<and> p \<noteq> t \<and> int n < m then (\<not> t, n) else (b, n)) # clear_runs t m b rs"

definition clear_short_runs :: "bool \<Rightarrow> int \<Rightarrow> bool list \<Rightarrow> bool list" where
  "clear_short_runs t m sv = unruns (clear_runs t m t (runs sv))"

text \<open>Every run of value \<open>t\<close> after the first has at least \<open>m\<close> samples.\<close>

definition long_runs :: "bool \<Rightarrow> int \<Rightarrow> bool list \<Rightarrow> bool" where
  "long_runs t m sv \<longleftrightarrow> list_all (\<lambda>(b, n). b = t \<longrightarrow> m \<le> int n) (drop 1 (runs sv))"

section \<open>Lemmas on the scan and its specification\<close>

declare count_run.simps [simp del] clean_pass.simps [simp del] T_clean_pass.simps [simp del]

lemma count_run_eq:
  "i < length sv \<Longrightarrow>
   count_run op sv i d = (i + length (takeWhile op (drop i sv)), d + length (takeWhile op (drop i sv)))"
proof (induction op sv i d rule: count_run.induct)
  case (1 op sv i duration)
  have drop_i: "drop i sv = sv ! i # drop (Suc i) sv"
    using "1.prems" by (simp add: Cons_nth_drop_Suc)
  show ?case
  proof (cases "op (sv ! i)")
    case False
    then show ?thesis by (simp add: count_run.simps [of op sv i] drop_i)
  next
    case True
    show ?thesis
    proof (cases "length sv \<le> Suc i")
      case True
      then have "drop (Suc i) sv = []" by simp
      with \<open>op (sv ! i)\<close> True show ?thesis by (simp add: count_run.simps [of op sv i] drop_i)
    next
      case False
      with "1.IH" \<open>op (sv ! i)\<close> show ?thesis by (simp add: count_run.simps [of op sv i] drop_i)
    qed
  qed
qed

lemma clear_runs_keep:
  assumes "\<not> (x = t \<and> p \<noteq> t)"
  shows "unruns (clear_runs t m p (runs (x # xs))) = x # unruns (clear_runs t m x (runs xs))"
proof (cases "runs xs")
  case Nil
  with assms show ?thesis by auto
next
  case (Cons r rs)
  obtain y n where r: "r = (y, n)" by fastforce
  show ?thesis
  proof (cases "x = y")
    case True
    with assms Cons r show ?thesis by auto
  next
    case False
    with assms Cons r show ?thesis by auto
  qed
qed

lemma slice_fill_eq:
  "lo \<le> hi \<Longrightarrow> hi \<le> length xs \<Longrightarrow>
   slice_fill xs lo hi v = take lo xs @ replicate (hi - lo) v @ drop hi xs"
  by (rule nth_equalityI) (auto simp: nth_append min_def)

lemma takeWhile_eq_replicate:
  "takeWhile (\<lambda>x. x = t) xs = replicate (length (takeWhile (\<lambda>x. x = t) xs)) t"
  by (induction xs) auto

lemma clean_pass_suffix:
  "op = (\<lambda>x. x = t) \<Longrightarrow> i < length sv \<Longrightarrow>
   clean_pass op m sv i = take (Suc i) sv @ unruns (clear_runs t m (sv ! i) (runs (drop (Suc i) sv)))"
proof (induction op m sv i rule: clean_pass.induct)
  case (1 op m sv i)
  note op = "1.prems"(1)
  show ?case
  proof (cases "Suc i < length sv")
    case False
    with "1.prems" have "length sv = Suc i" by simp
    with False show ?thesis by (simp add: clean_pass.simps [of op m sv i])
  next
    case inner: True
    have d: "drop (Suc i) sv = sv ! Suc i # drop (Suc (Suc i)) sv"
      using inner by (simp add: Cons_nth_drop_Suc)
    show ?thesis
    proof (cases "op (\<not> sv ! i) \<and> op (sv ! Suc i)")
      case False
      have IH: "clean_pass op m sv (Suc i) = take (Suc (Suc i)) sv @
          unruns (clear_runs t m (sv ! Suc i) (runs (drop (Suc (Suc i)) sv)))"
        using "1.IH"(2) [OF inner False op] inner by simp
      have tk: "take (Suc (Suc i)) sv = take (Suc i) sv @ [sv ! Suc i]"
        using inner by (simp add: take_Suc_conv_app_nth)
      have keep: "\<not> (sv ! Suc i = t \<and> sv ! i \<noteq> t)" using False op by auto
      have step: "clean_pass op m sv i = clean_pass op m sv (Suc i)"
        by (subst clean_pass.simps [of op m sv i]) (simp only: if_P [OF inner] if_not_P [OF False])
      have spec: "unruns (clear_runs t m (sv ! i) (runs (drop (Suc i) sv))) =
          sv ! Suc i # unruns (clear_runs t m (sv ! Suc i) (runs (drop (Suc (Suc i)) sv)))"
        unfolding d by (rule clear_runs_keep [OF keep])
      show ?thesis using step spec IH tk by simp
    next
      case trans: True
      define k where "k = length (takeWhile op (drop (Suc i) sv))"
      define j where "j = Suc i + k"
      define v where "v = (if int k < m then \<not> t else t)"
      have cr: "count_run op sv (Suc i) 0 = (j, k)"
        using count_run_eq [of "Suc i" sv op 0] inner by (simp add: j_def k_def)
      have si: "sv ! i \<noteq> t" and ssi: "sv ! Suc i = t" using trans op by auto
      have k_pos: "0 < k" using ssi op by (simp add: k_def d)
      have decomp: "drop (Suc i) sv = replicate k t @ drop j sv"
      proof -
        have "drop (Suc i) sv = takeWhile op (drop (Suc i) sv) @ dropWhile op (drop (Suc i) sv)"
          by simp
        also have "takeWhile op (drop (Suc i) sv) = replicate k t"
          using takeWhile_eq_replicate [of t "drop (Suc i) sv"] op by (simp add: k_def)
        also have "dropWhile op (drop (Suc i) sv) = drop j sv"
          unfolding k_def j_def by (simp add: dropWhile_eq_drop) (metis add_Suc_right add.commute)
        finally show ?thesis .
      qed
      have rest: "drop j sv = [] \<or> hd (drop j sv) \<noteq> t"
      proof -
        have "dropWhile op (drop (Suc i) sv) = drop j sv"
          unfolding k_def j_def by (simp add: dropWhile_eq_drop) (metis add_Suc_right add.commute)
        moreover have "dropWhile op ys = [] \<or> \<not> op (hd (dropWhile op ys))" for ys
          by (metis hd_dropWhile)
        ultimately show ?thesis using op by metis
      qed
      have j_le: "j \<le> length sv"
      proof -
        have "k \<le> length (drop (Suc i) sv)" unfolding k_def by (rule length_takeWhile_le)
        then show ?thesis using inner by (simp add: j_def)
      qed
      have sv_split: "sv = take (Suc i) sv @ replicate k t @ drop j sv"
        using decomp by (metis append_take_drop_id)
      define sv' where "sv' = (if int k < m then slice_fill sv (j - k) j (op False) else sv)"
      have sv'_eq: "sv' = take (Suc i) sv @ replicate k v @ drop j sv"
      proof (cases "int k < m")
        case True
        then have "sv' = take (Suc i) sv @ replicate k (op False) @ drop j sv"
          using slice_fill_eq [of "j - k" j sv "op False"] j_le by (simp add: sv'_def j_def)
        with True op show ?thesis by (simp add: v_def)
      next
        case False
        with sv_split show ?thesis by (simp add: sv'_def v_def)
      qed
      have spec: "unruns (clear_runs t m (sv ! i) (runs (drop (Suc i) sv))) =
          replicate k v @ unruns (clear_runs t m t (runs (drop j sv)))"
        using runs_replicate_append [OF k_pos rest] si by (simp add: decomp v_def)
      have lhs: "clean_pass op m sv i = clean_pass op m sv' j"
        by (subst clean_pass.simps [of op m sv i]) (simp only: if_P [OF inner] if_P [OF trans] cr sv'_def prod.case)
      have len': "length sv' = length sv" by (simp add: sv'_def)
      show ?thesis
      proof (cases "j < length sv")
        case False
        with j_le have "drop j sv = []" by simp
        moreover have "clean_pass op m sv' j = sv'"
          using False len' by (simp add: clean_pass.simps [of op m sv' j])
        ultimately show ?thesis using lhs spec sv'_eq by simp
      next
        case True
        have IH: "clean_pass op m sv' j =
            take (Suc j) sv' @ unruns (clear_runs t m (sv' ! j) (runs (drop (Suc j) sv')))"
          using "1.IH"(1) [OF inner trans cr [symmetric] op] True len'
          by (simp add: sv'_def)
        have tail: "drop j sv = sv ! j # drop (Suc j) sv"
          using True by (simp add: Cons_nth_drop_Suc)
        have hj: "\<not> (sv ! j = t \<and> t \<noteq> t)" by simp
        have hj': "sv ! j \<noteq> t" using rest tail by simp
        define P where "P = take (Suc i) sv @ replicate k v"
        have lenP: "length P = j" using inner by (simp add: P_def j_def)
        have sv'P: "sv' = P @ sv ! j # drop (Suc j) sv" using sv'_eq tail by (simp add: P_def)
        have parts: "take (Suc j) sv' = P @ [sv ! j]" "sv' ! j = sv ! j"
            "drop (Suc j) sv' = drop (Suc j) sv"
          using sv'P lenP by (simp_all add: nth_append)
        have spec2: "unruns (clear_runs t m t (runs (drop j sv))) =
            sv ! j # unruns (clear_runs t m (sv ! j) (runs (drop (Suc j) sv)))"
          unfolding tail by (rule clear_runs_keep [OF hj])
        show ?thesis using lhs IH spec spec2 parts by (simp add: P_def)
      qed
    qed
  qed
qed

lemma clean_pass_refines:
  "clean_pass (\<lambda>x. x = t) m sv 0 = clear_short_runs t m sv"
proof (cases sv)
  case Nil
  then show ?thesis by (simp add: clean_pass.simps clear_short_runs_def)
next
  case (Cons x xs)
  have keep: "\<not> (x = t \<and> t \<noteq> t)" by simp
  have "clear_short_runs t m (x # xs) = x # unruns (clear_runs t m x (runs xs))"
    unfolding clear_short_runs_def by (rule clear_runs_keep [OF keep])
  then show ?thesis
    using clean_pass_suffix [of "\<lambda>x. x = t" t 0 sv m] Cons by simp
qed

lemma clean_pass_down: "clean_pass Not m sv 0 = clear_short_runs False m sv"
proof -
  have "Not = (\<lambda>x. x = False)" by (simp add: fun_eq_iff)
  then show ?thesis using clean_pass_refines [of False m sv] by simp
qed

lemma clean_pass_up: "clean_pass (\<lambda>x. x) m sv 0 = clear_short_runs True m sv"
proof -
  have "(\<lambda>x. x) = (\<lambda>x. x = True)" by (simp add: fun_eq_iff)
  then show ?thesis using clean_pass_refines [of True m sv] by simp
qed

lemma remove_short_states_spec:
  "remove_short_states sv m remove_down_first =
     (if remove_down_first then clear_short_runs True m (clear_short_runs False m sv)
      else clear_short_runs False m (clear_short_runs True m sv))"
  by (cases remove_down_first)
     (simp_all add: remove_short_states_def clean_order_def clean_pass_down clean_pass_up)

lemma map_snd_clear_runs: "map snd (clear_runs t m p rs) = map snd rs"
  by (induction t m p rs rule: clear_runs.induct) auto

lemma pos_clear_runs:
  "\<forall>(c, k) \<in> set rs. 0 < k \<Longrightarrow> \<forall>(c, k) \<in> set (clear_runs t m p rs). 0 < k"
  by (induction t m p rs rule: clear_runs.induct) auto

lemma length_unruns: "length (unruns rs) = sum_list (map snd rs)"
  by (induction rs) auto

lemma runs_wf_pos: "runs_wf rs \<Longrightarrow> \<forall>(c, n) \<in> set rs. 0 < n"
  by (induction rs rule: runs_wf.induct) auto

lemma length_clear_short_runs: "length (clear_short_runs t m sv) = length sv"
proof -
  have "length (clear_short_runs t m sv) = sum_list (map snd (runs sv))"
    by (simp add: clear_short_runs_def length_unruns map_snd_clear_runs)
  also have "\<dots> = length (unruns (runs sv))" by (simp only: length_unruns)
  finally show ?thesis by simp
qed

lemma clear_runs_long:
  "runs_wf ((b, n) # rs) \<Longrightarrow> list_all (\<lambda>(c, k). c = t \<longrightarrow> m \<le> int k) (clear_runs t m b rs)"
proof (induction rs arbitrary: b n)
  case Nil
  then show ?case by simp
next
  case (Cons r rs)
  obtain c k where r: "r = (c, k)" by fastforce
  with Cons.prems have "c \<noteq> b" and wf: "runs_wf ((c, k) # rs)" by simp_all
  with Cons.IH [OF wf] r show ?case by auto
qed

lemma clear_runs_blocks:
  "runs_wf ((b, n) # rs) \<Longrightarrow> list_all (\<lambda>(c, k). c = t \<longrightarrow> m \<le> int k) rs \<Longrightarrow>
   b' = b \<or> (b = (\<not> t) \<and> b' = t) \<Longrightarrow>
   blocks_ok (\<lambda>(c, k). c = t \<longrightarrow> m \<le> int k) b' (clear_runs (\<not> t) m b rs)"
proof (induction rs arbitrary: b n b')
  case Nil
  then show ?case by simp
next
  case (Cons r rs)
  obtain c k where r: "r = (c, k)" by fastforce
  with Cons.prems have "c \<noteq> b" and wf: "runs_wf ((c, k) # rs)" by simp_all
  define c' where "c' = (if c = (\<not> t) \<and> b \<noteq> (\<not> t) \<and> int k < m then t else c)"
  have rest: "blocks_ok (\<lambda>(c, k). c = t \<longrightarrow> m \<le> int k) c' (clear_runs (\<not> t) m c rs)"
    using Cons.IH [OF wf, of c'] Cons.prems(2) r by (auto simp: c'_def)
  have head: "c' \<noteq> b' \<longrightarrow> (c' = t \<longrightarrow> m \<le> int k)"
    using Cons.prems(2,3) \<open>c \<noteq> b\<close> r by (auto simp: c'_def)
  show ?case using rest head r by (auto simp: c'_def)
qed

lemma list_all_blocks_ok: "list_all Q qs \<Longrightarrow> blocks_ok Q b qs"
  by (induction qs arbitrary: b) auto

lemma long_runs_clear_short_runs_via_blocks:
  assumes "runs sv = (b, n) # rs"
    and "blocks_ok (\<lambda>(c, k). c = t \<longrightarrow> m \<le> int k) b (clear_runs s m b rs)"
  shows "long_runs t m (clear_short_runs s m sv)"
proof -
  have wf: "runs_wf ((b, n) # rs)" using runs_wf_runs [of sv] assms(1) by simp
  then have pos: "0 < n" "\<forall>(c, k) \<in> set (clear_runs s m b rs). 0 < k"
    using runs_wf_pos [OF wf] pos_clear_runs [of rs s m b] by auto
  have "runs (clear_short_runs s m sv) = coal (b, n) (clear_runs s m b rs)"
    using assms(1) runs_unruns_coal [OF pos] by (simp add: clear_short_runs_def)
  moreover have "list_all (\<lambda>(c, k). c = t \<longrightarrow> m \<le> int k) (drop 1 (coal (b, n) (clear_runs s m b rs)))"
    by (rule blocks_ok_coal [OF _ assms(2)]) auto
  ultimately show ?thesis by (simp add: long_runs_def)
qed

lemma runs_Cons_wf:
  "runs sv = (b, n) # rs \<Longrightarrow> runs_wf ((b, n) # rs)"
  using runs_wf_runs [of sv] by simp

lemma long_runs_clear_same: "long_runs t m (clear_short_runs t m sv)"
proof (cases "runs sv")
  case Nil
  then show ?thesis by (simp add: clear_short_runs_def long_runs_def)
next
  case (Cons r rs)
  obtain b n where r: "r = (b, n)" by fastforce
  have wf: "runs_wf ((b, n) # rs)" using runs_Cons_wf [of sv b n rs] Cons r by simp
  have "list_all (\<lambda>(c, k). c = t \<longrightarrow> m \<le> int k) (clear_runs t m b rs)"
    by (rule clear_runs_long [OF wf])
  then have "blocks_ok (\<lambda>(c, k). c = t \<longrightarrow> m \<le> int k) b (clear_runs t m b rs)"
    by (rule list_all_blocks_ok)
  then show ?thesis
    using long_runs_clear_short_runs_via_blocks [of sv b n rs t m t] Cons r by simp
qed

lemma long_runs_clear_other:
  "long_runs t m sv \<Longrightarrow> long_runs t m (clear_short_runs (\<not> t) m sv)"
proof (cases "runs sv")
  case Nil
  then show ?thesis by (simp add: clear_short_runs_def long_runs_def)
next
  case (Cons r rs)
  assume long: "long_runs t m sv"
  obtain b n where r: "r = (b, n)" by fastforce
  from long Cons have "list_all (\<lambda>(c, k). c = t \<longrightarrow> m \<le> int k) rs"
    by (simp add: long_runs_def)
  moreover have wf: "runs_wf ((b, n) # rs)" using runs_Cons_wf [of sv b n rs] Cons r by simp
  ultimately have "blocks_ok (\<lambda>(c, k). c = t \<longrightarrow> m \<le> int k) b (clear_runs (\<not> t) m b rs)"
    using clear_runs_blocks [of b n rs t m b] by simp
  then show ?thesis
    using long_runs_clear_short_runs_via_blocks [of sv b n rs t m "\<not> t"] Cons r by simp
qed

lemma clear_runs_id:
  "runs_wf ((b, n) # rs) \<Longrightarrow> list_all (\<lambda>(c, k). c = t \<longrightarrow> m \<le> int k) rs \<Longrightarrow>
   clear_runs t m b rs = rs"
proof (induction rs arbitrary: b n)
  case Nil
  then show ?case by simp
next
  case (Cons r rs)
  obtain c k where r: "r = (c, k)" by fastforce
  with Cons.prems have "c \<noteq> b" and wf: "runs_wf ((c, k) # rs)" by simp_all
  with Cons.IH [OF wf] Cons.prems(2) r show ?case by auto
qed

lemma clear_short_runs_fix:
  "long_runs t m sv \<Longrightarrow> clear_short_runs t m sv = sv"
proof (cases "runs sv")
  case Nil
  then show ?thesis by (simp add: clear_short_runs_def)
next
  case (Cons r rs)
  assume long: "long_runs t m sv"
  obtain b n where r: "r = (b, n)" by fastforce
  from long Cons have "list_all (\<lambda>(c, k). c = t \<longrightarrow> m \<le> int k) rs"
    by (simp add: long_runs_def)
  moreover have wf: "runs_wf ((b, n) # rs)" using runs_Cons_wf [of sv b n rs] Cons r by simp
  ultimately have "clear_runs t m b rs = rs" using clear_runs_id [of b n rs t m] by simp
  then have "clear_runs t m t (runs sv) = runs sv" using Cons r by simp
  then show ?thesis by (simp add: clear_short_runs_def)
qed

lemma remove_short_states_long:
  "long_runs False m (remove_short_states sv m rdf) \<and> long_runs True m (remove_short_states sv m rdf)"
proof (cases rdf)
  case True
  have "long_runs False m (clear_short_runs True m (clear_short_runs False m sv))"
    using long_runs_clear_other [OF long_runs_clear_same, of False m sv] by simp
  with True show ?thesis by (simp add: remove_short_states_spec long_runs_clear_same)
next
  case False
  have "long_runs True m (clear_short_runs False m (clear_short_runs True m sv))"
    using long_runs_clear_other [OF long_runs_clear_same, of True m sv] by simp
  with False show ?thesis by (simp add: remove_short_states_spec long_runs_clear_same)
qed

lemma remove_short_states_idempotent:
  "remove_short_states (remove_short_states sv m rdf) m rdf = remove_short_states sv m rdf"
proof -
  let ?r = "remove_short_states sv m rdf"
  have l: "long_runs False m ?r" "long_runs True m ?r"
    using remove_short_states_long [of m sv rdf] by simp_all
  have "remove_short_states ?r m rdf =
      (if rdf then clear_short_runs True m (clear_short_runs False m ?r)
       else clear_short_runs False m (clear_short_runs True m ?r))"
    by (rule remove_short_states_spec)
  also have "\<dots> = ?r" using clear_short_runs_fix [OF l(1)] clear_short_runs_fix [OF l(2)] by (cases rdf) simp_all
  finally show ?thesis .
qed

lemma clear_short_runs_first_run:
  "runs sv = (b, n) # rs \<Longrightarrow> clear_short_runs t m sv = replicate n b @ unruns (clear_runs t m b rs)"
  by (simp add: clear_short_runs_def)

lemma clear_short_runs_prefix:
  "runs sv = (b, n) # rs \<Longrightarrow> \<exists>k rs'. runs (clear_short_runs t m sv) = (b, n + k) # rs'"
proof -
  assume r: "runs sv = (b, n) # rs"
  have wf: "runs_wf ((b, n) # rs)" using runs_Cons_wf [OF r] .
  then have pos: "0 < n" "\<forall>(c, k) \<in> set (clear_runs t m b rs). 0 < k"
    using runs_wf_pos [OF wf] pos_clear_runs [of rs t m b] by auto
  show ?thesis
    using runs_unruns_coal [OF pos] coal_hd [of b n "clear_runs t m b rs"] r
    by (simp add: clear_short_runs_def)
qed

lemma take_first_run:
  "runs sv = (b, n) # rs \<Longrightarrow> take n sv = replicate n b"
proof -
  assume "runs sv = (b, n) # rs"
  then have "sv = replicate n b @ unruns rs" using unruns_runs [of sv] by simp
  then show ?thesis by simp
qed

lemma clear_short_runs_keeps_first:
  "runs sv = (b, n) # rs \<Longrightarrow> take n (clear_short_runs t m sv) = replicate n b"
  by (simp add: clear_short_runs_first_run)

lemma remove_short_states_first_run:
  "runs sv = (b, n) # rs \<Longrightarrow> take n (remove_short_states sv m rdf) = replicate n b"
proof -
  assume r: "runs sv = (b, n) # rs"
  define s where "s = (if rdf then False else True)"
  obtain k rs' where r1: "runs (clear_short_runs s m sv) = (b, n + k) # rs'"
    using clear_short_runs_prefix [OF r] by blast
  have "take (n + k) (clear_short_runs (\<not> s) m (clear_short_runs s m sv)) = replicate (n + k) b"
    using clear_short_runs_keeps_first [OF r1] .
  then have "take n (take (n + k) (clear_short_runs (\<not> s) m (clear_short_runs s m sv))) =
      take n (replicate (n + k) b)" by simp
  then have "take n (clear_short_runs (\<not> s) m (clear_short_runs s m sv)) = replicate n b"
    by (simp add: min_def)
  then show ?thesis by (cases rdf) (simp_all add: remove_short_states_spec s_def)
qed

lemma runs_spike:
  "0 < a \<Longrightarrow> 0 < b \<Longrightarrow>
   runs (replicate a x @ (\<not> x) # replicate b x) = [(x, a), (\<not> x, 1), (x, b)]"
proof -
  assume a: "0 < a" and b: "0 < b"
  have r3: "runs (replicate b x) = [(x, b)]"
    using runs_replicate_append [OF b, of "[]" x] by simp
  have r2: "runs ((\<not> x) # replicate b x) = [(\<not> x, 1), (x, b)]"
    using runs_replicate_append [of 1 "replicate b x" "\<not> x"] r3 b by simp
  show ?thesis
    using runs_replicate_append [OF a, of "(\<not> x) # replicate b x" x] r2 by simp
qed

lemma remove_short_states_spike:
  assumes "0 < a" and "m \<le> int b" and "1 < m"
  shows "remove_short_states (replicate a False @ True # replicate b False) m True =
         replicate (a + 1 + b) False"
proof -
  have b: "0 < b" using assms(2,3) by linarith
  have r: "runs (replicate a False @ True # replicate b False) = [(False, a), (True, 1), (False, b)]"
    using runs_spike [OF assms(1) b, of False] by simp
  have down: "clear_short_runs False m (replicate a False @ True # replicate b False) =
      replicate a False @ True # replicate b False"
    using r assms(2) by (simp add: clear_short_runs_def)
  have up: "clear_short_runs True m (replicate a False @ True # replicate b False) =
      replicate (a + 1 + b) False"
    using r assms(3) by (simp add: clear_short_runs_def replicate_add replicate_append_same)
  show ?thesis by (simp add: remove_short_states_spec down up)
qed


lemma count_run_len:
  "count_run op sv i d = (j, e) \<Longrightarrow> i < length sv \<Longrightarrow> op (sv ! i) \<Longrightarrow> i < j \<and> j \<le> length sv \<and> e = d + (j - i)"
proof (induction op sv i d arbitrary: j e rule: count_run.induct)
  case (1 op sv i duration)
  show ?case
  proof (cases "length sv \<le> Suc i")
    case True
    with "1.prems" show ?thesis by (auto simp: count_run.simps [of op sv i])
  next
    case False
    then have r: "count_run op sv (Suc i) (Suc duration) = (j, e)" using "1.prems" by (simp add: count_run.simps [of op sv i])
    show ?thesis
    proof (cases "op (sv ! Suc i)")
      case True
      from "1.IH" [OF "1.prems"(3) False r] True False have "Suc i < j" "j \<le> length sv" "e = Suc duration + (j - Suc i)"
        by simp_all
      then show ?thesis by (intro conjI) linarith+
    next
      case False
      with r have "j = Suc i" "e = Suc duration" by (simp_all add: count_run.simps [of op sv "Suc i"])
      then show ?thesis using \<open>\<not> length sv \<le> Suc i\<close> by simp
    qed
  qed
qed

lemma T_clean_pass_bound: "T_clean_pass op m sv i \<le> 2 * (length sv - i)"
proof (induction op m sv i rule: T_clean_pass.induct)
  case (1 op m sv i)
  show ?case
  proof (cases "Suc i < length sv")
    case False
    then show ?thesis by (simp add: T_clean_pass.simps [of op m sv i])
  next
    case lt: True
    show ?thesis
    proof (cases "op (\<not> sv ! i) \<and> op (sv ! Suc i)")
      case tr: True
      obtain j d where c: "count_run op sv (Suc i) 0 = (j, d)" by fastforce
      from count_run_len [OF c] lt tr have jd: "Suc i < j" "j \<le> length sv" "d = j - Suc i" by simp_all
      define sv' where "sv' = (if int d < m then slice_fill sv (j - d) j (op False) else sv)"
      have "T_clean_pass op m sv' j \<le> 2 * (length sv' - j)" using "1.IH"(1) [OF lt tr c [symmetric]] by (simp only: sv'_def)
      moreover have "length sv' = length sv" by (simp add: sv'_def)
      ultimately have "T_clean_pass op m sv' j \<le> 2 * (length sv - j)" by simp
      moreover have "T_clean_pass op m sv i = 1 + d + (if int d < m then d else 0) + T_clean_pass op m sv' j"
        using lt tr c by (simp add: T_clean_pass.simps [of op m sv i] sv'_def)
      moreover have "(if int d < m then d else 0) \<le> d" by simp
      ultimately show ?thesis using jd by linarith
    next
      case False
      have "T_clean_pass op m sv i = 1 + T_clean_pass op m sv (Suc i)"
        unfolding T_clean_pass.simps [of op m sv i] if_P [OF lt] if_not_P [OF False] ..
      with "1.IH"(2) [OF lt False] lt show ?thesis by linarith
    qed
  qed
qed

lemma length_clean_pass: "length (clean_pass op m sv i) = length sv"
proof (induction op m sv i rule: clean_pass.induct)
  case (1 op m sv i)
  show ?case
  proof (cases "Suc i < length sv \<and> op (\<not> sv ! i) \<and> op (sv ! Suc i)")
    case True
    obtain j d where c: "count_run op sv (Suc i) 0 = (j, d)" by fastforce
    with True "1.IH"(1) [OF conjunct1 [OF True] conjunct2 [OF True] c [symmetric]] show ?thesis
      by (simp add: clean_pass.simps [of op m sv i])
  next
    case False
    with "1.IH"(2) show ?thesis by (auto simp: clean_pass.simps [of op m sv i])
  qed
qed

section \<open>Properties of the debouncer\<close>

text \<open>
  C1 (equivalence).  \<open>remove_short_states\<close> runs the two scan passes in the configured
  order, and each pass is the run specification \<open>clear_short_runs\<close> for its target
  value: DOWN runs (\<open>False\<close>) first when \<open>remove_down_first\<close> holds, UP runs first
  otherwise.
\<close>

theorem remove_short_states_two_passes:
  "remove_short_states sv m remove_down_first =
     fold (\<lambda>t. clear_short_runs t m) (if remove_down_first then [False, True] else [True, False]) sv"
  by (simp add: remove_short_states_spec)

text \<open>
  C2 (invariant).  After both passes every run except the first one has at least
  \<open>min_state_duration\<close> samples, for either order.
\<close>

theorem remove_short_states_no_short_runs:
  "list_all (\<lambda>(b, n). m \<le> int n) (drop 1 (runs (remove_short_states sv m rdf)))"
  using remove_short_states_long [of m sv rdf]
  by (auto simp: long_runs_def list_all_iff)

text \<open>
  C3 (idempotence).  Debouncing a debounced vector again with the same minimum duration and
  order changes nothing.
\<close>

theorem remove_short_states_idem:
  "remove_short_states (remove_short_states sv m rdf) m rdf = remove_short_states sv m rdf"
  by (rule remove_short_states_idempotent)

text \<open>
  C4 (functional, finding).  The first run of the vector is never cleared, however short it
  is: the scan only measures runs entered by a transition, so the initial run is exempt.
\<close>

theorem remove_short_states_keeps_first_run:
  "runs sv = (b, n) # rs \<Longrightarrow> take n (remove_short_states sv m rdf) = replicate n b"
  by (rule remove_short_states_first_run)

theorem remove_short_states_keeps_first_run_witness:
  "runs [False, True, True, True, True, True, True] = [(False, 1), (True, 6)] \<and>
   take 1 (remove_short_states [False, True, True, True, True, True, True] 5 True) = [False]"
  using remove_short_states_keeps_first_run [of "[False, True, True, True, True, True, True]"
      False 1 "[(True, 6)]" 5 True]
  by simp

text \<open>
  The order flag matters: the same vector and minimum duration give different results for
  the two orders.
\<close>

lemma remove_short_states_order_dependent:
  "remove_short_states [True, False, True, True, False, False, False, True] 3 True \<noteq>
   remove_short_states [True, False, True, True, False, False, False, True] 3 False"
  by (simp add: remove_short_states_spec clear_short_runs_def)

text \<open>Debouncing keeps the length of the state vector.\<close>

lemma remove_short_states_length:
  "length (remove_short_states sv m rdf) = length sv"
  by (simp add: remove_short_states_spec length_clear_short_runs)

text \<open>
  C21 (termination, bounds).  Both passes of \<open>remove_short_states\<close> end after linear work:
  at most \<open>4 * len(state_vector)\<close> loop iterations and overwritten samples in total, as the
  spec promises (\<open>O(n)\<close> work per pass).
\<close>

theorem remove_short_states_linear_work:
  "T_remove_short_states state_vector m rdf \<le> 4 * length state_vector"
proof -
  have "T_clean_pass op1 m state_vector 0 + T_clean_pass op2 m (clean_pass op1 m state_vector 0) 0 \<le> 4 * length state_vector"
    for op1 op2
    using T_clean_pass_bound [of op1 m state_vector 0] T_clean_pass_bound [of op2 m "clean_pass op1 m state_vector 0" 0]
    by (simp add: length_clean_pass)
  then show ?thesis by (simp add: T_remove_short_states_def clean_order_def Let_def)
qed

end
