(* ===== verification/Transitions.thy ===== *)
theory Transitions
  imports Prelude
begin

text \<open>
  The TransitionExtractor: \<open>statevector_to_spiketrains\<close> of
  \<open>src/pipeline/fieldpotential_analysis/scripts/fp_up_down_detection.py\<close> (lines 121--141).
  The array \<open>times\<close> of the source is \<open>sample_times\<close> here (\<open>times\<close> is HOL's
  multiplication).  \<open>transition_step\<close> is one iteration of the \<open>for\<close> loop over adjacent samples, and
  \<open>transition_scan\<close> the loop.  On a DOWN\<open>\<rightarrow>\<close>UP flip the code assigns
  \<open>downs = np.append(ups, times[i+1].magnitude)\<close>, so \<open>downs\<close> is rebuilt from \<open>ups\<close>; the
  model keeps that line as written, and the scan is characterised exactly
  (\<open>transition_scan_prefix\<close>).  \<open>SpikeTrain\<close> models the part of neo's constructor
  the script relies on: the spike times must lie in \<open>[t_start, t_stop]\<close>.
\<close>

section \<open>The scan\<close>

definition transition_step ::
  "bool list \<Rightarrow> real list \<Rightarrow> nat \<Rightarrow> real list \<times> real list \<Rightarrow> py_error + real list \<times> real list" where
  "transition_step state_vector sample_times i acc =
     (case acc of (ups, downs) \<Rightarrow>
        if state_vector ! i \<and> \<not> state_vector ! Suc i then
          (case py_nth sample_times (Suc i) of Inl e \<Rightarrow> Inl e | Inr t \<Rightarrow> Inr (ups @ [t], downs))
        else if \<not> state_vector ! i \<and> state_vector ! Suc i then
          (case py_nth sample_times (Suc i) of Inl e \<Rightarrow> Inl e | Inr t \<Rightarrow> Inr (ups, ups @ [t]))
        else Inr (ups, downs))"

definition transition_scan :: "bool list \<Rightarrow> real list \<Rightarrow> py_error + real list \<times> real list" where
  "transition_scan state_vector sample_times =
     fold_err (transition_step state_vector sample_times) [0..<length state_vector - 1] ([], [])"

section \<open>Spike trains\<close>

record spiketrain =
  st_times :: "real list"
  st_t_start :: real
  st_t_stop :: real
  st_sampling_rate :: real
  st_annotations :: "string \<rightharpoonup> pyval"

text \<open>neo's \<open>SpikeTrain(times, t_start=, t_stop=, sampling_rate=, **annotations)\<close>.\<close>

definition SpikeTrain ::
  "real list \<Rightarrow> real \<Rightarrow> real \<Rightarrow> real \<Rightarrow> (string \<rightharpoonup> pyval) \<Rightarrow> py_error + spiketrain" where
  "SpikeTrain ts t_start t_stop sampling_rate annotations =
     (if list_ex (\<lambda>t. t < t_start \<or> t_stop < t) ts
      then Inl (ValueError ''spike times outside [t_start, t_stop]'')
      else Inr \<lparr>st_times = ts, st_t_start = t_start, st_t_stop = t_stop,
                st_sampling_rate = sampling_rate, st_annotations = annotations\<rparr>)"

text \<open>The function with its parameters bound (the call's binding is modelled by the driver).\<close>

definition statevector_to_spiketrains ::
  "bool list \<Rightarrow> real \<Rightarrow> real list \<Rightarrow> real \<Rightarrow> real \<Rightarrow> (string \<rightharpoonup> pyval) \<Rightarrow>
   py_error + spiketrain \<times> spiketrain" where
  "statevector_to_spiketrains state_vector sampling_rate sample_times t_start t_stop annotations =
     (case transition_scan state_vector sample_times of
        Inl e \<Rightarrow> Inl e
      | Inr (ups, downs) \<Rightarrow>
          (case SpikeTrain ups t_start t_stop sampling_rate annotations of
             Inl e \<Rightarrow> Inl e
           | Inr up_trains \<Rightarrow>
               (case SpikeTrain downs t_start t_stop sampling_rate annotations of
                  Inl e \<Rightarrow> Inl e
                | Inr down_trains \<Rightarrow> Inr (up_trains, down_trains))))"

section \<open>Transition indices\<close>

text \<open>Indices \<open>i\<close> where the pair \<open>(i, i+1)\<close> flips UP\<open>\<rightarrow>\<close>DOWN, resp. DOWN\<open>\<rightarrow>\<close>UP.\<close>

definition up_down_idx :: "bool list \<Rightarrow> nat \<Rightarrow> nat list" where
  "up_down_idx sv k = filter (\<lambda>i. sv ! i \<and> \<not> sv ! Suc i) [0..<k]"

definition down_up_idx :: "bool list \<Rightarrow> nat \<Rightarrow> nat list" where
  "down_up_idx sv k = filter (\<lambda>i. \<not> sv ! i \<and> sv ! Suc i) [0..<k]"

section \<open>Lemmas on the scans\<close>

lemma up_down_idx_Suc:
  "up_down_idx sv (Suc k) = up_down_idx sv k @ (if sv ! k \<and> \<not> sv ! Suc k then [k] else [])"
  by (simp add: up_down_idx_def)

lemma down_up_idx_Suc:
  "down_up_idx sv (Suc k) = down_up_idx sv k @ (if \<not> sv ! k \<and> sv ! Suc k then [k] else [])"
  by (simp add: down_up_idx_def)

lemma idx_below:
  "i \<in> set (up_down_idx sv k) \<Longrightarrow> i < k" "i \<in> set (down_up_idx sv k) \<Longrightarrow> i < k"
  by (auto simp: up_down_idx_def down_up_idx_def)

lemma transition_scan_prefix:
  assumes "k \<le> length sv - 1" and "length sv \<le> length ts"
  shows "fold_err (transition_step sv ts) [0..<k] ([], []) =
    Inr (map (\<lambda>i. ts ! Suc i) (up_down_idx sv k),
         (if down_up_idx sv k = [] then []
          else map (\<lambda>i. ts ! Suc i) (filter (\<lambda>i. i < last (down_up_idx sv k)) (up_down_idx sv k))
               @ [ts ! Suc (last (down_up_idx sv k))]))"
  using assms(1)
proof (induction k)
  case 0
  then show ?case by (simp add: up_down_idx_def down_up_idx_def)
next
  case (Suc k)
  then have k: "Suc k < length ts" using assms(2) by linarith
  have below: "\<forall>i \<in> set (up_down_idx sv k). i < k" "\<forall>i \<in> set (down_up_idx sv k). i < k"
    using idx_below by blast+
  have last_below: "down_up_idx sv k \<noteq> [] \<Longrightarrow> last (down_up_idx sv k) < k"
    using below(2) by simp
  have filt: "down_up_idx sv k \<noteq> [] \<Longrightarrow>
      filter (\<lambda>i. i < last (down_up_idx sv k)) (up_down_idx sv k @ [k]) =
      filter (\<lambda>i. i < last (down_up_idx sv k)) (up_down_idx sv k)"
    using last_below by simp
  have all_k: "filter (\<lambda>i. i < k) (up_down_idx sv k) = up_down_idx sv k"
    using below(1) by (simp add: filter_id_conv)
  show ?case
    using Suc.IH Suc.prems k filt all_k
    by (auto simp: fold_err_snoc transition_step_def up_down_idx_Suc down_up_idx_Suc)
qed

lemma transition_step_Inl: "transition_step sv ts i acc = Inl e \<Longrightarrow> e = IndexError"
  by (cases acc) (auto simp: transition_step_def py_nth_def split: if_splits sum.splits)

lemma transition_scan_Inl: "transition_scan sv ts = Inl e \<Longrightarrow> e = IndexError"
  unfolding transition_scan_def by (drule fold_err_Inl) (auto dest: transition_step_Inl)

lemma transition_scan_constant: "transition_scan (replicate n v) ts = Inr ([], [])"
proof -
  have "\<exists>b'. fold_err (transition_step (replicate n v) ts) [0..<length (replicate n v) - 1] ([], []) = Inr b' \<and>
             b' = ([], [])"
  proof (rule fold_err_inv)
    fix i and b :: "real list \<times> real list"
    assume "i \<in> set [0..<length (replicate n v) - 1]" "b = ([], [])"
    then show "\<exists>b'. transition_step (replicate n v) ts i b = Inr b' \<and> b' = ([], [])"
      by (simp add: transition_step_def)
  qed simp
  then show ?thesis by (simp add: transition_scan_def)
qed

section \<open>Properties of the transition extractor\<close>

text \<open>
  C6 (functional, finding).  The scan as written: \<open>ups\<close> holds the times of all
  UP\<open>\<rightarrow>\<close>DOWN flips, but \<open>downs\<close> holds only the UP\<open>\<rightarrow>\<close>DOWN times before the last
  DOWN\<open>\<rightarrow>\<close>UP flip followed by the time of that last flip, because each DOWN\<open>\<rightarrow>\<close>UP
  flip rebuilds \<open>downs\<close> from \<open>ups\<close>.
\<close>

theorem transition_scan_downs:
  "length sv \<le> length ts \<Longrightarrow>
   transition_scan sv ts =
    Inr (map (\<lambda>i. ts ! Suc i) (up_down_idx sv (length sv - 1)),
         (if down_up_idx sv (length sv - 1) = [] then []
          else map (\<lambda>i. ts ! Suc i)
                 (filter (\<lambda>i. i < last (down_up_idx sv (length sv - 1))) (up_down_idx sv (length sv - 1)))
               @ [ts ! Suc (last (down_up_idx sv (length sv - 1)))]))"
  unfolding transition_scan_def by (rule transition_scan_prefix) simp_all

theorem transition_scan_downs_witness:
  "length [True, False, True, False, True] \<le> length [0, 1, 2, 3, 4 :: real] \<and>
   transition_scan [True, False, True, False, True] [0, 1, 2, 3, 4] = Inr ([1, 3], [1, 3, 4])"
  using transition_scan_downs [of "[True, False, True, False, True]" "[0, 1, 2, 3, 4]"]
  by (simp add: up_down_idx_def down_up_idx_def upt_rec)

end
