(* ===== verification/Threshold.thy ===== *)
theory Threshold
  imports Prelude
begin

text \<open>
  The BimodalThresholdEstimator: \<open>logMUA_distribution\<close> of
  \<open>src/pipeline/fieldpotential_analysis/scripts/fp_up_down_detection.py\<close> (lines 9--54).
  numpy's density histogram is modelled with exact real
  arithmetic (\<open>np_histogram\<close>: range from the data, widened by one half on each side
  when all values are equal, \<open>bins\<close> equal bins, the last one closed; an empty sample
  gives NaN densities).  scipy's \<open>curve_fit\<close> is a library the script only calls: it
  is the parameter \<open>fit\<close> of the model (\<open>None\<close> when the least-squares fit does not
  converge, which scipy reports as RuntimeError), wrapped by \<open>curve_fit\<close>, which adds
  scipy's \<open>check_finite\<close> test (ValueError on a NaN density).  The plotting branch
  (lines 32--53) is modelled by the data it draws (\<open>distribution_figure\<close>); the
  function with its \<open>plot\<close> flag is \<open>logMUA_distribution_plot\<close>, and
  \<open>logMUA_distribution\<close> is its \<open>plot=False\<close> path.
\<close>

section \<open>numpy's density histogram\<close>

definition hist_range :: "real list \<Rightarrow> real \<times> real" where
  "hist_range a =
     (if a = [] then (0, 1)
      else (let lo = Min (set a); hi = Max (set a)
            in if lo = hi then (lo - 1 / 2, hi + 1 / 2) else (lo, hi)))"

text \<open>\<open>np.linspace(lo, hi, bins + 1)\<close>, the bin edges.\<close>

definition hist_edges :: "real \<Rightarrow> real \<Rightarrow> nat \<Rightarrow> real list" where
  "hist_edges lo hi bins = map (\<lambda>k. lo + real k * (hi - lo) / real bins) [0..<Suc bins]"

text \<open>The bin of a value of \<open>[lo, hi]\<close>; the right edge belongs to the last bin.\<close>

definition bin_index :: "real \<Rightarrow> real \<Rightarrow> nat \<Rightarrow> real \<Rightarrow> nat" where
  "bin_index lo hi bins x = min (nat \<lfloor>(x - lo) * real bins / (hi - lo)\<rfloor>) (bins - 1)"

definition hist_counts :: "real \<Rightarrow> real \<Rightarrow> nat \<Rightarrow> real list \<Rightarrow> nat list" where
  "hist_counts lo hi bins a = map (\<lambda>k. length (filter (\<lambda>x. bin_index lo hi bins x = k) a)) [0..<bins]"

text \<open>
  \<open>np.histogram(a, bins=bins, density=True)\<close>: densities \<open>count / width / n\<close> and the
  edges; ValueError for a non-positive bin count.
\<close>

definition np_histogram :: "real list \<Rightarrow> nat \<Rightarrow> py_error + f64 list \<times> real list" where
  "np_histogram a bins =
     (if bins = 0 then Inl (ValueError ''bins must be positive'')
      else (case hist_range a of (lo, hi) \<Rightarrow>
        Inr (map (\<lambda>c. if a = [] then NaN
                       else Fin (real c / ((hi - lo) / real bins) / real (length a)))
               (hist_counts lo hi bins a),
             hist_edges lo hi bins)))"

text \<open>\<open>edges[:-1] + np.diff(edges)[0] / 2.\<close>, the bin centres.\<close>

definition bin_centres :: "real list \<Rightarrow> real list" where
  "bin_centres edges = map (\<lambda>e. e + (edges ! 1 - edges ! 0) / 2) (butlast edges)"

section \<open>The Gaussian fits\<close>

type_synonym fitter = "real list \<Rightarrow> real list \<Rightarrow> real \<times> real \<Rightarrow> (real \<times> real) option"

fun f64_val :: "f64 \<Rightarrow> real" where
  "f64_val (Fin x) = x"
| "f64_val _ = 0"

definition curve_fit :: "fitter \<Rightarrow> real list \<Rightarrow> f64 list \<Rightarrow> real \<times> real \<Rightarrow> py_error + real \<times> real" where
  "curve_fit fit xdata ydata p0 =
     (if \<not> list_all isfinite ydata then Inl (ValueError ''array must not contain infs or NaNs'')
      else (case fit xdata (map f64_val ydata) p0 of
              None \<Rightarrow> Inl (RuntimeError ''Optimal parameters not found'')
            | Some p \<Rightarrow> Inr p))"

text \<open>
  Lines 23--25: the values at or below the fitted peak, shifted by \<open>-m0\<close>, and their
  mirror image.
\<close>

definition left_peak :: "real list \<Rightarrow> real \<Rightarrow> real list" where
  "left_peak xs m0 = map (\<lambda>x. x - m0) (filter (\<lambda>x. x - m0 \<le> 0) xs)"

definition mirrored_peak :: "real list \<Rightarrow> real \<Rightarrow> real list" where
  "mirrored_peak xs m0 = left_peak xs m0 @ map uminus (left_peak xs m0)"

text \<open>
  The whole function.  Line 24's \<open>left_right_ratio\<close> only feeds the plot, but its
  division is evaluated on every call.
\<close>

definition logMUA_distribution :: "fitter \<Rightarrow> f64 list \<Rightarrow> nat \<Rightarrow> py_error + real \<times> real" where
  "logMUA_distribution fit logMUA bins =
     (let xs = map f64_val (filter isfinite logMUA) in
      case np_histogram xs bins of
        Inl e \<Rightarrow> Inl e
      | Inr (hist, edges) \<Rightarrow>
          (case curve_fit fit (bin_centres edges) hist (-4, 1) of
             Inl e \<Rightarrow> Inl e
           | Inr (m0, _) \<Rightarrow>
               (if length xs = 0 then Inl ZeroDivisionError
                else (case np_histogram (mirrored_peak xs m0) bins of
                        Inl e \<Rightarrow> Inl e
                      | Inr (peakhist, edges2) \<Rightarrow>
                          (case curve_fit fit (bin_centres edges2) peakhist (0, 1) of
                             Inl e \<Rightarrow> Inl e
                           | Inr (_, s0) \<Rightarrow> Inr (m0, s0))))))"

section \<open>The diagnostic figure\<close>

text \<open>
  The \<open>gaussian\<close> lambda of line 16, evaluated by numpy on float64 values: a zero spread
  gives infinities and NaN, not an exception.
\<close>

definition gaussian :: "real \<Rightarrow> real \<Rightarrow> real \<Rightarrow> f64" where
  "gaussian x m s =
     f64_mul (f64_div 1 (s * sqrt (2 * pi)))
       (f64_exp (f64_mul (Fin (- 1 / 2)) (f64_mul (f64_div (x - m) s) (f64_div (x - m) s))))"

text \<open>\<open>np.diff(xs)[0]\<close>, the bar width: IndexError with fewer than two bins.\<close>

definition np_diff_first :: "real list \<Rightarrow> py_error + real" where
  "np_diff_first xs = (case xs of a # b # _ \<Rightarrow> Inr (b - a) | _ \<Rightarrow> Inl IndexError)"

text \<open>
  What lines 33--53 draw: the histogram over the centres shifted by \<open>-m0\<close> (line 20),
  the fitted Gaussian scaled by \<open>left_right_ratio\<close>, the non-Gaussian tail
  \<open>hist[i] - gaussian(x, 0, s0)\<close>, and the threshold lines (\<open>axvline\<close>) in the order the
  two \<open>if\<close>s of lines 45 and 49 draw them.  Axis labels and titles are constant text.
\<close>

record distribution_figure =
  fig_xvalues :: "real list"
  fig_hist :: "f64 list"
  fig_width :: real
  fig_fit :: "f64 list"
  fig_tail :: "f64 list"
  fig_threshold_lines :: "real list"

definition distribution_figure ::
  "f64 list \<Rightarrow> real list \<Rightarrow> real \<Rightarrow> real \<Rightarrow> real \<Rightarrow> real \<Rightarrow> py_error + distribution_figure" where
  "distribution_figure hist xvalues left_right_ratio s0 fixed_threshold sigma_threshold =
     (case np_diff_first xvalues of
        Inl e \<Rightarrow> Inl e
      | Inr width \<Rightarrow>
          Inr \<lparr>fig_xvalues = xvalues, fig_hist = hist, fig_width = width,
               fig_fit = map (\<lambda>x. f64_mul (Fin left_right_ratio) (gaussian x 0 s0)) xvalues,
               fig_tail = map2 (\<lambda>h x. f64_sub h (gaussian x 0 s0)) hist xvalues,
               fig_threshold_lines =
                 (if fixed_threshold \<noteq> 0 then [fixed_threshold] else []) @
                 (if fixed_threshold = 0 \<and> sigma_threshold \<noteq> 0 then [sigma_threshold * s0] else [])\<rparr>)"

text \<open>
  \<open>logMUA_distribution\<close> with its \<open>plot\<close> flag (lines 9--54): the figure is built after
  both fits, from the shifted centres and \<open>left_right_ratio\<close> of line 24.
\<close>

definition logMUA_distribution_plot ::
  "fitter \<Rightarrow> f64 list \<Rightarrow> real \<Rightarrow> real \<Rightarrow> bool \<Rightarrow> nat \<Rightarrow>
   py_error + (real \<times> real) \<times> distribution_figure option" where
  "logMUA_distribution_plot fit logMUA fixed_threshold sigma_threshold plot bins =
     (let xs = map f64_val (filter isfinite logMUA) in
      case np_histogram xs bins of
        Inl e \<Rightarrow> Inl e
      | Inr (hist, edges) \<Rightarrow>
          (case curve_fit fit (bin_centres edges) hist (-4, 1) of
             Inl e \<Rightarrow> Inl e
           | Inr (m0, _) \<Rightarrow>
               (let xvalues = map (\<lambda>x. x - m0) (bin_centres edges) in
                if length xs = 0 then Inl ZeroDivisionError
                else
                  (let left_right_ratio = real (length (left_peak xs m0)) * 2 / real (length xs) in
                   case np_histogram (mirrored_peak xs m0) bins of
                     Inl e \<Rightarrow> Inl e
                   | Inr (peakhist, edges2) \<Rightarrow>
                       (case curve_fit fit (bin_centres edges2) peakhist (0, 1) of
                          Inl e \<Rightarrow> Inl e
                        | Inr (_, s0) \<Rightarrow>
                            if plot then
                              (case distribution_figure hist xvalues left_right_ratio s0
                                      fixed_threshold sigma_threshold of
                                 Inl e \<Rightarrow> Inl e
                               | Inr fig \<Rightarrow> Inr ((m0, s0), Some fig))
                            else Inr ((m0, s0), None))))))"

section \<open>Lemmas on the histogram and the estimator\<close>

lemma np_histogram_empty_nan:
  "0 < bins \<Longrightarrow> \<exists>es. np_histogram [] bins = Inr (replicate bins NaN, es)"
  by (simp add: np_histogram_def hist_counts_def hist_range_def map_replicate_const)

lemma mirrored_peak_empty:
  "\<forall>x \<in> set xs. m0 < x \<Longrightarrow> mirrored_peak xs m0 = []"
  by (auto simp: mirrored_peak_def left_peak_def filter_empty_conv)

lemma np_histogram_finite:
  "xs \<noteq> [] \<Longrightarrow> 0 < bins \<Longrightarrow> \<exists>h e. np_histogram xs bins = Inr (h, e) \<and> list_all isfinite h"
  by (auto simp: np_histogram_def list_all_iff split: prod.splits)

lemma logMUA_distribution_const_fit:
  assumes "list_ex (\<lambda>v. isfinite v \<and> f64_val v \<le> m) logMUA" and "0 < bins"
  shows "logMUA_distribution (\<lambda>_ _ _. Some (m, s)) logMUA bins = Inr (m, s)"
proof -
  define xs where "xs = map f64_val (filter isfinite logMUA)"
  have ne: "xs \<noteq> []" using assms(1) by (auto simp: xs_def list_ex_iff filter_empty_conv)
  have ne2: "mirrored_peak xs m \<noteq> []"
    using assms(1) by (auto simp: xs_def list_ex_iff mirrored_peak_def left_peak_def filter_empty_conv)
  obtain h e where h: "np_histogram xs bins = Inr (h, e)" "list_all isfinite h"
    using np_histogram_finite [OF ne assms(2)] by blast
  obtain h2 e2 where h2: "np_histogram (mirrored_peak xs m) bins = Inr (h2, e2)" "list_all isfinite h2"
    using np_histogram_finite [OF ne2 assms(2)] by blast
  show ?thesis
    using h h2 ne by (simp add: logMUA_distribution_def curve_fit_def xs_def [symmetric])
qed


lemma logMUA_distribution_no_fit:
  assumes "list_ex isfinite logMUA" and "0 < bins"
  shows "logMUA_distribution (\<lambda>_ _ _. None) logMUA bins = Inl (RuntimeError ''Optimal parameters not found'')"
proof -
  define xs where "xs = map f64_val (filter isfinite logMUA)"
  have ne: "xs \<noteq> []" using assms(1) by (auto simp: xs_def list_ex_iff filter_empty_conv)
  obtain h e where h: "np_histogram xs bins = Inr (h, e)" "list_all isfinite h"
    using np_histogram_finite [OF ne assms(2)] by blast
  show ?thesis using h by (simp add: logMUA_distribution_def curve_fit_def xs_def [symmetric])
qed

lemma np_histogram_Inl: "np_histogram a bins = Inl e \<Longrightarrow> e = ValueError ''bins must be positive''"
  by (simp add: np_histogram_def split: if_splits prod.splits)

lemma curve_fit_Inl:
  "curve_fit fit xs ys p0 = Inl e \<Longrightarrow>
   e = ValueError ''array must not contain infs or NaNs'' \<or> e = RuntimeError ''Optimal parameters not found''"
  by (auto simp: curve_fit_def split: if_splits option.splits)

text \<open>The figure is drawn after both fits, whenever there are at least two bins.\<close>

lemma length_bin_centres_hist:
  "np_histogram xs bins = Inr (hist, edges) \<Longrightarrow> length (bin_centres edges) = bins \<and> length hist = bins"
  by (auto simp: np_histogram_def bin_centres_def hist_edges_def hist_counts_def split: prod.splits if_splits)

lemma np_diff_first_ok: "2 \<le> length xs \<Longrightarrow> \<exists>w. np_diff_first xs = Inr w"
  by (cases xs rule: remdups_adj.cases) (auto simp: np_diff_first_def)

lemma logMUA_distribution_plot_eq:
  "logMUA_distribution_plot fit logMUA f s plot bins =
   (case logMUA_distribution fit logMUA bins of
      Inl e \<Rightarrow> Inl e
    | Inr (m0, s0) \<Rightarrow>
        (if plot then
          (case np_histogram (map f64_val (filter isfinite logMUA)) bins of
             Inl e \<Rightarrow> Inl e
           | Inr (hist, edges) \<Rightarrow>
               (case distribution_figure hist (map (\<lambda>x. x - m0) (bin_centres edges))
                       (real (length (filter (\<lambda>x. x \<le> m0) (map f64_val (filter isfinite logMUA)))) * 2 /
                        real (length (map f64_val (filter isfinite logMUA)))) s0 f s of
                  Inl e \<Rightarrow> Inl e
                | Inr fig \<Rightarrow> Inr ((m0, s0), Some fig)))
         else Inr ((m0, s0), None)))"
  unfolding logMUA_distribution_plot_def logMUA_distribution_def Let_def left_peak_def
  by (auto split: sum.splits prod.splits if_splits)

lemma logMUA_distribution_hist:
  "logMUA_distribution fit logMUA bins = Inr r \<Longrightarrow>
   \<exists>hist edges. np_histogram (map f64_val (filter isfinite logMUA)) bins = Inr (hist, edges)"
  by (cases "np_histogram (map f64_val (filter isfinite logMUA)) bins")
     (auto simp: logMUA_distribution_def)

lemma distribution_figure_Inr:
  "2 \<le> length xvalues \<Longrightarrow>
   \<exists>fig. distribution_figure hist xvalues ratio s0 f s = Inr fig \<and> fig_xvalues fig = xvalues \<and>
     fig_fit fig = map (\<lambda>x. f64_mul (Fin ratio) (gaussian x 0 s0)) xvalues \<and>
     fig_threshold_lines fig = (if f \<noteq> 0 then [f] else if s \<noteq> 0 then [s * s0] else [])"
  by (drule np_diff_first_ok) (auto simp: distribution_figure_def)

section \<open>Properties of the threshold estimator\<close>

text \<open>
  C8 (functional).  Non-finite logMUA values (NaN, \<open>\<plusminus>inf\<close>) are discarded before
  fitting: the estimate depends on the finite values only.
\<close>

theorem logMUA_distribution_finite_only:
  "logMUA_distribution fit (filter isfinite logMUA) bins = logMUA_distribution fit logMUA bins"
  by (simp add: logMUA_distribution_def)

text \<open>
  C9 (error).  Without any finite value the estimator fails with ValueError: the histogram
  of the empty sample is NaN, which \<open>curve_fit\<close> rejects (or the bin count is invalid).
\<close>

theorem logMUA_distribution_no_finite:
  assumes "\<not> list_ex isfinite logMUA"
  shows "\<exists>msg. logMUA_distribution fit logMUA bins = Inl (ValueError msg)"
proof -
  have f: "filter isfinite logMUA = []" using assms by (simp add: filter_empty_conv list_ex_iff)
  show ?thesis
  proof (cases "bins = 0")
    case True
    then show ?thesis by (simp add: logMUA_distribution_def f np_histogram_def)
  next
    case False
    then obtain es where "np_histogram [] bins = Inr (replicate bins NaN, es)"
      using np_histogram_empty_nan by blast
    moreover have "\<not> list_all isfinite (replicate bins NaN)" using False by (cases bins) simp_all
    ultimately show ?thesis by (simp add: logMUA_distribution_def f curve_fit_def)
  qed
qed

theorem logMUA_distribution_no_finite_witness:
  "\<not> list_ex isfinite [NaN, NegInf, PosInf] \<and>
   (\<exists>msg. logMUA_distribution (\<lambda>_ _ _. None) [NaN, NegInf, PosInf] 100 = Inl (ValueError msg))"
  using logMUA_distribution_no_finite [of "[NaN, NegInf, PosInf]" "\<lambda>_ _ _. None" 100] by simp

text \<open>
  C10 (functional).  A result \<open>(m0, s0)\<close> is the centre of the first fit, on the density
  histogram of the finite values with initial guess \<open>(-4, 1)\<close>, and the spread of the second
  fit, on the histogram of the mirrored lower half with initial guess \<open>(0, 1)\<close>.
\<close>

theorem logMUA_distribution_Inr:
  "logMUA_distribution fit logMUA bins = Inr (m0, s0) \<Longrightarrow>
   \<exists>h e s1 h2 e2 m1.
      np_histogram (map f64_val (filter isfinite logMUA)) bins = Inr (h, e) \<and>
      fit (bin_centres e) (map f64_val h) (-4, 1) = Some (m0, s1) \<and>
      np_histogram (mirrored_peak (map f64_val (filter isfinite logMUA)) m0) bins = Inr (h2, e2) \<and>
      fit (bin_centres e2) (map f64_val h2) (0, 1) = Some (m1, s0)"
  by (auto simp: logMUA_distribution_def curve_fit_def Let_def
      split: sum.splits option.splits if_splits prod.splits)

theorem logMUA_distribution_Inr_witness:
  "logMUA_distribution (\<lambda>_ _ _. Some (1, 2)) [Fin 1, NaN, Fin 3, NegInf, Fin 0] 100 = Inr (1, 2) \<and>
   (\<exists>h e s1 h2 e2 m1.
      np_histogram (map f64_val (filter isfinite [Fin 1, NaN, Fin 3, NegInf, Fin 0])) 100 = Inr (h, e) \<and>
      (\<lambda>_ _ _. Some (1 :: real, 2 :: real)) (bin_centres e) (map f64_val h) (-4, 1) = Some (1, s1) \<and>
      np_histogram (mirrored_peak (map f64_val (filter isfinite [Fin 1, NaN, Fin 3, NegInf, Fin 0])) 1) 100 = Inr (h2, e2) \<and>
      (\<lambda>_ _ _. Some (1 :: real, 2 :: real)) (bin_centres e2) (map f64_val h2) (0, 1) = Some (m1, 2))"
proof -
  have r: "logMUA_distribution (\<lambda>_ _ _. Some (1, 2)) [Fin 1, NaN, Fin 3, NegInf, Fin 0] 100 = Inr (1, 2)"
    by (rule logMUA_distribution_const_fit) simp_all
  show ?thesis using logMUA_distribution_Inr [OF r] r by blast
qed

text \<open>
  C11 (error, spec gap).  If the first fit places the peak below every finite value, the
  mirrored lower half is empty, its histogram is NaN, and the second \<open>curve_fit\<close> raises
  ValueError rather than a convergence error.
\<close>

theorem logMUA_distribution_empty_left:
  assumes bins: "0 < bins"
    and fin: "list_ex isfinite logMUA"
    and h: "np_histogram (map f64_val (filter isfinite logMUA)) bins = Inr (hist, edges)"
    and fit1: "fit (bin_centres edges) (map f64_val hist) (-4, 1) = Some (m0, s1)"
    and above: "\<forall>v \<in> set logMUA. isfinite v \<longrightarrow> m0 < f64_val v"
  shows "\<exists>msg. logMUA_distribution fit logMUA bins = Inl (ValueError msg)"
proof -
  define xs where "xs = map f64_val (filter isfinite logMUA)"
  have ne: "xs \<noteq> []" using fin by (auto simp: xs_def list_ex_iff filter_empty_conv)
  have allfin: "list_all isfinite hist"
    using h ne bins by (auto simp: xs_def np_histogram_def list_all_iff split: prod.splits)
  have empty: "mirrored_peak xs m0 = []"
    by (rule mirrored_peak_empty) (use above in \<open>auto simp: xs_def\<close>)
  obtain es where e2: "np_histogram [] bins = Inr (replicate bins NaN, es)"
    using np_histogram_empty_nan [OF bins] by blast
  have nf: "\<not> list_all isfinite (replicate bins NaN)" using bins by (cases bins) simp_all
  show ?thesis
    using h fit1 allfin ne e2 nf empty
    by (simp add: logMUA_distribution_def curve_fit_def xs_def [symmetric])
qed

theorem logMUA_distribution_empty_left_witness:
  "\<exists>msg. logMUA_distribution (\<lambda>_ _ _. Some (0, 1)) [Fin 1, Fin 2] 2 = Inl (ValueError msg)"
proof -
  have h: "np_histogram (map f64_val (filter isfinite [Fin 1, Fin 2])) 2 = Inr ([Fin 1, Fin 1], [1, 3/2, 2])"
    by code_simp
  show ?thesis
    by (rule logMUA_distribution_empty_left [OF _ _ h, of "\<lambda>_ _ _. Some (0, 1)" 0 1]) simp_all
qed

end
