(* ===== verification/Classify.thy ===== *)
theory Classify
  imports Threshold
begin

text \<open>
  The StateClassifier: \<open>create_state_vector\<close> of
  \<open>src/pipeline/fieldpotential_analysis/scripts/fp_up_down_detection.py\<close> (lines 80--90).
  The threshold is chosen by the truthiness of \<open>fixed_threshold\<close>
  (\<open>state_threshold\<close>): a non-zero fixed offset is added to \<open>m0\<close>, otherwise
  \<open>sigma_threshold * s0 + m0\<close>; no combination of the two parameters is rejected.
  Every logMUA sample, finite or not, is then compared with \<open>>\<close> (\<open>f64_gt\<close>): NaN and
  \<open>-inf\<close> are DOWN, \<open>+inf\<close> is UP.  The \<open>plot\<close> argument only adds the figure of
  \<open>logMUA_distribution_plot\<close>; C7 shows that it changes neither the estimate nor the
  errors (the classifier calls with 100 bins), so \<open>create_state_vector\<close> is modelled on
  the \<open>plot=False\<close> path, and that the figure marks the cutoff used here.
\<close>

definition state_threshold :: "real \<Rightarrow> real \<Rightarrow> real \<Rightarrow> real \<Rightarrow> real" where
  "state_threshold fixed_threshold sigma_threshold m0 s0 =
     (if fixed_threshold \<noteq> 0 then fixed_threshold + m0 else sigma_threshold * s0 + m0)"

definition classify :: "f64 list \<Rightarrow> real \<Rightarrow> bool list" where
  "classify logMUA threshold = map (\<lambda>v. f64_gt v threshold) logMUA"

definition create_state_vector :: "fitter \<Rightarrow> f64 list \<Rightarrow> real \<Rightarrow> real \<Rightarrow> py_error + bool list" where
  "create_state_vector fit logMUA fixed_threshold sigma_threshold =
     (case logMUA_distribution fit logMUA 100 of
        Inl e \<Rightarrow> Inl e
      | Inr (m0, s0) \<Rightarrow> Inr (classify logMUA (state_threshold fixed_threshold sigma_threshold m0 s0)))"

section \<open>Lemmas on the classifier\<close>

lemma f64_gt_anti: "t1 \<le> t2 \<Longrightarrow> f64_gt v t2 \<Longrightarrow> f64_gt v t1"
  by (cases v) auto

lemma classify_count_anti:
  "t1 \<le> t2 \<Longrightarrow> count_list (classify xs t2) True \<le> count_list (classify xs t1) True"
  by (induction xs) (auto simp: classify_def dest: f64_gt_anti)

lemma classify_pointwise_anti:
  "t1 \<le> t2 \<Longrightarrow> i < length xs \<Longrightarrow> classify xs t2 ! i \<Longrightarrow> classify xs t1 ! i"
  by (auto simp: classify_def dest: f64_gt_anti)

lemma create_state_vector_eq:
  "logMUA_distribution fit logMUA 100 = Inr (m0, s0) \<Longrightarrow>
   create_state_vector fit logMUA f s = Inr (classify logMUA (state_threshold f s m0 s0))"
  by (simp add: create_state_vector_def)


lemma create_state_vector_no_TypeError:
  "create_state_vector fit xs f s = Inl e \<Longrightarrow> e \<noteq> TypeError msg"
  unfolding create_state_vector_def logMUA_distribution_def Let_def
  by (auto split: sum.splits prod.splits if_splits dest!: np_histogram_Inl curve_fit_Inl)

section \<open>Properties of the classifier\<close>

text \<open>
  C12 (functional).  With \<open>fixed_threshold = 0\<close> and a non-negative spread, raising
  \<open>sigma_threshold\<close> never adds UP samples: every sample UP for the larger multiplier is
  UP for the smaller one, so the UP count does not grow.
\<close>

theorem create_state_vector_sigma_monotone:
  "logMUA_distribution fit logMUA 100 = Inr (m0, s0) \<Longrightarrow> 0 \<le> s0 \<Longrightarrow> sigma1 \<le> sigma2 \<Longrightarrow>
   create_state_vector fit logMUA 0 sigma1 = Inr sv1 \<Longrightarrow>
   create_state_vector fit logMUA 0 sigma2 = Inr sv2 \<Longrightarrow>
   count_list sv2 True \<le> count_list sv1 True \<and> (\<forall>i < length sv2. sv2 ! i \<longrightarrow> sv1 ! i)"
proof -
  assume d: "logMUA_distribution fit logMUA 100 = Inr (m0, s0)" and s: "0 \<le> s0"
    and le: "sigma1 \<le> sigma2"
    and r1: "create_state_vector fit logMUA 0 sigma1 = Inr sv1"
    and r2: "create_state_vector fit logMUA 0 sigma2 = Inr sv2"
  have t: "state_threshold 0 sigma1 m0 s0 \<le> state_threshold 0 sigma2 m0 s0"
    using s le by (simp add: state_threshold_def mult_right_mono)
  have sv1: "sv1 = classify logMUA (state_threshold 0 sigma1 m0 s0)"
    and sv2: "sv2 = classify logMUA (state_threshold 0 sigma2 m0 s0)"
    using r1 r2 create_state_vector_eq [OF d] by simp_all
  show ?thesis
    using classify_count_anti [OF t] classify_pointwise_anti [OF t]
    by (simp add: sv1 sv2 classify_def)
qed

theorem create_state_vector_sigma_monotone_witness:
  "create_state_vector (\<lambda>_ _ _. Some (1, 2)) [Fin 0, Fin 4, Fin 6] 0 1 = Inr [False, True, True] \<and>
   create_state_vector (\<lambda>_ _ _. Some (1, 2)) [Fin 0, Fin 4, Fin 6] 0 2 = Inr [False, False, True] \<and>
   count_list [False, False, True] True \<le> count_list [False, True, True] True"
proof -
  have d: "logMUA_distribution (\<lambda>_ _ _. Some (1, 2)) [Fin 0, Fin 4, Fin 6] 100 = Inr (1, 2)"
    by (rule logMUA_distribution_const_fit) simp_all
  have r1: "create_state_vector (\<lambda>_ _ _. Some (1, 2)) [Fin 0, Fin 4, Fin 6] 0 1 = Inr [False, True, True]"
    and r2: "create_state_vector (\<lambda>_ _ _. Some (1, 2)) [Fin 0, Fin 4, Fin 6] 0 2 = Inr [False, False, True]"
    by (simp_all add: create_state_vector_eq [OF d] state_threshold_def classify_def)
  show ?thesis using create_state_vector_sigma_monotone [OF d _ _ r1 r2] r1 r2 by simp
qed

text \<open>
  C13 (functional).  In the fixed mode (\<open>fixed_threshold \<noteq> 0\<close>) the result does not
  depend on \<open>sigma_threshold\<close>: the cutoff is \<open>m0 + fixed_threshold\<close>, bypassing the spread.
\<close>

theorem create_state_vector_fixed_ignores_sigma:
  "fixed_threshold \<noteq> 0 \<Longrightarrow>
   create_state_vector fit logMUA fixed_threshold sigma1 = create_state_vector fit logMUA fixed_threshold sigma2"
  by (simp add: create_state_vector_def state_threshold_def split: sum.splits)

theorem create_state_vector_fixed_ignores_sigma_witness:
  "create_state_vector (\<lambda>_ _ _. Some (1, 2)) [Fin 0, Fin 4] 2 1 =
   create_state_vector (\<lambda>_ _ _. Some (1, 2)) [Fin 0, Fin 4] 2 7 \<and>
   create_state_vector (\<lambda>_ _ _. Some (1, 2)) [Fin 0, Fin 4] 2 7 = Inr [False, True]"
proof -
  have d: "logMUA_distribution (\<lambda>_ _ _. Some (1, 2)) [Fin 0, Fin 4] 100 = Inr (1, 2)"
    by (rule logMUA_distribution_const_fit) simp_all
  have "create_state_vector (\<lambda>_ _ _. Some (1, 2)) [Fin 0, Fin 4] 2 7 = Inr [False, True]"
    by (simp add: create_state_vector_eq [OF d] state_threshold_def classify_def)
  with create_state_vector_fixed_ignores_sigma [of 2 "\<lambda>_ _ _. Some (1, 2)" "[Fin 0, Fin 4]" 1 7]
  show ?thesis by simp
qed

text \<open>
  C14 (error, finding).  No configuration is rejected: with neither threshold set
  (\<open>fixed_threshold = sigma_threshold = 0\<close>, the command line defaults) the samples are
  compared with \<open>m0\<close> itself, and no ConfigError is raised.
\<close>

theorem create_state_vector_unconfigured:
  "create_state_vector fit logMUA 0 0 =
     (case logMUA_distribution fit logMUA 100 of
        Inl e \<Rightarrow> Inl e
      | Inr (m0, s0) \<Rightarrow> Inr (classify logMUA m0))"
  by (auto simp: create_state_vector_def state_threshold_def split: sum.splits)

text \<open>
  C15 (functional).  The state vector has one entry per logMUA sample; NaN and \<open>-inf\<close>
  samples are DOWN and \<open>+inf\<close> samples are UP, whatever the threshold.
\<close>

theorem create_state_vector_nonfinite:
  "create_state_vector fit logMUA f s = Inr sv \<Longrightarrow>
   length sv = length logMUA \<and>
   (\<forall>i < length logMUA. ((logMUA ! i = NaN \<or> logMUA ! i = NegInf) \<longrightarrow> \<not> sv ! i) \<and>
                          (logMUA ! i = PosInf \<longrightarrow> sv ! i))"
  by (auto simp: create_state_vector_def classify_def split: sum.splits)

theorem create_state_vector_nonfinite_witness:
  "create_state_vector (\<lambda>_ _ _. Some (1, 2)) [Fin 0, NaN, PosInf, NegInf] 0 0 = Inr [False, False, True, False]"
proof -
  have d: "logMUA_distribution (\<lambda>_ _ _. Some (1, 2)) [Fin 0, NaN, PosInf, NegInf] 100 = Inr (1, 2)"
    by (rule logMUA_distribution_const_fit) simp_all
  have r: "create_state_vector (\<lambda>_ _ _. Some (1, 2)) [Fin 0, NaN, PosInf, NegInf] 0 0 =
      Inr [False, False, True, False]"
    by (simp add: create_state_vector_eq [OF d] state_threshold_def classify_def)
  from create_state_vector_nonfinite [OF r] r show ?thesis by simp
qed

text \<open>
  C7 (functional, consistency).  With at least two bins, drawing the diagnostic figure of
  \<open>logMUA_distribution\<close> fails exactly when the estimate fails and otherwise returns the
  same \<open>(m0, s0)\<close>; the figure's threshold line, on the axis centred at \<open>m0\<close>, is the
  cutoff \<open>create_state_vector\<close> classifies with (none when neither threshold is set),
  and the fitted curve is scaled by twice the fraction of finite samples at or below
  the peak.
\<close>

theorem figure_threshold_at_cutoff:
  assumes bins: "2 \<le> bins"
  shows "(case logMUA_distribution fit logMUA bins of
            Inl e \<Rightarrow> logMUA_distribution_plot fit logMUA f s True bins = Inl e
          | Inr (m0, s0) \<Rightarrow>
              (\<exists>fig. logMUA_distribution_plot fit logMUA f s True bins = Inr ((m0, s0), Some fig) \<and>
                 fig_threshold_lines fig = (if f \<noteq> 0 \<or> s \<noteq> 0 then [state_threshold f s m0 s0 - m0] else []) \<and>
                 fig_fit fig = map (\<lambda>x. f64_mul (Fin (2 * real (length (filter (\<lambda>v. isfinite v \<and> f64_val v \<le> m0) logMUA)) /
                                                     real (length (filter isfinite logMUA))))
                                             (gaussian x 0 s0)) (fig_xvalues fig)))"
proof (cases "logMUA_distribution fit logMUA bins")
  case (Inl e)
  then show ?thesis by (simp add: logMUA_distribution_plot_eq)
next
  case (Inr r)
  obtain m0 s0 where r: "r = (m0, s0)" by (cases r)
  from logMUA_distribution_hist [OF Inr] obtain hist edges
    where h: "np_histogram (map f64_val (filter isfinite logMUA)) bins = Inr (hist, edges)" by blast
  have "2 \<le> length (map (\<lambda>x. x - m0) (bin_centres edges))"
    using length_bin_centres_hist [OF h] bins by simp
  from distribution_figure_Inr [OF this, of hist _ s0 f s] obtain fig
    where fig: "distribution_figure hist (map (\<lambda>x. x - m0) (bin_centres edges)) 
        (real (length (filter (\<lambda>x. x \<le> m0) (map f64_val (filter isfinite logMUA)))) * 2 /
         real (length (map f64_val (filter isfinite logMUA)))) s0 f s = Inr fig"
      and fx: "fig_xvalues fig = map (\<lambda>x. x - m0) (bin_centres edges)"
      and ff: "fig_fit fig = map (\<lambda>x. f64_mul (Fin (real (length (filter (\<lambda>x. x \<le> m0) (map f64_val (filter isfinite logMUA)))) * 2 /
         real (length (map f64_val (filter isfinite logMUA))))) (gaussian x 0 s0)) (map (\<lambda>x. x - m0) (bin_centres edges))"
      and ft: "fig_threshold_lines fig = (if f \<noteq> 0 then [f] else if s \<noteq> 0 then [s * s0] else [])"
    by blast
  have cnt: "length (filter (\<lambda>x. x \<le> m0) (map f64_val (filter isfinite logMUA))) =
      length (filter (\<lambda>v. isfinite v \<and> f64_val v \<le> m0) logMUA)"
    by (simp add: filter_map filter_filter comp_def conj_commute)
  show ?thesis
    using Inr r h fig fx ff ft cnt by (simp add: logMUA_distribution_plot_eq state_threshold_def mult.commute)
qed

theorem figure_threshold_at_cutoff_witness:
  "2 \<le> (100::nat) \<and>
   (\<exists>fig. logMUA_distribution_plot (\<lambda>_ _ _. Some (1, 2)) [Fin 0, Fin 4] 2 7 True 100 = Inr ((1, 2), Some fig) \<and>
      fig_threshold_lines fig = [2] \<and> fig_fit fig = map (\<lambda>x. f64_mul (Fin 1) (gaussian x 0 2)) (fig_xvalues fig))"
proof -
  have d: "logMUA_distribution (\<lambda>_ _ _. Some (1, 2)) [Fin 0, Fin 4] 100 = Inr (1, 2)"
    by (rule logMUA_distribution_const_fit) simp_all
  from figure_threshold_at_cutoff [of 100 "\<lambda>_ _ _. Some (1, 2)" "[Fin 0, Fin 4]" 2 7]
  show ?thesis by (simp add: d state_threshold_def)
qed

end
