(* ===== verification/Pipeline.thy ===== *)
theory Pipeline
  imports Debounce Transitions Classify
begin

text \<open>
  The driver of the state detection script
  \<open>src/pipeline/fieldpotential_analysis/scripts/fp_up_down_detection.py\<close>:
  \<open>create_all_state_vectors\<close> (lines 93--118) runs, per logMUA channel,
  \<open>create_state_vector\<close>, \<open>remove_short_states\<close> and \<open>statevector_to_spiketrains\<close>.
  The last call passes \<open>times\<close>, \<open>t_start\<close>, \<open>sampling_rate\<close> and three provenance
  keywords explicitly and the channel's annotations with \<open>**\<close>; Python's merging of the
  keywords (\<open>merge_kwargs\<close>) and its binding to the signature
  \<open>(state_vector, sampling_rate, times, t_start, t_stop, **annotations)\<close>
  (\<open>bind_call\<close>) are modelled, so a missing or duplicated argument is a TypeError of the
  model.  The loop is \<open>fold_err\<close>: an exception in one channel ends the whole batch.
  Also here: \<open>remove_duplicate_properties\<close> and \<open>str2bool\<close> of the command line.
\<close>

section \<open>Signals and calls\<close>

text \<open>The fields of a neo AnalogSignal the script reads.\<close>

record analogsignal =
  sig_magnitude :: "f64 list"
  sig_times :: "real list"
  sig_t_start :: real
  sig_t_stop :: real
  sig_sampling_rate :: real
  sig_annotations :: "string \<rightharpoonup> pyval"

text \<open>
  Binding keyword arguments to a signature whose first \<open>npos\<close> parameters were passed
  positionally: a keyword naming one of them is a duplicate, a parameter without a value
  is missing, the other keywords go to \<open>**annotations\<close>.
\<close>

definition bind_call ::
  "string list \<Rightarrow> nat \<Rightarrow> (string \<rightharpoonup> 'v) \<Rightarrow> py_error + (string \<rightharpoonup> 'v) \<times> (string \<rightharpoonup> 'v)" where
  "bind_call params npos kw =
     (if list_ex (\<lambda>p. kw p \<noteq> None) (take npos params)
      then Inl (TypeError ''got multiple values for argument'')
      else (case filter (\<lambda>p. kw p = None) (drop npos params) of
              [] \<Rightarrow> Inr (kw |` set params, kw |` (- set params))
            | p # _ \<Rightarrow> Inl (TypeError (''missing required positional argument: '' @ p))))"

definition sv2st_params :: "string list" where
  "sv2st_params = [''state_vector'', ''sampling_rate'', ''times'', ''t_start'', ''t_stop'']"

fun as_real :: "pyval \<Rightarrow> real option" where
  "as_real (PFloat x) = Some x"
| "as_real (PInt i) = Some (real_of_int i)"
| "as_real _ = None"

fun as_array :: "pyval \<Rightarrow> real list option" where
  "as_array (PArr xs) = Some xs"
| "as_array _ = None"

text \<open>
  \<open>statevector_to_spiketrains(state_vector, **kw)\<close>: binding, then the body with the bound
  values (a value of the wrong kind is reported as TypeError).
\<close>

definition call_statevector_to_spiketrains ::
  "bool list \<Rightarrow> (string \<rightharpoonup> pyval) \<Rightarrow> py_error + spiketrain \<times> spiketrain" where
  "call_statevector_to_spiketrains sv kw =
     (case bind_call sv2st_params 1 kw of
        Inl e \<Rightarrow> Inl e
      | Inr (named, rest) \<Rightarrow>
          (case (as_real (the (named ''sampling_rate'')), as_array (the (named ''times'')),
                 as_real (the (named ''t_start'')), as_real (the (named ''t_stop''))) of
             (Some fs, Some ts, Some t0, Some t1) \<Rightarrow> statevector_to_spiketrains sv fs ts t0 t1 rest
           | _ \<Rightarrow> Inl (TypeError ''unsupported operand type'')))"

section \<open>The per-channel loop\<close>

definition process_channel ::
  "fitter \<Rightarrow> int \<Rightarrow> bool \<Rightarrow> real \<Rightarrow> real \<Rightarrow> analogsignal \<Rightarrow>
   py_error + bool list \<times> spiketrain \<times> spiketrain" where
  "process_channel fit min_state_duration remove_down_first fixed_threshold sigma_threshold asig =
     (case create_state_vector fit (sig_magnitude asig) fixed_threshold sigma_threshold of
        Inl e \<Rightarrow> Inl e
      | Inr sv0 \<Rightarrow>
          (let sv = remove_short_states sv0 min_state_duration remove_down_first in
           case merge_kwargs
                  [(''times'', PArr (sig_times asig)), (''t_start'', PFloat (sig_t_start asig)),
                   (''sampling_rate'', PFloat (sig_sampling_rate asig)),
                   (''fixed_threshold'', PFloat fixed_threshold),
                   (''sigma_threshold'', PFloat sigma_threshold),
                   (''min_state_duration'', PInt min_state_duration)]
                  (sig_annotations asig) of
             Inl e \<Rightarrow> Inl e
           | Inr kw \<Rightarrow>
               (case call_statevector_to_spiketrains sv kw of
                  Inl e \<Rightarrow> Inl e
                | Inr (ups, downs) \<Rightarrow> Inr (sv, ups, downs))))"

text \<open>One iteration of the channel loop (lines 100--115): the channel is processed and its
  results are appended to the three accumulators.\<close>

definition channel_iteration ::
  "fitter \<Rightarrow> int \<Rightarrow> bool \<Rightarrow> real \<Rightarrow> real \<Rightarrow> analogsignal \<Rightarrow>
   bool list list \<times> spiketrain list \<times> spiketrain list \<Rightarrow>
   py_error + bool list list \<times> spiketrain list \<times> spiketrain list" where
  "channel_iteration fit min_state_duration remove_down_first fixed_threshold sigma_threshold =
     (\<lambda>asig (svs, ups_all, downs_all).
          case process_channel fit min_state_duration remove_down_first fixed_threshold
                 sigma_threshold asig of
            Inl e \<Rightarrow> Inl e
          | Inr (sv, ups, downs) \<Rightarrow> Inr (svs @ [sv], ups_all @ [ups], downs_all @ [downs]))"

definition create_all_state_vectors ::
  "fitter \<Rightarrow> analogsignal list \<Rightarrow> int \<Rightarrow> bool \<Rightarrow> real \<Rightarrow> real \<Rightarrow>
   py_error + bool list list \<times> spiketrain list \<times> spiketrain list" where
  "create_all_state_vectors fit logMUA_signals min_state_duration remove_down_first
     fixed_threshold sigma_threshold =
     fold_err (channel_iteration fit min_state_duration remove_down_first fixed_threshold sigma_threshold)
       logMUA_signals ([], [], [])"

section \<open>Annotation bookkeeping and the command line\<close>

text \<open>Both scripts delete the keys \<open>nix_name\<close> and \<open>neo_name\<close> from each object's annotations.\<close>

definition remove_duplicate_properties ::
  "(string \<rightharpoonup> 'v) list \<Rightarrow> string list \<Rightarrow> (string \<rightharpoonup> 'v) list" where
  "remove_duplicate_properties objects del_keys =
     map (\<lambda>ann. fold (\<lambda>k a. if a k \<noteq> None then a(k := None) else a) del_keys ann) objects"

text \<open>Python's \<open>str.lower\<close> on the Latin-1 characters a \<open>char\<close> can hold.\<close>

definition py_lower_char :: "char \<Rightarrow> char" where
  "py_lower_char c =
     (let n = of_char c :: nat in
      if (65 \<le> n \<and> n \<le> 90) \<or> (192 \<le> n \<and> n \<le> 222 \<and> n \<noteq> 215) then char_of (n + 32) else c)"

definition py_lower :: "string \<Rightarrow> string" where
  "py_lower s = map py_lower_char s"

fun str2bool :: "pyval \<Rightarrow> py_error + bool" where
  "str2bool (PBool b) = Inr b"
| "str2bool (PStr v) =
     (if py_lower v \<in> set [''yes'', ''true'', ''t'', ''y'', ''1''] then Inr True
      else if py_lower v \<in> set [''no'', ''false'', ''f'', ''n'', ''0''] then Inr False
      else Inl (ArgumentTypeError ''Boolean value expected.''))"
| "str2bool _ = Inl (AttributeError ''lower'')"

text \<open>A two-sample channel used by the examples below.\<close>

definition demo_signal :: "(string \<rightharpoonup> pyval) \<Rightarrow> analogsignal" where
  "demo_signal ann = \<lparr>sig_magnitude = [Fin 0, Fin 4], sig_times = [0, 1], sig_t_start = 0,
     sig_t_stop = 2, sig_sampling_rate = 1, sig_annotations = ann\<rparr>"

section \<open>Lemmas on the driver\<close>

lemma bind_call_no_t_stop:
  "kw ''t_stop'' = None \<Longrightarrow> \<exists>e. bind_call sv2st_params 1 kw = Inl e"
  by (auto simp: bind_call_def sv2st_params_def split: list.splits)

lemma merge_kwargs_other:
  "merge_kwargs explicit extra = Inr kw \<Longrightarrow> k \<notin> set (map fst explicit) \<Longrightarrow> kw k = extra k"
proof -
  assume m: "merge_kwargs explicit extra = Inr kw" and k: "k \<notin> set (map fst explicit)"
  from k have "map_of explicit k = None" by (simp add: map_of_eq_None_iff)
  with m show ?thesis by (auto simp: merge_kwargs_def map_add_def split: if_splits)
qed

lemma process_channel_no_t_stop:
  "sig_annotations asig ''t_stop'' = None \<Longrightarrow>
   \<exists>e. process_channel fit m rdf f s asig = Inl e"
proof -
  assume none: "sig_annotations asig ''t_stop'' = None"
  show ?thesis
  proof (cases "create_state_vector fit (sig_magnitude asig) f s")
    case (Inl e)
    then show ?thesis by (simp add: process_channel_def)
  next
    case (Inr sv0)
    let ?ex = "[(''times'', PArr (sig_times asig)), (''t_start'', PFloat (sig_t_start asig)),
                (''sampling_rate'', PFloat (sig_sampling_rate asig)), (''fixed_threshold'', PFloat f),
                (''sigma_threshold'', PFloat s), (''min_state_duration'', PInt m)]"
    show ?thesis
    proof (cases "merge_kwargs ?ex (sig_annotations asig)")
      case (Inl e)
      with Inr show ?thesis by (simp add: process_channel_def)
    next
      case (Inr kw)
      then have "kw ''t_stop'' = None" using merge_kwargs_other [OF Inr] none by simp
      then obtain e where "bind_call sv2st_params 1 kw = Inl e" using bind_call_no_t_stop by blast
      with Inr \<open>create_state_vector fit (sig_magnitude asig) f s = Inr sv0\<close> show ?thesis
        by (simp add: process_channel_def call_statevector_to_spiketrains_def)
    qed
  qed
qed

lemma batch_channels:
  "fold_err (\<lambda>asig (svs, ups_all, downs_all).
      case process_channel fit m rdf f s asig of
        Inl e \<Rightarrow> Inl e
      | Inr (sv, ups, downs) \<Rightarrow> Inr (svs @ [sv], ups_all @ [ups], downs_all @ [downs]))
     xs (svs0, us0, ds0) = Inr (svs, us, ds) \<Longrightarrow>
   length svs = length svs0 + length xs \<and> length us = length us0 + length xs \<and>
   length ds = length ds0 + length xs \<and> take (length svs0) svs = svs0 \<and>
   (\<forall>k < length xs. \<exists>u d. process_channel fit m rdf f s (xs ! k) = Inr (svs ! (length svs0 + k), u, d))"
proof (induction xs arbitrary: svs0 us0 ds0)
  case Nil
  then show ?case by simp
next
  case (Cons x xs)
  from Cons.prems obtain sv u d where
    p: "process_channel fit m rdf f s x = Inr (sv, u, d)" and
    rest: "fold_err (\<lambda>asig (svs, ups_all, downs_all).
      case process_channel fit m rdf f s asig of
        Inl e \<Rightarrow> Inl e
      | Inr (sv, ups, downs) \<Rightarrow> Inr (svs @ [sv], ups_all @ [ups], downs_all @ [downs]))
     xs (svs0 @ [sv], us0 @ [u], ds0 @ [d]) = Inr (svs, us, ds)"
    by (auto split: sum.splits prod.splits)
  note IH = Cons.IH [OF rest]
  have tk: "take (length svs0) svs = svs0"
    using IH by (metis append_eq_conv_conj length_append_singleton take_take min_absorb1 le_SucI le_refl)
  have hd: "svs ! length svs0 = sv"
    using IH by (metis length_append_singleton lessI nth_append_length nth_take)
  show ?case
  proof (intro conjI allI impI)
    fix k assume k: "k < length (x # xs)"
    show "\<exists>u d. process_channel fit m rdf f s ((x # xs) ! k) = Inr (svs ! (length svs0 + k), u, d)"
    proof (cases k)
      case 0
      with p hd show ?thesis by simp
    next
      case (Suc j)
      with k IH show ?thesis by (auto simp: add_Suc_right)
    qed
  qed (use IH tk in simp_all)
qed

lemma process_channel_Inr:
  "process_channel fit m rdf f s asig = Inr (sv, up, down) \<Longrightarrow>
   \<exists>sv0. create_state_vector fit (sig_magnitude asig) f s = Inr sv0 \<and> sv = remove_short_states sv0 m rdf"
  by (auto simp: process_channel_def Let_def split: sum.splits prod.splits)

lemma statevector_to_spiketrains_annotations:
  "statevector_to_spiketrains sv fs ts t0 t1 ann = Inr (up, down) \<Longrightarrow>
   st_annotations up = ann \<and> st_annotations down = ann"
  by (auto simp: statevector_to_spiketrains_def SpikeTrain_def split: sum.splits prod.splits if_splits)

lemma process_channel_annotations:
  assumes "process_channel fit m rdf f s asig = Inr (sv, up, down)"
  shows "\<exists>kw. merge_kwargs
                  [(''times'', PArr (sig_times asig)), (''t_start'', PFloat (sig_t_start asig)),
                   (''sampling_rate'', PFloat (sig_sampling_rate asig)), (''fixed_threshold'', PFloat f),
                   (''sigma_threshold'', PFloat s), (''min_state_duration'', PInt m)]
                  (sig_annotations asig) = Inr kw \<and>
             st_annotations up = kw |` (- set sv2st_params) \<and> st_annotations down = kw |` (- set sv2st_params)"
  using assms statevector_to_spiketrains_annotations
  by (fastforce simp: process_channel_def call_statevector_to_spiketrains_def bind_call_def Let_def
      split: sum.splits prod.splits option.splits list.splits if_splits)

lemma fold_restrict:
  "fold (\<lambda>k a. if a k \<noteq> None then a(k := None) else a) keys ann = ann |` (- set keys)"
proof (induction keys arbitrary: ann)
  case Nil
  then show ?case by simp
next
  case (Cons k keys)
  let ?a = "if ann k \<noteq> None then ann(k := None) else ann"
  have "fold (\<lambda>k a. if a k \<noteq> None then a(k := None) else a) (k # keys) ann =
      fold (\<lambda>k a. if a k \<noteq> None then a(k := None) else a) keys ?a"
    by (simp only: fold_Cons comp_def)
  also have "\<dots> = ?a |` (- set keys)" by (rule Cons.IH)
  also have "\<dots> = ann |` (- set (k # keys))" by (auto simp: restrict_map_def fun_eq_iff)
  finally show ?case .
qed

lemma py_lower_char_idem: "py_lower_char (py_lower_char c) = py_lower_char c"
  by (auto simp: py_lower_char_def Let_def)


lemma demo_dist: "logMUA_distribution (\<lambda>_ _ _. Some (1, 2)) [Fin 0, Fin 4] 100 = Inr (1, 2)"
  by (rule logMUA_distribution_const_fit) simp_all

lemma bind_call_all_given:
  assumes "kw ''sampling_rate'' \<noteq> None" "kw ''times'' \<noteq> None" "kw ''t_start'' \<noteq> None" "kw ''t_stop'' \<noteq> None"
  shows "bind_call sv2st_params 1 kw \<in> {Inl (TypeError ''got multiple values for argument''),
                                        Inr (kw |` set sv2st_params, kw |` (- set sv2st_params))}"
  using assms by (auto simp: bind_call_def sv2st_params_def)

lemma call_statevector_to_spiketrains_t_stop:
  assumes ts: "kw ''t_stop'' = Some (PFloat t)"
    and g: "kw ''sampling_rate'' \<noteq> None" "kw ''times'' \<noteq> None" "kw ''t_start'' \<noteq> None"
  shows "call_statevector_to_spiketrains sv kw \<noteq> Inl (TypeError ''missing required positional argument: t_stop'') \<and>
         (\<forall>up down. call_statevector_to_spiketrains sv kw = Inr (up, down) \<longrightarrow> st_t_stop up = t \<and> st_t_stop down = t)"
proof -
  have b: "bind_call sv2st_params 1 kw \<in> {Inl (TypeError ''got multiple values for argument''),
                                        Inr (kw |` set sv2st_params, kw |` (- set sv2st_params))}"
    using bind_call_all_given [OF g] ts by simp
  have n: "(kw |` set sv2st_params) ''t_stop'' = Some (PFloat t)" using ts by (simp add: sv2st_params_def)
  show ?thesis
  proof (cases "bind_call sv2st_params 1 kw = Inr (kw |` set sv2st_params, kw |` (- set sv2st_params))")
    case True
    show ?thesis
      unfolding call_statevector_to_spiketrains_def True
      by (auto simp: n statevector_to_spiketrains_def SpikeTrain_def split: sum.splits option.splits if_splits
               dest: transition_scan_Inl)
  next
    case False
    with b show ?thesis by (simp add: call_statevector_to_spiketrains_def)
  qed
qed

lemma process_channel_t_stop_given:
  assumes t: "sig_annotations asig ''t_stop'' = Some (PFloat t)"
  shows "process_channel fit m rdf f s asig \<noteq> Inl (TypeError ''missing required positional argument: t_stop'') \<and>
         (\<forall>sv up down. process_channel fit m rdf f s asig = Inr (sv, up, down) \<longrightarrow>
            st_t_stop up = t \<and> st_t_stop down = t)"
proof (cases "create_state_vector fit (sig_magnitude asig) f s")
  case (Inl e)
  then have "process_channel fit m rdf f s asig = Inl e" by (simp add: process_channel_def)
  with Inl show ?thesis by (auto dest: create_state_vector_no_TypeError)
next
  case (Inr sv0)
  define ex where "ex = [(''times'', PArr (sig_times asig)), (''t_start'', PFloat (sig_t_start asig)),
              (''sampling_rate'', PFloat (sig_sampling_rate asig)), (''fixed_threshold'', PFloat f),
              (''sigma_threshold'', PFloat s), (''min_state_duration'', PInt m)]"
  have p: "process_channel fit m rdf f s asig =
      (case merge_kwargs ex (sig_annotations asig) of
         Inl e \<Rightarrow> Inl e
       | Inr kw \<Rightarrow> (case call_statevector_to_spiketrains (remove_short_states sv0 m rdf) kw of
                     Inl e \<Rightarrow> Inl e
                   | Inr (ups, downs) \<Rightarrow> Inr (remove_short_states sv0 m rdf, ups, downs)))"
    by (simp add: process_channel_def Inr ex_def Let_def)
  show ?thesis
  proof (cases "merge_kwargs ex (sig_annotations asig)")
    case (Inl e)
    then have "e = TypeError ''got multiple values for keyword argument''"
      by (simp add: merge_kwargs_def split: if_splits)
    with Inl show ?thesis by (simp add: p)
  next
    case (Inr kw)
    from merge_kwargs_Inr [OF Inr] t have kw: "kw = sig_annotations asig ++ map_of ex"
      and ts: "kw ''t_stop'' = Some (PFloat t)" by (simp_all add: map_add_def ex_def)
    have g: "kw ''sampling_rate'' \<noteq> None" "kw ''times'' \<noteq> None" "kw ''t_start'' \<noteq> None"
      by (simp_all add: kw ex_def)
    note c = call_statevector_to_spiketrains_t_stop [OF ts g, of "remove_short_states sv0 m rdf"]
    show ?thesis
    proof (cases "call_statevector_to_spiketrains (remove_short_states sv0 m rdf) kw")
      case (Inl e)
      with c Inr show ?thesis by (simp add: p)
    next
      case (Inr r)
      with c \<open>merge_kwargs ex (sig_annotations asig) = Inr kw\<close> show ?thesis by (cases r) (simp add: p)
    qed
  qed
qed

lemma demo_batch:
  "\<exists>r. create_all_state_vectors (\<lambda>_ _ _. Some (1, 2)) [demo_signal [''t_stop'' \<mapsto> PFloat 2]] 2 True 0 1 = Inr r"
  by (simp add: create_all_state_vectors_def channel_iteration_def process_channel_def demo_signal_def create_state_vector_eq [OF demo_dist]
      state_threshold_def classify_def remove_short_states_spec clear_short_runs_def merge_kwargs_def
      call_statevector_to_spiketrains_def bind_call_def sv2st_params_def statevector_to_spiketrains_def
      transition_scan_def SpikeTrain_def transition_step_def Let_def)

section \<open>Properties of the driver and the command line\<close>

text \<open>
  C16 (error, finding).  \<open>statevector_to_spiketrains\<close> requires \<open>t_stop\<close>, which the call
  in \<open>create_all_state_vectors\<close> never passes: unless a channel's annotations carry a
  \<open>t_stop\<close> key, that channel raises TypeError and the whole batch fails.
\<close>

theorem create_all_state_vectors_needs_t_stop:
  "\<exists>asig \<in> set signals. sig_annotations asig ''t_stop'' = None \<Longrightarrow>
   \<exists>e. create_all_state_vectors fit signals m rdf f s = Inl e"
proof (rule ccontr)
  assume ex: "\<exists>asig \<in> set signals. sig_annotations asig ''t_stop'' = None"
    and no: "\<nexists>e. create_all_state_vectors fit signals m rdf f s = Inl e"
  then obtain svs us ds where r: "create_all_state_vectors fit signals m rdf f s = Inr (svs, us, ds)"
    by (metis sumE prod_cases3)
  from ex obtain k where k: "k < length signals" "sig_annotations (signals ! k) ''t_stop'' = None"
    by (metis in_set_conv_nth)
  from batch_channels [OF r [unfolded create_all_state_vectors_def channel_iteration_def]] k(1)
  obtain u d where "process_channel fit m rdf f s (signals ! k) = Inr (svs ! k, u, d)" by auto
  with process_channel_no_t_stop [OF k(2)] show False by (metis Inl_Inr_False)
qed

theorem create_all_state_vectors_needs_t_stop_witness:
  "create_all_state_vectors (\<lambda>_ _ _. Some (1, 2)) [demo_signal Map.empty] 2 True 0 1 =
     Inl (TypeError ''missing required positional argument: t_stop'') \<and>
   (\<exists>e. create_all_state_vectors (\<lambda>_ _ _. Some (1, 2)) [demo_signal Map.empty] 2 True 0 1 = Inl e)"
proof -
  have "sig_annotations (demo_signal Map.empty) ''t_stop'' = None" by (simp add: demo_signal_def)
  then have "\<exists>e. create_all_state_vectors (\<lambda>_ _ _. Some (1, 2)) [demo_signal Map.empty] 2 True 0 1 = Inl e"
    by (intro create_all_state_vectors_needs_t_stop) auto
  moreover have "create_all_state_vectors (\<lambda>_ _ _. Some (1, 2)) [demo_signal Map.empty] 2 True 0 1 =
      Inl (TypeError ''missing required positional argument: t_stop'')"
    by (simp add: create_all_state_vectors_def channel_iteration_def process_channel_def demo_signal_def create_state_vector_eq [OF demo_dist]
      state_threshold_def classify_def remove_short_states_spec clear_short_runs_def merge_kwargs_def
      call_statevector_to_spiketrains_def bind_call_def sv2st_params_def statevector_to_spiketrains_def
      transition_scan_def SpikeTrain_def transition_step_def Let_def)
  ultimately show ?thesis by blast
qed

text \<open>
  C17 (functional).  On success the results are in channel order: one state vector per
  channel, the \<open>k\<close>-th the debounced classification of the \<open>k\<close>-th signal.
\<close>

theorem create_all_state_vectors_channel_order:
  "create_all_state_vectors fit signals m rdf f s = Inr (svs, us, ds) \<Longrightarrow>
   length svs = length signals \<and> length us = length signals \<and> length ds = length signals \<and>
   (\<forall>k < length signals. \<exists>sv0.
      create_state_vector fit (sig_magnitude (signals ! k)) f s = Inr sv0 \<and>
      svs ! k = remove_short_states sv0 m rdf)"
proof -
  assume r: "create_all_state_vectors fit signals m rdf f s = Inr (svs, us, ds)"
  note b = batch_channels [OF r [unfolded create_all_state_vectors_def channel_iteration_def]]
  have "\<forall>k < length signals. \<exists>sv0.
      create_state_vector fit (sig_magnitude (signals ! k)) f s = Inr sv0 \<and>
      svs ! k = remove_short_states sv0 m rdf"
  proof (intro allI impI)
    fix k assume "k < length signals"
    with b obtain u d where "process_channel fit m rdf f s (signals ! k) = Inr (svs ! k, u, d)" by auto
    then show "\<exists>sv0. create_state_vector fit (sig_magnitude (signals ! k)) f s = Inr sv0 \<and>
        svs ! k = remove_short_states sv0 m rdf"
      by (rule process_channel_Inr)
  qed
  with b show ?thesis by simp
qed

theorem create_all_state_vectors_channel_order_witness:
  "\<exists>svs us ds.
     create_all_state_vectors (\<lambda>_ _ _. Some (1, 2)) [demo_signal [''t_stop'' \<mapsto> PFloat 2]] 2 True 0 1 =
       Inr (svs, us, ds) \<and> length svs = 1 \<and> svs ! 0 = remove_short_states [False, True] 2 True"
proof -
  from demo_batch obtain svs us ds where r: "create_all_state_vectors (\<lambda>_ _ _. Some (1, 2))
      [demo_signal [''t_stop'' \<mapsto> PFloat 2]] 2 True 0 1 = Inr (svs, us, ds)"
    by (metis prod_cases3)
  have c: "create_state_vector (\<lambda>_ _ _. Some (1, 2)) [Fin 0, Fin 4] 0 1 = Inr [False, True]"
    by (simp add: create_state_vector_eq [OF demo_dist] state_threshold_def classify_def)
  show ?thesis using create_all_state_vectors_channel_order [OF r] c r by (auto simp: demo_signal_def)
qed

text \<open>
  C18 (error, finding).  Failures are not contained per channel: if the fit fails for any
  channel, the batch returns an error and no channel's result is kept.
\<close>

theorem create_all_state_vectors_no_isolation:
  "\<exists>asig \<in> set signals. \<exists>e. create_state_vector fit (sig_magnitude asig) f s = Inl e \<Longrightarrow>
   \<exists>e. create_all_state_vectors fit signals m rdf f s = Inl e"
proof (rule ccontr)
  assume ex: "\<exists>asig \<in> set signals. \<exists>e. create_state_vector fit (sig_magnitude asig) f s = Inl e"
    and no: "\<nexists>e. create_all_state_vectors fit signals m rdf f s = Inl e"
  then obtain svs us ds where r: "create_all_state_vectors fit signals m rdf f s = Inr (svs, us, ds)"
    by (metis sumE prod_cases3)
  from ex obtain k e where k: "k < length signals"
      "create_state_vector fit (sig_magnitude (signals ! k)) f s = Inl e"
    by (metis in_set_conv_nth)
  from batch_channels [OF r [unfolded create_all_state_vectors_def channel_iteration_def]] k(1)
  obtain u d where "process_channel fit m rdf f s (signals ! k) = Inr (svs ! k, u, d)" by auto
  with process_channel_Inr k(2) show False by fastforce
qed

theorem create_all_state_vectors_no_isolation_witness:
  "\<exists>e. create_all_state_vectors (\<lambda>_ _ _. None)
        [demo_signal [''t_stop'' \<mapsto> PFloat 2], demo_signal [''t_stop'' \<mapsto> PFloat 2]] 2 True 0 1 = Inl e"
proof -
  have "create_state_vector (\<lambda>_ _ _. None) [Fin 0, Fin 4] 0 1 = Inl (RuntimeError ''Optimal parameters not found'')"
    by (simp add: create_state_vector_def logMUA_distribution_no_fit)
  then show ?thesis
    by (intro create_all_state_vectors_no_isolation) (auto simp: demo_signal_def)
qed

text \<open>
  C19 (functional, finding).  A channel's spike trains carry its annotations plus
  \<open>fixed_threshold\<close>, \<open>sigma_threshold\<close> and \<open>min_state_duration\<close>; the debounce order
  \<open>remove_down_first\<close> is not recorded (the key holds only what the input carried).
\<close>

theorem process_channel_provenance:
  "process_channel fit m rdf f s asig = Inr (sv, up, down) \<Longrightarrow>
   st_annotations up ''fixed_threshold'' = Some (PFloat f) \<and>
   st_annotations up ''sigma_threshold'' = Some (PFloat s) \<and>
   st_annotations up ''min_state_duration'' = Some (PInt m) \<and>
   st_annotations up ''remove_down_first'' = sig_annotations asig ''remove_down_first'' \<and>
   st_annotations down = st_annotations up"
proof -
  assume p: "process_channel fit m rdf f s asig = Inr (sv, up, down)"
  then obtain kw where m: "merge_kwargs
                  [(''times'', PArr (sig_times asig)), (''t_start'', PFloat (sig_t_start asig)),
                   (''sampling_rate'', PFloat (sig_sampling_rate asig)), (''fixed_threshold'', PFloat f),
                   (''sigma_threshold'', PFloat s), (''min_state_duration'', PInt m)]
                  (sig_annotations asig) = Inr kw"
    and up: "st_annotations up = kw |` (- set sv2st_params)"
    and down: "st_annotations down = kw |` (- set sv2st_params)"
    using process_channel_annotations by blast
  have kw: "kw = sig_annotations asig ++ map_of
                  [(''times'', PArr (sig_times asig)), (''t_start'', PFloat (sig_t_start asig)),
                   (''sampling_rate'', PFloat (sig_sampling_rate asig)), (''fixed_threshold'', PFloat f),
                   (''sigma_threshold'', PFloat s), (''min_state_duration'', PInt m)]"
    using m by (simp add: merge_kwargs_def split: if_splits)
  show ?thesis using up down by (simp add: kw sv2st_params_def)
qed

theorem process_channel_provenance_witness:
  "\<exists>sv up down.
     process_channel (\<lambda>_ _ _. Some (1, 2)) 2 True 0 1 (demo_signal [''t_stop'' \<mapsto> PFloat 2]) =
       Inr (sv, up, down) \<and>
     st_annotations up ''min_state_duration'' = Some (PInt 2) \<and> st_annotations up ''remove_down_first'' = None"
proof -
  have "\<exists>r. process_channel (\<lambda>_ _ _. Some (1, 2)) 2 True 0 1 (demo_signal [''t_stop'' \<mapsto> PFloat 2]) = Inr r"
    by (simp add: process_channel_def demo_signal_def create_state_vector_eq [OF demo_dist]
      state_threshold_def classify_def remove_short_states_spec clear_short_runs_def merge_kwargs_def
      call_statevector_to_spiketrains_def bind_call_def sv2st_params_def statevector_to_spiketrains_def
      transition_scan_def SpikeTrain_def transition_step_def Let_def)
  then obtain sv up down where p: "process_channel (\<lambda>_ _ _. Some (1, 2)) 2 True 0 1
      (demo_signal [''t_stop'' \<mapsto> PFloat 2]) = Inr (sv, up, down)"
    by (metis prod_cases3)
  show ?thesis using process_channel_provenance [OF p] p by (auto simp: demo_signal_def)
qed

lemma str2bool_str_roundtrip: "str2bool (PStr (if b then ''True'' else ''False'')) = Inr b"
proof -
  have t: "str2bool (PStr ''True'') = Inr True" by code_simp
  have f: "str2bool (PStr ''False'') = Inr False" by code_simp
  show ?thesis using t f by (cases b) simp_all
qed

text \<open>
  C20 (functional, roundtrip).  \<open>str2bool\<close> is case-insensitive (a string and its
  lower-case form parse alike), and parsing Python's \<open>str(b)\<close> of a boolean gives \<open>b\<close> back.
\<close>

theorem str2bool_case_insensitive:
  "str2bool (PStr v) = str2bool (PStr (py_lower v)) \<and>
   str2bool (PStr (if b then ''True'' else ''False'')) = Inr b"
proof (rule conjI)
  show "str2bool (PStr v) = str2bool (PStr (py_lower v))"
    by (simp add: py_lower_def comp_def py_lower_char_idem)
qed (rule str2bool_str_roundtrip)

text \<open>Both scripts' \<open>remove_duplicate_properties\<close> restrict every annotation map to the other keys.\<close>

lemma remove_duplicate_properties_restrict:
  "remove_duplicate_properties objects del_keys = map (\<lambda>ann. ann |` (- set del_keys)) objects"
  unfolding remove_duplicate_properties_def fold_restrict by (rule refl)

end
