(* ===== verification/LogMUA.thy ===== *)
theory LogMUA
  imports Prelude
begin

text \<open>
  The SpectralActivityEstimator:
  \<open>src/snakemake_workflow/fieldpotential_analysis/scripts/fp_logMUA_estimation.py\<close>.
  A raw channel is a neo AnalogSignal, a two-dimensional array of \<open>R\<close> samples by \<open>C\<close>
  channels (\<open>as_array()\<close> keeps both axes), modelled as its column count and its list of
  rows.  \<open>detrending\<close> is translated with numpy's broadcasting rules, so that the shape
  of every intermediate array is part of the model; \<open>logMUA_estimation\<close> and
  \<open>build_logMUA_segment\<close> follow the script line by line.  Elephant's \<open>welch_psd\<close> is a
  library the script only calls: it is a parameter \<open>welch\<close> of the model, applied to the
  squeezed window with the keyword arguments the script passes.
\<close>

section \<open>numpy arrays and Python slicing\<close>

text \<open>
  An array of rank 0, 1 or 2; \<open>A2 c rows\<close> has \<open>c\<close> columns (kept explicitly, so that
  an array with no rows still has a shape).
\<close>

datatype ndarray = A0 f64 | A1 "f64 list" | A2 nat "f64 list list"

text \<open>\<open>np.squeeze\<close>: every axis of length one is removed.\<close>

fun np_squeeze :: "ndarray \<Rightarrow> ndarray" where
  "np_squeeze (A0 x) = A0 x"
| "np_squeeze (A1 xs) = (if length xs = 1 then A0 (hd xs) else A1 xs)"
| "np_squeeze (A2 c rows) =
     (if length rows = 1 \<and> c = 1 then A0 (hd (hd rows))
      else if length rows = 1 then A1 (hd rows)
      else if c = 1 then A1 (map hd rows)
      else A2 c rows)"

text \<open>\<open>np.mean(a)\<close> over all elements.\<close>

fun np_mean_all :: "ndarray \<Rightarrow> f64" where
  "np_mean_all (A0 x) = x"
| "np_mean_all (A1 xs) = f64_mean xs"
| "np_mean_all (A2 c rows) = f64_mean (concat rows)"

text \<open>
  A Python slice bound: a negative index counts from the end, and the result is clamped
  to \<open>[0, n]\<close>.
\<close>

definition py_slice_index :: "nat \<Rightarrow> int \<Rightarrow> nat" where
  "py_slice_index n a = nat (if a < 0 then max 0 (int n + a) else min a (int n))"

definition py_slice :: "'a list \<Rightarrow> int \<Rightarrow> int \<Rightarrow> 'a list" where
  "py_slice xs a b =
     (let lo = py_slice_index (length xs) a; hi = py_slice_index (length xs) b
      in take (hi - lo) (drop lo xs))"

text \<open>\<open>p[lo:hi]\<close> on an array slices its first axis; a 0-d array has no axis to slice.\<close>

fun np_slice :: "ndarray \<Rightarrow> nat \<Rightarrow> nat \<Rightarrow> py_error + ndarray" where
  "np_slice (A0 _) _ _ = Inl IndexError"
| "np_slice (A1 xs) lo hi = Inr (A1 (py_slice xs (int lo) (int hi)))"
| "np_slice (A2 c rows) lo hi = Inr (A2 c (py_slice rows (int lo) (int hi)))"

text \<open>\<open>np.where(cond(f))[0][0]\<close>: the first index where the condition holds.\<close>

definition np_where_first :: "(real \<Rightarrow> bool) \<Rightarrow> real list \<Rightarrow> py_error + nat" where
  "np_where_first P f =
     (case filter (\<lambda>k. P (f ! k)) [0..<length f] of [] \<Rightarrow> Inl IndexError | k # _ \<Rightarrow> Inr k)"

text \<open>\<open>np.linspace(a, b, n)\<close>.\<close>

definition linspace :: "real \<Rightarrow> real \<Rightarrow> nat \<Rightarrow> real list" where
  "linspace a b n =
     (if n = 0 then [] else if n = 1 then [a]
      else map (\<lambda>k. a + real k * ((b - a) / real (n - 1))) [0..<n])"

section \<open>Detrending\<close>

text \<open>\<open>np.mean(X, axis=0)\<close> and \<open>X - np.mean(X, axis=0)\<close>: one mean per column.\<close>

definition col_means :: "nat \<Rightarrow> f64 list list \<Rightarrow> f64 list" where
  "col_means c rows = map (\<lambda>j. f64_mean (map (\<lambda>r. r ! j) rows)) [0..<c]"

definition sub_col_means :: "nat \<Rightarrow> f64 list list \<Rightarrow> f64 list list" where
  "sub_col_means c rows = map (\<lambda>r. map2 f64_sub r (col_means c rows)) rows"

text \<open>\<open>np.diff(X, axis=0)\<close>: differences of consecutive rows.\<close>

definition diff_rows :: "f64 list list \<Rightarrow> f64 list list" where
  "diff_rows rows = map2 (\<lambda>a b. map2 f64_sub b a) rows (tl rows)"

text \<open>
  \<open>X - d\<close> for \<open>X\<close> of shape \<open>(R, c)\<close> and \<open>d\<close> of shape \<open>(L,)\<close>: the trailing axes are
  aligned; \<open>c = L\<close> subtracts \<open>d\<close> from every row, \<open>c = 1\<close> broadcasts the column
  against \<open>d\<close> into shape \<open>(R, L)\<close>, \<open>L = 1\<close> subtracts the one value, and otherwise
  numpy raises ValueError.
\<close>

definition bcast_sub :: "nat \<Rightarrow> f64 list list \<Rightarrow> f64 list \<Rightarrow> py_error + nat \<times> f64 list list" where
  "bcast_sub c rows d =
     (if c = length d then Inr (c, map (\<lambda>r. map2 f64_sub r d) rows)
      else if c = 1 then Inr (length d, map (\<lambda>r. map (\<lambda>x. f64_sub (hd r) x) d) rows)
      else if length d = 1 then Inr (c, map (map (\<lambda>x. f64_sub x (hd d))) rows)
      else Inl (ValueError ''operands could not be broadcast together''))"

definition detrend_factor :: "real list" where
  "detrend_factor = [1, 1 / 2, 1 / 6]"

text \<open>
  One iteration of the \<open>for i in np.arange(order-1)+1\<close> loop:
  \<^verbatim>\<open>detrend = np.linspace(-window_size/2., window_size/2., window_size)**i \
          * np.mean(np.diff(X, n=i, axis=0)) * factor[i-1]
X = X - detrend\<close>
\<close>

definition detrend_step ::
  "nat \<Rightarrow> nat \<Rightarrow> nat \<times> f64 list list \<Rightarrow> py_error + nat \<times> f64 list list" where
  "detrend_step window_size i X =
     (case X of (c, rows) \<Rightarrow>
        (case py_nth detrend_factor (i - 1) of
           Inl e \<Rightarrow> Inl e
         | Inr fac \<Rightarrow>
             (let slope = f64_mean (concat ((diff_rows ^^ i) rows));
                  detrend = map (\<lambda>x. f64_mul (f64_mul (Fin (x ^ i)) slope) (Fin fac))
                              (linspace (- real window_size / 2) (real window_size / 2) window_size)
              in bcast_sub c rows detrend)))"

text \<open>\<open>detrending(asig, order)\<close> on the window \<open>X = asig.as_array()\<close>.\<close>

definition detrending :: "nat \<times> f64 list list \<Rightarrow> int \<Rightarrow> py_error + nat \<times> f64 list list" where
  "detrending X order =
     (case X of (c, rows) \<Rightarrow>
        (let window_size = length rows;
             X1 = (if order > 0 then (c, sub_col_means c rows) else (c, rows))
         in if order > 1 then fold_err (detrend_step window_size) [1..<nat order] X1 else Inr X1))"

section \<open>The logMUA estimate\<close>

text \<open>
  The fields of a raw neo AnalogSignal the script reads.  neo derives \<open>t_stop\<close> from the
  start time, the number of samples and the sampling rate.
\<close>

record rawsignal =
  raw_nchan :: nat
  raw_samples :: "f64 list list"
  raw_t_start :: real
  raw_sampling_rate :: real
  raw_annotations :: "string \<rightharpoonup> pyval"

definition raw_t_stop :: "rawsignal \<Rightarrow> real" where
  "raw_t_stop asig = raw_t_start asig + real (length (raw_samples asig)) / raw_sampling_rate asig"

text \<open>The logMUA AnalogSignal the script builds (its sampling rate may be NaN).\<close>

record logmua_signal =
  lm_magnitude :: "f64 list"
  lm_t_start :: real
  lm_sampling_rate :: f64
  lm_annotations :: "string \<rightharpoonup> pyval"

text \<open>
  \<open>elephant.spectral.welch_psd(x, freq_res, overlap, window='hanning', fs, ...)\<close>, given
  the frequency resolution, the overlap, the sampling rate and the array: it returns the
  frequency grid and the power along the last axis, or raises.
\<close>

type_synonym welch_psd = "real \<Rightarrow> real \<Rightarrow> real \<Rightarrow> ndarray \<Rightarrow> py_error + real list \<times> ndarray"

text \<open>
  The body of the \<open>for i in range(sample_num)\<close> loop of \<open>logMUA_estimation\<close>: slice the
  \<open>i\<close>-th window, detrend it, estimate its spectrum and average the power between the
  first frequency \<open>>= freq_band[0]\<close> and the first frequency \<open>>= freq_band[1]\<close>.
\<close>

definition mua_window ::
  "welch_psd \<Rightarrow> rawsignal \<Rightarrow> real \<Rightarrow> int \<Rightarrow> real \<times> real \<Rightarrow> int \<Rightarrow> real \<Rightarrow> nat \<Rightarrow> py_error + f64" where
  "mua_window welch analogsignal fs FFTWindowSize freq_band detrending_order psd_overlap i =
     (case detrending (raw_nchan analogsignal,
             py_slice (raw_samples analogsignal) (int i * FFTWindowSize) ((int i + 1) * FFTWindowSize))
             detrending_order of
        Inl e \<Rightarrow> Inl e
      | Inr (c, X) \<Rightarrow>
          (case welch (fst freq_band) psd_overlap fs (np_squeeze (A2 c X)) of
             Inl e \<Rightarrow> Inl e
           | Inr (f, p) \<Rightarrow>
               (case np_where_first (\<lambda>x. fst freq_band \<le> x) f of
                  Inl e \<Rightarrow> Inl e
                | Inr low_idx \<Rightarrow>
                    (case np_where_first (\<lambda>x. snd freq_band \<le> x) f of
                       Inl e \<Rightarrow> Inl e
                     | Inr high_idx \<Rightarrow>
                         (case np_slice p low_idx high_idx of
                            Inl e \<Rightarrow> Inl e
                          | Inr q \<Rightarrow> Inr (np_mean_all q))))))"

text \<open>
  The named parameters of \<open>neo.AnalogSignal\<close>; every other keyword argument becomes an
  annotation.  \<open>signal\<close> is passed positionally.
\<close>

definition neo_asig_params :: "string list" where
  "neo_asig_params = [''signal'', ''units'', ''dtype'', ''copy'', ''t_start'', ''sampling_rate'',
     ''sampling_period'', ''name'', ''file_origin'', ''description'', ''array_annotations'']"

text \<open>The keyword arguments \<open>logMUA_estimation\<close> passes besides \<open>**analogsignal.annotations\<close>.\<close>

definition logMUA_kwargs ::
  "rawsignal \<Rightarrow> real \<Rightarrow> int \<Rightarrow> real \<times> real \<Rightarrow> f64 \<Rightarrow> int \<Rightarrow> real \<Rightarrow> (string \<times> pyval) list" where
  "logMUA_kwargs analogsignal fs FFTWindowSize freq_band MUA_sampling_rate detrending_order psd_overlap =
     [(''units'', PStr ''dimensionless''),
      (''t_start'', PFloat (raw_t_start analogsignal)),
      (''t_stop'', PFloat (raw_t_stop analogsignal)),
      (''sampling_rate'', PF64 MUA_sampling_rate),
      (''FFTWindowSize'', PInt FFTWindowSize),
      (''freq_band'', PPair (fst freq_band) (snd freq_band)),
      (''detrending_order'', PInt detrending_order),
      (''psd_freq_res'', PFloat (fst freq_band)),
      (''psd_overlap'', PFloat psd_overlap),
      (''psd_fs'', PFloat fs)]"

definition logMUA_estimation ::
  "welch_psd \<Rightarrow> rawsignal \<Rightarrow> real \<Rightarrow> int \<Rightarrow> int \<Rightarrow> real \<times> real \<Rightarrow> f64 \<Rightarrow> int \<Rightarrow> real \<Rightarrow>
   py_error + logmua_signal" where
  "logMUA_estimation welch analogsignal fs sample_num FFTWindowSize freq_band MUA_sampling_rate
     detrending_order psd_overlap =
     (if sample_num < 0 then Inl (ValueError ''negative dimensions are not allowed'')
      else
        (case fold_err
                (assign_err
                   (mua_window welch analogsignal fs FFTWindowSize freq_band detrending_order psd_overlap))
                [0..<nat sample_num] (replicate (nat sample_num) (Fin 0)) of
           Inl e \<Rightarrow> Inl e
         | Inr MUA \<Rightarrow>
             (case merge_kwargs
                     (logMUA_kwargs analogsignal fs FFTWindowSize freq_band MUA_sampling_rate
                        detrending_order psd_overlap)
                     (raw_annotations analogsignal) of
                Inl e \<Rightarrow> Inl e
              | Inr kw \<Rightarrow>
                  if kw ''signal'' \<noteq> None
                  then Inl (TypeError ''got multiple values for argument'')
                  else Inr \<lparr>lm_magnitude = map f64_log MUA, lm_t_start = raw_t_start analogsignal,
                            lm_sampling_rate = MUA_sampling_rate,
                            lm_annotations = kw |` (- set neo_asig_params)\<rparr>)))"

text \<open>Python's \<open>round\<close> on a float (halves to even) followed by \<open>int\<close>.\<close>

definition round_half_even :: "real \<Rightarrow> int" where
  "round_half_even x =
     (let f = \<lfloor>x\<rfloor>; d = x - of_int f
      in if d < 1 / 2 then f else if 1 / 2 < d then f + 1 else if even f then f else f + 1)"

fun py_int_round :: "f64 \<Rightarrow> py_error + int" where
  "py_int_round (Fin x) = Inr (round_half_even x)"
| "py_int_round NaN = Inl (ValueError ''cannot convert float NaN to integer'')"
| "py_int_round _ = Inl (OverflowError ''cannot convert float infinity to integer'')"

text \<open>
  \<open>build_logMUA_segment\<close>: the window size, the number of windows and the logMUA sampling
  rate are computed from the first signal of the segment and used for every signal.
\<close>

definition build_logMUA_segment ::
  "welch_psd \<Rightarrow> rawsignal list \<Rightarrow> real \<times> real \<Rightarrow> int \<Rightarrow> real \<Rightarrow> py_error + logmua_signal list" where
  "build_logMUA_segment welch analogsignals freq_band detrending_order psd_overlap =
     (case analogsignals of
        [] \<Rightarrow> Inl IndexError
      | asig # _ \<Rightarrow>
          (let fs = raw_sampling_rate asig in
           case py_int_round (f64_div fs (fst freq_band)) of
             Inl e \<Rightarrow> Inl e
           | Inr FFTWindowSize \<Rightarrow>
               if FFTWindowSize = 0 then Inl ZeroDivisionError
               else
                 (let sample_num = \<lfloor>real (length (raw_samples asig)) / of_int FFTWindowSize\<rfloor>;
                      MUA_sampling_rate = f64_div (of_int sample_num) (raw_t_stop asig - raw_t_start asig)
                  in fold_err
                       (\<lambda>a acc. case logMUA_estimation welch a fs sample_num FFTWindowSize freq_band
                                      MUA_sampling_rate detrending_order psd_overlap of
                                 Inl e \<Rightarrow> Inl e
                               | Inr l \<Rightarrow> Inr (acc @ [l]))
                       analogsignals [])))"

text \<open>A four-sample channel and a fixed spectrum used by the examples below.\<close>

definition demo_welch :: welch_psd where
  "demo_welch freq_res overlap fs x = Inr ([0, 1, 2, 3], A1 [Fin 4, Fin 6, Fin 8, Fin 10])"

definition demo_raw :: "(string \<rightharpoonup> pyval) \<Rightarrow> rawsignal" where
  "demo_raw ann = \<lparr>raw_nchan = 1, raw_samples = [[Fin 1], [Fin 2], [Fin 3], [Fin 4]], raw_t_start = 0,
                   raw_sampling_rate = 4, raw_annotations = ann\<rparr>"

section \<open>Lemmas on the estimator\<close>


lemma sum_list_diffs:
  "xs \<noteq> [] \<Longrightarrow> sum_list (map2 (\<lambda>a b. b - a) xs (tl xs)) = last xs - (hd xs :: real)"
  by (induction xs rule: induct_list012) auto

lemma diff_rows_col: "diff_rows (map (\<lambda>x. [Fin x]) xs) = map (\<lambda>x. [Fin x]) (map2 (\<lambda>a b. b - a) xs (tl xs))"
  by (induction xs rule: induct_list012) (simp_all add: diff_rows_def)

lemma length_linspace [simp]: "length (linspace a b n) = n"
  by (simp add: linspace_def)

lemma detrend_step_ge4: "4 \<le> i \<Longrightarrow> detrend_step R i X = Inl IndexError"
proof -
  assume "4 \<le> i"
  then have "py_nth detrend_factor (i - 1) = Inl IndexError"
    by (simp add: py_nth_def detrend_factor_def)
  then show ?thesis by (simp add: detrend_step_def split: prod.splits)
qed

lemma detrend_step_ok:
  assumes i: "1 \<le> i" "i \<le> 3" and c: "c = 1 \<or> c = length rows"
  shows "\<exists>c' rows'. detrend_step (length rows) i (c, rows) = Inr (c', rows') \<and>
           length rows' = length rows \<and> (c' = 1 \<or> c' = length rows')"
proof -
  have "i - 1 < length detrend_factor" using i by (simp add: detrend_factor_def)
  then have f: "py_nth detrend_factor (i - 1) = Inr (detrend_factor ! (i - 1))" by simp
  show ?thesis using c f by (auto simp: detrend_step_def Let_def bcast_sub_def)
qed


lemma detrend_steps_ok:
  assumes "length rows = R" "c = 1 \<or> c = R" "n \<le> 4"
  shows "\<exists>c' rows'. fold_err (detrend_step R) [1..<n] (c, rows) = Inr (c', rows') \<and>
           length rows' = R \<and> (c' = 1 \<or> c' = R)"
proof -
  let ?P = "\<lambda>(c' :: nat, rows' :: f64 list list). length rows' = R \<and> (c' = 1 \<or> c' = R)"
  have "\<exists>b'. fold_err (detrend_step R) [1..<n] (c, rows) = Inr b' \<and> ?P b'"
  proof (rule fold_err_inv)
    fix i b assume i: "i \<in> set [1..<n]" and p: "?P b"
    obtain c' rows' where b: "b = (c', rows')" by fastforce
    from i assms(3) have "1 \<le> i" "i \<le> 3" by auto
    from detrend_step_ok [OF this, of c' rows'] p b
    show "\<exists>b'. detrend_step R i b = Inr b' \<and> ?P b'" by auto
  qed (use assms in simp)
  then show ?thesis by auto
qed

lemma length_sub_col_means [simp]: "length (sub_col_means c rows) = length rows"
  by (simp add: sub_col_means_def)

text \<open>
  C24 (error, finding).  On a one-channel window (or one with as many channels as
  samples) \<open>detrending\<close> fails exactly for \<open>order >= 5\<close>, with the IndexError of
  \<open>factor[i-1]\<close>; orders 3 and 4 are accepted although the spec admits only 0, 1 and 2.
\<close>

theorem detrending_order_error:
  assumes c: "c = 1 \<or> c = length rows"
  shows "(detrending (c, rows) order = Inl IndexError \<longleftrightarrow> 5 \<le> order) \<and>
         (order < 5 \<longrightarrow> (\<exists>X. detrending (c, rows) order = Inr X))"
proof -
  define R where "R = length rows"
  define rows1 where "rows1 = (if order > 0 then sub_col_means c rows else rows)"
  define X1 where "X1 = (c, rows1)"
  have x1: "X1 = (c, rows1)" and l1: "length rows1 = R"
    by (simp_all add: X1_def R_def rows1_def)
  have d: "detrending (c, rows) order =
      (if order > 1 then fold_err (detrend_step R) [1..<nat order] X1 else Inr X1)"
    by (simp add: detrending_def X1_def R_def rows1_def Let_def)
  have c1: "c = 1 \<or> c = R" using c by (simp add: R_def)
  show ?thesis
  proof (cases "5 \<le> order")
    case True
    then have "4 < nat order" by simp
    then have u: "[1..<nat order] = [1..<4] @ [4..<nat order]"
      using upt_add_eq_append [of 1 4 "nat order - 4"] by simp
    have u4: "[4..<nat order] = 4 # [5..<nat order]" using \<open>4 < nat order\<close> by (simp add: upt_rec)
    obtain c' r' where "fold_err (detrend_step R) [1..<4] (c, rows1) = Inr (c', r')"
      using detrend_steps_ok [OF l1 c1, of 4] by auto
    then have "fold_err (detrend_step R) [1..<nat order] (c, rows1) = Inl IndexError"
      unfolding u u4 fold_err_append by (simp add: detrend_step_ge4)
    then have "detrending (c, rows) order = Inl IndexError"
      using True by (simp add: d x1)
    then show ?thesis using True by simp
  next
    case False
    then have r: "\<exists>X. detrending (c, rows) order = Inr X"
    proof (cases "order > 1")
      case True
      with False have "nat order \<le> 4" by simp
      then obtain c' r' where "fold_err (detrend_step R) [1..<nat order] (c, rows1) = Inr (c', r')"
        using detrend_steps_ok [OF l1 c1] by blast
      then show ?thesis using True by (simp add: d x1)
    qed (simp add: d)
    then show ?thesis using False by auto
  qed
qed

lemma col_means_single:
  "xs \<noteq> [] \<Longrightarrow> col_means (Suc 0) (map (\<lambda>x. [Fin x]) xs) = [Fin (sum_list xs / real (length xs))]"
  by (simp add: col_means_def comp_def)

lemma sub_col_means_single:
  "xs \<noteq> [] \<Longrightarrow> sub_col_means (Suc 0) (map (\<lambda>x. [Fin x]) xs) =
     map (\<lambda>x. [Fin (x - sum_list xs / real (length xs))]) xs"
  by (simp add: sub_col_means_def col_means_single)

text \<open>
  C23 (functional, finding).  With the default \<open>detrending_order = 2\<close> a one-channel window
  of \<open>R >= 2\<close> samples is not detrended into \<open>R\<close> samples: \<open>X\<close> has shape \<open>(R, 1)\<close> and
  the trend has shape \<open>(R,)\<close>, so \<open>X - detrend\<close> broadcasts to an \<open>R x R\<close> matrix whose row
  \<open>r\<close> is the de-meaned sample \<open>x_r - mean\<close> minus the whole ramp
  \<open>linspace(-R/2, R/2, R) * slope\<close>, the slope being the mean first difference
  \<open>(x_(R-1) - x_0) / (R - 1)\<close>.
\<close>

theorem detrending_order2_square:
  assumes R: "2 \<le> length xs"
  shows "detrending (1, map (\<lambda>x. [Fin x]) xs) 2 =
    Inr (length xs,
         map (\<lambda>x. map (\<lambda>l. Fin (x - sum_list xs / real (length xs) - l * ((last xs - hd xs) / real (length xs - 1))))
                   (linspace (- real (length xs) / 2) (real (length xs) / 2) (length xs)))
             xs)"
proof -
  define mu where "mu = sum_list xs / real (length xs)"
  define b where "b = (last xs - hd xs) / real (length xs - 1)"
  define ys where "ys = map (\<lambda>x. x - mu) xs"
  have ne: "xs \<noteq> []" and ysne: "ys \<noteq> []" using R by (auto simp: ys_def)
  have s1: "sub_col_means 1 (map (\<lambda>x. [Fin x]) xs) = map (\<lambda>y. [Fin y]) ys"
    using sub_col_means_single [OF ne] by (simp add: ys_def mu_def comp_def)
  have tel: "sum_list (map2 (\<lambda>a b. b - a) ys (tl ys)) = last xs - hd xs"
    using sum_list_diffs [OF ysne] ne by (simp add: ys_def last_map hd_map)
  have ld: "length (map2 (\<lambda>a b. b - (a::real)) ys (tl ys)) = length xs - 1"
    by (simp add: ys_def)
  have ldne: "map2 (\<lambda>a b. b - (a::real)) ys (tl ys) \<noteq> []"
  proof
    assume "map2 (\<lambda>a b. b - (a::real)) ys (tl ys) = []"
    then have "length (map2 (\<lambda>a b. b - (a::real)) ys (tl ys)) = 0" by (simp only: list.size)
    with ld R show False by simp
  qed
  have cm: "concat ((diff_rows ^^ 1) (map (\<lambda>y. [Fin y]) ys)) = map Fin (map2 (\<lambda>a b. b - a) ys (tl ys))"
    by (induction ys rule: induct_list012) (simp_all add: diff_rows_def)
  have slope: "f64_mean (concat ((diff_rows ^^ 1) (map (\<lambda>y. [Fin y]) ys))) = Fin b"
    unfolding cm f64_mean_Fin [OF ldne] tel ld b_def ..
  have "detrending (1, map (\<lambda>x. [Fin x]) xs) 2 =
        detrend_step (length xs) 1 (1, map (\<lambda>y. [Fin y]) ys)"
    by (simp add: detrending_def s1 [simplified] upt_rec Let_def split: sum.split)
  also have "\<dots> = bcast_sub 1 (map (\<lambda>y. [Fin y]) ys)
                   (map (\<lambda>l. Fin (l * b)) (linspace (- real (length xs) / 2) (real (length xs) / 2) (length xs)))"
    by (simp add: detrend_step_def py_nth_def detrend_factor_def slope [simplified] Let_def)
  also have "\<dots> = Inr (length xs, map (\<lambda>y. map (\<lambda>l. Fin (y - l * b))
                   (linspace (- real (length xs) / 2) (real (length xs) / 2) (length xs))) ys)"
    using R by (simp add: bcast_sub_def comp_def)
  finally show ?thesis by (simp add: ys_def mu_def b_def comp_def)
qed


lemma f64_mean_Fin_comp:
  "xs \<noteq> [] \<Longrightarrow> f64_mean (map (Fin \<circ> f) xs) = Fin (sum_list (map f xs) / real (length xs))"
  using f64_mean_Fin [of "map f xs"] by simp

lemma col_means_Fin:
  assumes "M \<noteq> []" "\<forall>r\<in>set M. length r = c"
  shows "col_means c (map (map Fin) M) = map Fin (map (\<lambda>j. sum_list (map (\<lambda>r. r ! j) M) / real (length M)) [0..<c])"
proof -
  have e: "j < c \<Longrightarrow> map (\<lambda>r. map Fin r ! j) M = map Fin (map (\<lambda>r. r ! j) M)" for j
    using assms(2) by simp
  show ?thesis unfolding col_means_def map_map comp_def
    by (rule map_cong [OF refl]) (simp add: e assms(1) f64_mean_Fin_comp)
qed

text \<open>
  C31 (functional).  With \<open>detrending_order = 1\<close> a finite window keeps its shape and every
  channel (column) of the result sums to zero: the window mean is removed.
\<close>

theorem detrending_order1_centres:
  assumes ne: "M \<noteq> []" and w: "\<forall>r\<in>set M. length r = c"
  shows "\<exists>M'. detrending (c, map (map Fin) M) 1 = Inr (c, map (map Fin) M') \<and> length M' = length M \<and>
              (\<forall>r\<in>set M'. length r = c) \<and> (\<forall>j<c. sum_list (map (\<lambda>r. r ! j) M') = 0)"
proof -
  define mu where "mu = map (\<lambda>j. sum_list (map (\<lambda>r. r ! j) M) / real (length M)) [0..<c]"
  define M' where "M' = map (\<lambda>r. map2 (-) r mu) M"
  have lmu: "length mu = c" by (simp add: mu_def)
  have "sub_col_means c (map (map Fin) M) = map (map Fin) M'"
    using col_means_Fin [OF ne w] w by (simp add: sub_col_means_def M'_def mu_def [symmetric] zip_map1 zip_map2 comp_def case_prod_beta)
  then have d: "detrending (c, map (map Fin) M) 1 = Inr (c, map (map Fin) M')"
    by (simp add: detrending_def)
  have lr: "\<forall>r\<in>set M'. length r = c" using w lmu by (auto simp: M'_def)
  have "sum_list (map (\<lambda>r. r ! j) M') = 0" if j: "j < c" for j
  proof -
    have "map (\<lambda>r. r ! j) M' = map (\<lambda>r. r ! j - mu ! j) M"
      using w j lmu by (simp add: M'_def)
    then have "sum_list (map (\<lambda>r. r ! j) M') = sum_list (map (\<lambda>r. r ! j) M) - real (length M) * (mu ! j)"
      by (simp add: sum_list_subtractf sum_list_triv)
    also have "\<dots> = 0" using ne j by (simp add: mu_def)
    finally show ?thesis .
  qed
  moreover have "length M' = length M" by (simp add: M'_def)
  ultimately show ?thesis using d lr by blast
qed

lemma py_slice_index_nat [simp]: "py_slice_index n (int k) = min k n"
  by (auto simp: py_slice_index_def min_def)

lemma py_slice_nat: "py_slice xs (int a) (int b) = take (min b (length xs) - min a (length xs)) (drop a xs)"
  by (simp add: py_slice_def min_def)

lemma py_slice_window:
  assumes "0 < W" "(i + 1) * W \<le> length xs"
  shows "py_slice xs (int i * int W) ((int i + 1) * int W) = take W (drop (i * W) xs)"
proof -
  have e: "int i * int W = int (i * W)" "(int i + 1) * int W = int ((i + 1) * W)"
    by (simp_all add: algebra_simps)
  show ?thesis unfolding e py_slice_nat using assms(2) by (simp add: algebra_simps min_def)
qed

lemma demo_windows:
  "mua_window demo_welch a fs W (1, 3) 0 ov i = Inr (Fin 7)"
  by (simp add: mua_window_def demo_welch_def detrending_def np_where_first_def f64_mean_def f64_sum_def
      py_slice_def py_slice_index_def split: prod.splits)

lemma logMUA_estimation_Inr:
  assumes "logMUA_estimation welch a fs n W band rate order ov = Inr l"
  shows "0 \<le> n \<and> length (lm_magnitude l) = nat n \<and>
         (\<forall>i<nat n. \<exists>v. mua_window welch a fs W band order ov i = Inr v \<and> lm_magnitude l ! i = f64_log v) \<and>
         lm_t_start l = raw_t_start a \<and> lm_sampling_rate l = rate \<and>
         (\<exists>kw. merge_kwargs (logMUA_kwargs a fs W band rate order ov) (raw_annotations a) = Inr kw \<and>
               lm_annotations l = kw |` (- set neo_asig_params))"
proof -
  let ?g = "assign_err (mua_window welch a fs W band order ov)"
  from assms obtain M kw where n: "0 \<le> n"
    and f: "fold_err ?g [0..<nat n] (replicate (nat n) (Fin 0)) = Inr M"
    and k: "merge_kwargs (logMUA_kwargs a fs W band rate order ov) (raw_annotations a) = Inr kw"
    and l: "l = \<lparr>lm_magnitude = map f64_log M, lm_t_start = raw_t_start a, lm_sampling_rate = rate,
                 lm_annotations = kw |` (- set neo_asig_params)\<rparr>"
    by (auto simp: logMUA_estimation_def split: if_splits sum.splits)
  from fold_err_assign [OF f] have "length M = nat n" "\<forall>i<nat n. mua_window welch a fs W band order ov i = Inr (M ! i)"
    by simp_all
  with n k l show ?thesis by auto
qed

lemma logMUA_estimation_annotations:
  assumes "logMUA_estimation welch a fs n W band rate order ov = Inr l"
  shows "lm_annotations l = (raw_annotations a ++ map_of (logMUA_kwargs a fs W band rate order ov)) |` (- set neo_asig_params) \<and>
         (\<forall>k\<in>set (map fst (logMUA_kwargs a fs W band rate order ov)). raw_annotations a k = None)"
proof -
  obtain kw where k: "merge_kwargs (logMUA_kwargs a fs W band rate order ov) (raw_annotations a) = Inr kw"
    and l: "lm_annotations l = kw |` (- set neo_asig_params)"
    using logMUA_estimation_Inr [OF assms] by blast
  from merge_kwargs_Inr [OF k] l show ?thesis by simp
qed

lemma logMUA_estimation_values:
  "logMUA_estimation welch a fs n W band rate order ov = Inr l \<Longrightarrow>
   length (lm_magnitude l) = nat n \<and>
   (\<forall>i<nat n. \<exists>v. mua_window welch a fs W band order ov i = Inr v \<and> lm_magnitude l ! i = f64_log v)"
  using logMUA_estimation_Inr by blast

lemma logMUA_estimation_provenance:
  assumes "logMUA_estimation welch a fs n W band rate order ov = Inr l"
  shows "lm_annotations l ''t_stop'' = Some (PFloat (raw_t_stop a)) \<and>
         lm_annotations l ''FFTWindowSize'' = Some (PInt W) \<and>
         lm_annotations l ''freq_band'' = Some (PPair (fst band) (snd band)) \<and>
         lm_annotations l ''detrending_order'' = Some (PInt order) \<and>
         lm_annotations l ''psd_freq_res'' = Some (PFloat (fst band)) \<and>
         lm_annotations l ''psd_overlap'' = Some (PFloat ov) \<and>
         lm_annotations l ''psd_fs'' = Some (PFloat fs) \<and>
         lm_t_start l = raw_t_start a \<and> lm_sampling_rate l = rate \<and>
         (\<forall>k. k \<notin> set neo_asig_params \<longrightarrow> raw_annotations a k \<noteq> None \<longrightarrow> lm_annotations l k = raw_annotations a k)"
proof -
  from logMUA_estimation_annotations [OF assms]
  have l: "lm_annotations l = (raw_annotations a ++ map_of (logMUA_kwargs a fs W band rate order ov)) |` (- set neo_asig_params)"
    and none: "\<forall>k\<in>set (map fst (logMUA_kwargs a fs W band rate order ov)). raw_annotations a k = None" by simp_all
  have r: "lm_t_start l = raw_t_start a" "lm_sampling_rate l = rate"
    using logMUA_estimation_Inr [OF assms] by simp_all
  have "lm_annotations l k = raw_annotations a k"
    if "k \<notin> set neo_asig_params" "raw_annotations a k \<noteq> None" for k
  proof -
    have "k \<notin> set (map fst (logMUA_kwargs a fs W band rate order ov))" using none that(2) by auto
    then have "map_of (logMUA_kwargs a fs W band rate order ov) k = None" by (simp add: map_of_eq_None_iff)
    then show ?thesis using that(1) by (simp add: l restrict_map_def map_add_def)
  qed
  then show ?thesis using r by (simp add: l logMUA_kwargs_def neo_asig_params_def restrict_map_def)
qed

text \<open>
  C26 (functional).  A logMUA signal has one sample per window, \<open>floor(len/W)\<close> of them as
  the caller computes it, and sample \<open>i\<close> is the natural logarithm of the mean band power of
  window \<open>i\<close>.  It carries the provenance the spec asks for (window size, band, detrending
  order, PSD resolution, overlap and sampling rate) and, because \<open>neo.AnalogSignal\<close> has no
  \<open>t_stop\<close> parameter, an annotation \<open>t_stop\<close> holding the raw signal's stop time; every other
  annotation of the raw signal is passed through.
\<close>

theorem logMUA_estimation_output:
  assumes "logMUA_estimation welch a fs n W band rate order ov = Inr l"
  shows "length (lm_magnitude l) = nat n \<and>
         (\<forall>i<nat n. \<exists>v. mua_window welch a fs W band order ov i = Inr v \<and> lm_magnitude l ! i = f64_log v) \<and>
         lm_annotations l ''t_stop'' = Some (PFloat (raw_t_stop a)) \<and>
         lm_annotations l ''FFTWindowSize'' = Some (PInt W) \<and>
         lm_annotations l ''freq_band'' = Some (PPair (fst band) (snd band)) \<and>
         lm_annotations l ''detrending_order'' = Some (PInt order) \<and>
         lm_annotations l ''psd_freq_res'' = Some (PFloat (fst band)) \<and>
         lm_annotations l ''psd_overlap'' = Some (PFloat ov) \<and>
         lm_annotations l ''psd_fs'' = Some (PFloat fs) \<and>
         lm_t_start l = raw_t_start a \<and> lm_sampling_rate l = rate \<and>
         (\<forall>k. k \<notin> set neo_asig_params \<longrightarrow> raw_annotations a k \<noteq> None \<longrightarrow> lm_annotations l k = raw_annotations a k)"
  using logMUA_estimation_values [OF assms] logMUA_estimation_provenance [OF assms] by blast

theorem logMUA_estimation_output_witness:
  "\<exists>l. logMUA_estimation demo_welch (demo_raw Map.empty) 4 2 2 (1, 3) (Fin 1) 0 (1 / 2) = Inr l \<and>
       lm_magnitude l = [Fin (ln 7), Fin (ln 7)] \<and> lm_annotations l ''t_stop'' = Some (PFloat 1)"
proof -
  have "\<exists>l. logMUA_estimation demo_welch (demo_raw Map.empty) 4 2 2 (1, 3) (Fin 1) 0 (1 / 2) = Inr l"
    by (simp add: logMUA_estimation_def demo_windows assign_err_def merge_kwargs_def logMUA_kwargs_def
        demo_raw_def numeral_2_eq_2)
  then obtain l where l: "logMUA_estimation demo_welch (demo_raw Map.empty) 4 2 2 (1, 3) (Fin 1) 0 (1 / 2) = Inr l" ..
  note o = logMUA_estimation_output [OF l]
  from o have "length (lm_magnitude l) = 2"
    and v: "\<forall>i<2. lm_magnitude l ! i = Fin (ln 7)" by (auto simp: demo_windows)
  then have "lm_magnitude l = [Fin (ln 7), Fin (ln 7)]"
    by (intro nth_equalityI) (auto simp: less_2_cases_iff)
  moreover have "lm_annotations l ''t_stop'' = Some (PFloat 1)"
    using o by (simp add: raw_t_stop_def demo_raw_def)
  ultimately show ?thesis using l by blast
qed

text \<open>
  C28 (error).  When every window is estimated, the call to \<open>neo.AnalogSignal\<close> raises
  TypeError exactly when the raw signal already has an annotation named like one of the
  explicit keyword arguments (\<open>t_stop\<close>, \<open>FFTWindowSize\<close>, \<open>freq_band\<close>, ...).
\<close>

theorem logMUA_estimation_kwarg_clash:
  assumes n: "0 \<le> n" and w: "\<forall>i<nat n. \<exists>v. mua_window welch a fs W band order ov i = Inr v"
  shows "logMUA_estimation welch a fs n W band rate order ov = Inl (TypeError ''got multiple values for keyword argument'') \<longleftrightarrow>
         (\<exists>k\<in>set (map fst (logMUA_kwargs a fs W band rate order ov)). raw_annotations a k \<noteq> None)"
proof -
  obtain M where m: "fold_err (assign_err (mua_window welch a fs W band order ov)) [0..<nat n]
      (replicate (nat n) (Fin 0)) = Inr M"
    using fold_err_assign_ok [OF w] by blast
  show ?thesis
    using n by (auto simp: logMUA_estimation_def m merge_kwargs_def list_ex_iff)
qed

lemma np_where_first_none: "\<not> list_ex P f \<Longrightarrow> np_where_first P f = Inl IndexError"
proof -
  assume h: "\<not> list_ex P f"
  have "filter (\<lambda>k. P (f ! k)) [0..<length f] = []"
    using h nth_mem by (fastforce simp: filter_empty_conv list_ex_iff)
  then show ?thesis by (simp add: np_where_first_def)
qed

lemma np_where_first_Inl: "np_where_first P f = Inl e \<Longrightarrow> e = IndexError"
  by (simp add: np_where_first_def split: list.splits)

text \<open>
  C29 (error).  If the spectrum of the first window has no frequency at or above the upper
  band edge, \<open>np.where(...)[0][0]\<close> raises IndexError and the channel fails; the spec's
  band-range error is this IndexError.
\<close>

theorem logMUA_estimation_band_error:
  assumes n: "0 < n"
    and d: "detrending (raw_nchan a, take (nat W) (raw_samples a)) order = Inr (c, X)"
    and w: "welch (fst band) ov fs (np_squeeze (A2 c X)) = Inr (f, p)"
    and hi: "\<not> list_ex (\<lambda>x. snd band \<le> x) f" and W: "0 \<le> W"
  shows "logMUA_estimation welch a fs n W band rate order ov = Inl IndexError"
proof -
  have s: "py_slice (raw_samples a) (int 0 * W) ((int 0 + 1) * W) = take (nat W) (raw_samples a)"
    using W by (simp add: py_slice_def py_slice_index_def min_def nat_le_iff)
  have "mua_window welch a fs W band order ov 0 = Inl IndexError"
    using d w np_where_first_none [OF hi]
    by (simp only: mua_window_def s) (auto split: sum.splits dest: np_where_first_Inl)
  with n show ?thesis by (simp add: logMUA_estimation_def fold_err_assign_first)
qed

lemma fold_err_collect:
  "fold_err (\<lambda>a acc. case g a of Inl e \<Rightarrow> Inl e | Inr l \<Rightarrow> Inr (acc @ [l])) xs acc0 = Inr ls \<Longrightarrow>
   \<exists>ls'. ls = acc0 @ ls' \<and> list_all2 (\<lambda>a l. g a = Inr l) xs ls'"
proof (induction xs arbitrary: acc0)
  case Nil
  then show ?case by simp
next
  case (Cons x xs)
  then obtain l where gl: "g x = Inr l"
    and r: "fold_err (\<lambda>a acc. case g a of Inl e \<Rightarrow> Inl e | Inr l \<Rightarrow> Inr (acc @ [l])) xs (acc0 @ [l]) = Inr ls"
    by (cases "g x") simp_all
  from Cons.IH [OF r] obtain ls' where "ls = acc0 @ [l] @ ls'" "list_all2 (\<lambda>a l. g a = Inr l) xs ls'"
    by auto
  with gl show ?case by (intro exI [of _ "l # ls'"]) simp
qed

lemma build_logMUA_segment_fold:
  assumes b: "build_logMUA_segment welch asigs band order ov = Inr ls"
  shows "\<exists>fs n W rate. fold_err (\<lambda>a acc. case logMUA_estimation welch a fs n W band rate order ov of
      Inl e \<Rightarrow> Inl e | Inr l \<Rightarrow> Inr (acc @ [l])) asigs [] = Inr ls"
proof (cases asigs)
  case Nil
  with b show ?thesis by (simp add: build_logMUA_segment_def)
next
  case (Cons a0 rest)
  show ?thesis
  proof (cases "py_int_round (f64_div (raw_sampling_rate a0) (fst band))")
    case (Inl e)
    with b Cons show ?thesis by (simp add: build_logMUA_segment_def)
  next
    case (Inr W)
    with b Cons show ?thesis by (simp add: build_logMUA_segment_def Let_def split: if_splits) blast
  qed
qed

lemma build_logMUA_segment_t_stop:
  assumes b: "build_logMUA_segment welch asigs band order ov = Inr ls"
  shows "length ls = length asigs \<and> (\<forall>l\<in>set ls. \<exists>t. lm_annotations l ''t_stop'' = Some (PFloat t))"
proof -
  obtain fs W n rate where f: "fold_err (\<lambda>a acc. case logMUA_estimation welch a fs n W band rate order ov of
      Inl e \<Rightarrow> Inl e | Inr l \<Rightarrow> Inr (acc @ [l])) asigs [] = Inr ls"
    using build_logMUA_segment_fold [OF b] by blast
  from fold_err_collect [OF f]
  have all: "list_all2 (\<lambda>a l. logMUA_estimation welch a fs n W band rate order ov = Inr l) asigs ls" by simp
  have "\<exists>t. lm_annotations l ''t_stop'' = Some (PFloat t)" if "l \<in> set ls" for l
  proof -
    from that obtain i where i: "i < length ls" "ls ! i = l" by (auto simp: in_set_conv_nth)
    then have "logMUA_estimation welch (asigs ! i) fs n W band rate order ov = Inr l"
      using all by (auto simp: list_all2_conv_all_nth)
    from logMUA_estimation_annotations [OF this] show ?thesis
      by (simp add: logMUA_kwargs_def neo_asig_params_def restrict_map_def)
  qed
  moreover have "length ls = length asigs" using all by (simp add: list_all2_lengthD)
  ultimately show ?thesis by blast
qed

lemma round_half_even_small: "0 \<le> x \<Longrightarrow> x \<le> 1 / 2 \<Longrightarrow> round_half_even x = 0"
proof -
  assume x: "0 \<le> x" "x \<le> 1 / 2"
  then have "\<lfloor>x\<rfloor> = 0" by (simp add: floor_eq_iff)
  with x show ?thesis by (auto simp: round_half_even_def Let_def)
qed

lemma demo_build_one:
  "\<exists>ls. build_logMUA_segment demo_welch [demo_raw Map.empty] (1, 3) 0 (1 / 2) = Inr ls"
proof -
  have r: "round_half_even 4 = 4" by (simp add: round_half_even_def)
  show ?thesis
    by (simp add: build_logMUA_segment_def f64_div_def r demo_raw_def logMUA_estimation_def demo_windows
        assign_err_def merge_kwargs_def logMUA_kwargs_def raw_t_stop_def neo_asig_params_def Let_def)
qed

text \<open>
  C30 (error).  The window size \<open>int(round(fs / low))\<close>: an empty segment is an IndexError,
  \<open>low = 0\<close> an OverflowError (or ValueError when also \<open>fs = 0\<close>), and a band edge above
  twice the sampling rate rounds the window to 0 and raises ZeroDivisionError.
\<close>

theorem build_logMUA_segment_window_errors:
  "build_logMUA_segment welch [] band order ov = Inl IndexError \<and>
   (fst band = 0 \<longrightarrow> 0 < raw_sampling_rate a0 \<longrightarrow>
      build_logMUA_segment welch (a0 # rest) band order ov = Inl (OverflowError ''cannot convert float infinity to integer'')) \<and>
   (fst band = 0 \<longrightarrow> raw_sampling_rate a0 = 0 \<longrightarrow>
      build_logMUA_segment welch (a0 # rest) band order ov = Inl (ValueError ''cannot convert float NaN to integer'')) \<and>
   (0 < fst band \<longrightarrow> 0 \<le> raw_sampling_rate a0 \<longrightarrow> raw_sampling_rate a0 / fst band \<le> 1 / 2 \<longrightarrow>
      build_logMUA_segment welch (a0 # rest) band order ov = Inl ZeroDivisionError)"
  by (auto simp: build_logMUA_segment_def f64_div_def round_half_even_small Let_def)

text \<open>
  C25 (functional, finding).  Every channel of a segment is estimated with the sampling
  rate, window size and window count of the first channel: all logMUA signals have
  \<open>floor(len(first)/W)\<close> samples, the same sampling rate and the first channel's
  \<open>psd_fs\<close>, whatever their own rate and length.
\<close>

theorem build_logMUA_segment_first_channel:
  assumes b: "build_logMUA_segment welch (a0 # rest) band order ov = Inr ls" and low: "fst band \<noteq> 0"
  shows "length ls = Suc (length rest) \<and>
         (\<forall>l\<in>set ls.
            length (lm_magnitude l) =
              nat \<lfloor>real (length (raw_samples a0)) / of_int (round_half_even (raw_sampling_rate a0 / fst band))\<rfloor> \<and>
            lm_sampling_rate l = lm_sampling_rate (hd ls) \<and>
            lm_annotations l ''psd_fs'' = Some (PFloat (raw_sampling_rate a0)) \<and>
            lm_annotations l ''FFTWindowSize'' = Some (PInt (round_half_even (raw_sampling_rate a0 / fst band))))"
proof -
  define fs where "fs = raw_sampling_rate a0"
  define W where "W = round_half_even (fs / fst band)"
  define n where "n = \<lfloor>real (length (raw_samples a0)) / of_int W\<rfloor>"
  define rate where "rate = f64_div (of_int n) (raw_t_stop a0 - raw_t_start a0)"
  have W0: "W \<noteq> 0" using b low by (auto simp: build_logMUA_segment_def f64_div_def W_def fs_def)
  have "fold_err (\<lambda>a acc. case logMUA_estimation welch a fs n W band rate order ov of
                    Inl e \<Rightarrow> Inl e | Inr l \<Rightarrow> Inr (acc @ [l])) (a0 # rest) [] = Inr ls"
    using b low W0 by (simp add: build_logMUA_segment_def f64_div_def W_def fs_def n_def rate_def Let_def)
  from fold_err_collect [OF this] have all: "list_all2 (\<lambda>a l. logMUA_estimation welch a fs n W band rate order ov = Inr l) (a0 # rest) ls"
    by simp
  then have len: "length ls = Suc (length rest)" using list_all2_lengthD by fastforce
  have each: "length (lm_magnitude l) = nat n \<and> lm_sampling_rate l = rate \<and>
              lm_annotations l ''psd_fs'' = Some (PFloat fs) \<and> lm_annotations l ''FFTWindowSize'' = Some (PInt W)"
    if "l \<in> set ls" for l
  proof -
    from that obtain i where i: "i < length ls" "ls ! i = l" by (auto simp: in_set_conv_nth)
    then have "logMUA_estimation welch ((a0 # rest) ! i) fs n W band rate order ov = Inr l"
      using all by (auto simp: list_all2_conv_all_nth)
    from logMUA_estimation_Inr [OF this] logMUA_estimation_annotations [OF this]
    show ?thesis by (simp add: logMUA_kwargs_def neo_asig_params_def restrict_map_def)
  qed
  have "hd ls \<in> set ls" using len by (cases ls) simp_all
  with each len show ?thesis by (auto simp: fs_def W_def n_def)
qed


theorem detrending_order_error_witness:
  "detrending (1, [[Fin 1], [Fin 2]]) 5 = Inl IndexError \<and> (\<exists>X. detrending (1, [[Fin 1], [Fin 2]]) 4 = Inr X)"
  using detrending_order_error [of 1 "[[Fin 1], [Fin 2]]" 5] detrending_order_error [of 1 "[[Fin 1], [Fin 2]]" 4]
  by simp

theorem detrending_order2_square_witness:
  "detrending (1, [[Fin 0], [Fin 2]]) 2 = Inr (2, [[Fin 1, Fin (-3)], [Fin 3, Fin (-1)]])"
  using detrending_order2_square [of "[0, 2]"] by (simp add: linspace_def)

theorem detrending_order1_centres_witness:
  "\<exists>M'. detrending (2, map (map Fin) [[1, 4], [3, 0]]) 1 = Inr (2, map (map Fin) M') \<and>
        (\<forall>j<2. sum_list (map (\<lambda>r. r ! j) M') = 0)"
  using detrending_order1_centres [of "[[1, 4], [3, 0]]" 2] by auto

theorem logMUA_estimation_kwarg_clash_witness:
  "logMUA_estimation demo_welch (demo_raw [''t_stop'' \<mapsto> PFloat 9]) 4 2 2 (1, 3) (Fin 1) 0 (1 / 2) =
     Inl (TypeError ''got multiple values for keyword argument'')"
proof -
  have w: "\<forall>i<nat 2. \<exists>v. mua_window demo_welch (demo_raw [''t_stop'' \<mapsto> PFloat 9]) 4 2 (1, 3) 0 (1 / 2) i = Inr v"
    by (simp add: demo_windows)
  have "\<exists>k\<in>set (map fst (logMUA_kwargs (demo_raw [''t_stop'' \<mapsto> PFloat 9]) 4 2 (1, 3) (Fin 1) 0 (1 / 2))).
          raw_annotations (demo_raw [''t_stop'' \<mapsto> PFloat 9]) k \<noteq> None"
    by (simp add: logMUA_kwargs_def demo_raw_def)
  then show ?thesis using logMUA_estimation_kwarg_clash [OF _ w] by simp
qed

theorem logMUA_estimation_band_error_witness:
  "logMUA_estimation demo_welch (demo_raw Map.empty) 4 1 2 (1, 5) (Fin 1) 0 (1 / 2) = Inl IndexError"
proof -
  have d: "detrending (raw_nchan (demo_raw Map.empty), take (nat 2) (raw_samples (demo_raw Map.empty))) 0 =
      Inr (1, [[Fin 1], [Fin 2]])"
    by (simp add: detrending_def demo_raw_def numeral_2_eq_2)
  have w: "demo_welch (fst (1::real, 5::real)) (1 / 2) 4 (np_squeeze (A2 1 [[Fin 1], [Fin 2]])) =
      Inr ([0, 1, 2, 3], A1 [Fin 4, Fin 6, Fin 8, Fin 10])"
    by (simp add: demo_welch_def)
  have h: "\<not> list_ex (\<lambda>x. snd (1::real, 5::real) \<le> x) [0, 1, 2, 3]" by simp
  show ?thesis using logMUA_estimation_band_error [where band = "(1, 5)" and W = 2 and n = 1 and welch = demo_welch and a = "demo_raw Map.empty"
      and order = 0 and fs = 4 and ov = "1 / 2" and rate = "Fin 1", OF _ d w h] by simp
qed

theorem build_logMUA_segment_window_errors_witness:
  "build_logMUA_segment demo_welch [] (0, 3) 0 (1 / 2) = Inl IndexError \<and>
   build_logMUA_segment demo_welch [demo_raw Map.empty] (0, 3) 0 (1 / 2) =
     Inl (OverflowError ''cannot convert float infinity to integer'') \<and>
   build_logMUA_segment demo_welch [demo_raw Map.empty] (10, 30) 0 (1 / 2) = Inl ZeroDivisionError"
  using build_logMUA_segment_window_errors [of demo_welch "(0, 3)" 0 "1 / 2" "demo_raw Map.empty" "[]"]
    build_logMUA_segment_window_errors [of demo_welch "(10, 30)" 0 "1 / 2" "demo_raw Map.empty" "[]"]
  by (simp add: demo_raw_def)

theorem build_logMUA_segment_first_channel_witness:
  "\<exists>ls. build_logMUA_segment demo_welch [demo_raw Map.empty, demo_raw Map.empty] (1, 3) 0 (1 / 2) = Inr ls \<and>
        length ls = 2 \<and> (\<forall>l\<in>set ls. length (lm_magnitude l) = 1)"
proof -
  have r: "round_half_even 4 = 4" by (simp add: round_half_even_def)
  have "\<exists>ls. build_logMUA_segment demo_welch [demo_raw Map.empty, demo_raw Map.empty] (1, 3) 0 (1 / 2) = Inr ls"
    by (simp add: build_logMUA_segment_def f64_div_def r demo_raw_def logMUA_estimation_def demo_windows
        assign_err_def merge_kwargs_def logMUA_kwargs_def raw_t_stop_def neo_asig_params_def Let_def)
  then obtain ls where b: "build_logMUA_segment demo_welch [demo_raw Map.empty, demo_raw Map.empty] (1, 3) 0 (1 / 2) = Inr ls" ..
  show ?thesis using build_logMUA_segment_first_channel [OF b] b r by (simp add: demo_raw_def)
qed

end
