(* ===== verification/Mains.thy ===== *)
theory Mains
  imports Pipeline LogMUA
begin

text \<open>
  The \<open>__main__\<close> blocks of the two scripts: what they read, which functions they call
  in which order, and what they write.  A neo Block and Segment are records over the
  signal type they hold; the files written (\<open>np.save\<close>, \<open>NixIO.write\<close>) are a list of
  effects, so that an exception after a write leaves the earlier writes visible.  Reading
  the input file is the block passed in; the command-line options arrive already parsed.
\<close>

section \<open>neo containers and effects\<close>

record 'a nix_segment =
  seg_name :: string
  seg_description :: string
  seg_analogsignals :: "'a list"
  seg_spiketrains :: "spiketrain list"
  seg_annotations :: "string \<rightharpoonup> pyval"

record 'a nix_block =
  blk_name :: "string option"
  blk_segments :: "'a nix_segment list"
  blk_annotations :: "string \<rightharpoonup> pyval"

datatype 'a effect = SaveStateVectors "bool list list" | WriteBlock "'a nix_block"

definition dup_keys :: "string list" where
  "dup_keys = [''nix_name'', ''neo_name'']"

text \<open>
  \<open>remove_duplicate_properties\<close> of \<open>fp_logMUA_estimation.py\<close> (lines 79--86), the same
  loop as the one of the detection script.
\<close>

definition remove_duplicate_properties_logmua ::
  "(string \<rightharpoonup> 'v) list \<Rightarrow> string list \<Rightarrow> (string \<rightharpoonup> 'v) list" where
  "remove_duplicate_properties_logmua objects del_keys =
     map (\<lambda>ann. fold (\<lambda>k a. if a k \<noteq> None then a(k := None) else a) del_keys ann) objects"

section \<open>The estimator's main block\<close>

text \<open>
  Lines 98--113 of \<open>fp_logMUA_estimation.py\<close>: the first segment of the input block,
  its signals' annotations stripped of the duplicate keys, estimated by
  \<open>build_logMUA_segment\<close> and written as the only segment of a new block.  \<open>--freq_band\<close>
  has no default: omitted, it is \<open>None\<close> and \<open>freq_band[0]\<close> (line 27) raises TypeError,
  after \<open>segment.analogsignals[0]\<close> (line 24).
\<close>

definition logMUA_main ::
  "welch_psd \<Rightarrow> rawsignal nix_block \<Rightarrow> (real \<times> real) option \<Rightarrow> int \<Rightarrow> real \<Rightarrow>
   logmua_signal effect list \<times> py_error option" where
  "logMUA_main welch block freq_band detrending_order psd_overlap =
     (case blk_segments block of
        [] \<Rightarrow> ([], Some IndexError)
      | segment # _ \<Rightarrow>
          (let asigs = seg_analogsignals segment;
               anns = remove_duplicate_properties_logmua (map raw_annotations asigs) dup_keys;
               asigs' = map2 (\<lambda>a ann. a\<lparr>raw_annotations := ann\<rparr>) asigs anns
           in case (asigs', freq_band) of
                ([], _) \<Rightarrow> ([], Some IndexError)
              | (_, None) \<Rightarrow> ([], Some (TypeError ''NoneType object is not subscriptable''))
              | (_, Some fb) \<Rightarrow>
                  (case build_logMUA_segment welch asigs' fb detrending_order psd_overlap of
                     Inl e \<Rightarrow> ([], Some e)
                   | Inr ls \<Rightarrow>
                       ([WriteBlock \<lparr>blk_name = Some ''Results of fp_logMUA_estimation.py'',
                                     blk_segments = [\<lparr>seg_name = ''Segment logMUA'',
                                                      seg_description = ''Estimated logMUA activity'',
                                                      seg_analogsignals = ls, seg_spiketrains = [],
                                                      seg_annotations = Map.empty\<rparr>],
                                     blk_annotations = Map.empty\<rparr>], None))))"

section \<open>The detection script's main block\<close>

text \<open>The options of lines 168--171, as argparse converts them (\<open>type=int\<close>, \<open>type=str2bool\<close>).\<close>

record detection_args =
  da_min_state_duration :: int
  da_remove_down_first :: bool
  da_fixed_threshold :: int
  da_sigma_threshold :: int

text \<open>
  Lines 175--206 of \<open>fp_up_down_detection.py\<close>.  The duplicate keys are removed from the
  signals, the block and the first segment; the state vectors are saved; the block's name
  is extended (\<open>name += ...\<close>, a TypeError when the block has no name); the UP\<open>\<rightarrow>\<close>DOWN
  trains replace the spike trains of the first segment and the DOWN\<open>\<rightarrow>\<close>UP trains go to a
  new last segment; the block is written.  The file options \<open>--out_state_vector\<close>, \<open>--out_nix_file\<close> and
  \<open>--logMUA_estimate\<close> are not modelled (the block read is the argument and the writes are
  recorded without their file names); omitted, they are \<open>None\<close> and the calls of
  \<open>np.save\<close> and \<open>NixIO\<close> would raise.
\<close>

definition detection_main ::
  "fitter \<Rightarrow> detection_args \<Rightarrow> analogsignal nix_block \<Rightarrow> analogsignal effect list \<times> py_error option" where
  "detection_main fit args block =
     (case blk_segments block of
        [] \<Rightarrow> ([], Some IndexError)
      | seg0 # segs \<Rightarrow>
          (let asigs = seg_analogsignals seg0;
               anns = remove_duplicate_properties (map sig_annotations asigs) dup_keys;
               logMUA_signals = map2 (\<lambda>a ann. a\<lparr>sig_annotations := ann\<rparr>) asigs anns;
               meta = remove_duplicate_properties [blk_annotations block, seg_annotations seg0] dup_keys
           in case create_all_state_vectors fit logMUA_signals (da_min_state_duration args)
                     (da_remove_down_first args) (of_int (da_fixed_threshold args))
                     (of_int (da_sigma_threshold args)) of
                Inl e \<Rightarrow> ([], Some e)
              | Inr (state_vectors, up_trains, down_trains) \<Rightarrow>
                  (case blk_name block of
                     None \<Rightarrow> ([SaveStateVectors state_vectors],
                              Some (TypeError ''unsupported operand type(s) for +=''))
                   | Some name \<Rightarrow>
                       (let seg1 = seg0\<lparr>seg_name := ''Segment 1'',
                                        seg_description := ''logMUA analogsignal and transitions from UP to DOWN state'',
                                        seg_analogsignals := logMUA_signals,
                                        seg_spiketrains := up_trains,
                                        seg_annotations := meta ! 1\<rparr>;
                            seg2 = \<lparr>seg_name = ''Segment UP -> DOWN'',
                                    seg_description = ''Transitions from DOWN to UP state'',
                                    seg_analogsignals = [], seg_spiketrains = down_trains,
                                    seg_annotations = Map.empty\<rparr>
                        in ([SaveStateVectors state_vectors,
                             WriteBlock \<lparr>blk_name = Some (name @ ''and fp_up_down_detection.py''),
                                         blk_segments = seg1 # segs @ [seg2],
                                         blk_annotations = meta ! 0\<rparr>], None)))))"

text \<open>A one-channel block as the estimator writes it, and the command line of the examples.\<close>

definition demo_block :: "analogsignal nix_block" where
  "demo_block =
     \<lparr>blk_name = Some ''Results of fp_logMUA_estimation.py'',
      blk_segments = [\<lparr>seg_name = ''Segment logMUA'', seg_description = ''Estimated logMUA activity'',
                       seg_analogsignals = [demo_signal [''t_stop'' \<mapsto> PFloat 2]], seg_spiketrains = [],
                       seg_annotations = Map.empty\<rparr>],
      blk_annotations = Map.empty\<rparr>"

definition demo_args :: detection_args where
  "demo_args = \<lparr>da_min_state_duration = 2, da_remove_down_first = True, da_fixed_threshold = 0,
                 da_sigma_threshold = 1\<rparr>"

section \<open>Lemmas\<close>

lemma length_remove_duplicate_properties [simp]:
  "length (remove_duplicate_properties objects del_keys) = length objects"
  by (simp add: remove_duplicate_properties_def)

lemma remove_duplicate_properties_logmua_eq:
  "remove_duplicate_properties_logmua = remove_duplicate_properties"
  by (simp add: remove_duplicate_properties_logmua_def remove_duplicate_properties_def fun_eq_iff)

lemma strip_keys_fun:
  "fold (\<lambda>k a. if a k \<noteq> None then a(k := None) else a) ks ann = (\<lambda>x. if x \<in> set ks then None else ann x)"
  by (induction ks arbitrary: ann) (auto simp: fun_eq_iff)

lemma remove_duplicate_properties_eq:
  "remove_duplicate_properties objects ks = map (\<lambda>ann x. if x \<in> set ks then None else ann x) objects"
  unfolding remove_duplicate_properties_def strip_keys_fun by (rule refl)

lemma map2_strip_annotations:
  "map2 (\<lambda>a ann. a\<lparr>sig_annotations := ann\<rparr>) xs (remove_duplicate_properties (map sig_annotations xs) ks) =
   map (\<lambda>a. a\<lparr>sig_annotations := \<lambda>x. if x \<in> set ks then None else sig_annotations a x\<rparr>) xs"
  by (induction xs) (simp_all add: remove_duplicate_properties_eq)

lemma channel_iteration_Inl:
  "channel_iteration fit m rdf f s x b = Inl e \<Longrightarrow> process_channel fit m rdf f s x = Inl e"
  by (auto simp: channel_iteration_def split: prod.splits sum.splits)

text \<open>
  A block whose first segment's signals all carry \<open>t_stop\<close> never makes the detection
  script raise the missing-\<open>t_stop\<close> TypeError: the stripped keys are only the bookkeeping
  ones, and no channel fails for that reason.
\<close>

lemma detection_main_no_t_stop_error:
  assumes seg: "blk_segments block = seg0 # segs"
    and ts: "\<forall>a\<in>set (seg_analogsignals seg0). \<exists>t. sig_annotations a ''t_stop'' = Some (PFloat t)"
  shows "snd (detection_main fit args block) \<noteq> Some (TypeError ''missing required positional argument: t_stop'')"
proof -
  let ?e = "TypeError ''missing required positional argument: t_stop''"
  let ?xs = "map2 (\<lambda>a ann. a\<lparr>sig_annotations := ann\<rparr>) (seg_analogsignals seg0)
               (remove_duplicate_properties (map sig_annotations (seg_analogsignals seg0)) dup_keys)"
  have "create_all_state_vectors fit ?xs (da_min_state_duration args) (da_remove_down_first args)
          (of_int (da_fixed_threshold args)) (of_int (da_sigma_threshold args)) \<noteq> Inl ?e"
  proof
    assume "create_all_state_vectors fit ?xs (da_min_state_duration args) (da_remove_down_first args)
          (of_int (da_fixed_threshold args)) (of_int (da_sigma_threshold args)) = Inl ?e"
    from fold_err_Inl [OF this [unfolded create_all_state_vectors_def]] obtain x b'
      where x: "x \<in> set ?xs" and i: "channel_iteration fit (da_min_state_duration args) (da_remove_down_first args)
          (of_int (da_fixed_threshold args)) (of_int (da_sigma_threshold args)) x b' = Inl ?e" by blast
    have "''t_stop'' \<notin> set dup_keys" by (simp add: dup_keys_def)
    with x ts obtain t where "sig_annotations x ''t_stop'' = Some (PFloat t)"
      by (auto simp: map2_strip_annotations)
    from process_channel_t_stop_given [OF this] channel_iteration_Inl [OF i] show False by blast
  qed
  then show ?thesis using seg
    by (auto simp: detection_main_def Let_def split: sum.splits option.splits prod.splits)
qed

text \<open>What a successful run of the estimator writes.\<close>

lemma logMUA_main_written:
  assumes "logMUA_main welch block freq_band order ov = (effs, None)"
  shows "\<exists>seg0 segs fb ls. blk_segments block = seg0 # segs \<and> freq_band = Some fb \<and>
     build_logMUA_segment welch (map2 (\<lambda>a ann. a\<lparr>raw_annotations := ann\<rparr>) (seg_analogsignals seg0)
        (remove_duplicate_properties_logmua (map raw_annotations (seg_analogsignals seg0)) dup_keys)) fb order ov = Inr ls \<and>
     effs = [WriteBlock \<lparr>blk_name = Some ''Results of fp_logMUA_estimation.py'',
                         blk_segments = [\<lparr>seg_name = ''Segment logMUA'', seg_description = ''Estimated logMUA activity'',
                                          seg_analogsignals = ls, seg_spiketrains = [], seg_annotations = Map.empty\<rparr>],
                         blk_annotations = Map.empty\<rparr>]"
  using assms by (auto simp: logMUA_main_def Let_def split: list.splits option.splits sum.splits prod.splits)

section \<open>Properties\<close>

text \<open>
  C27 (functional, finding).  When every channel succeeds and the block has a name, the
  detection script saves the state vectors, then writes the block with the UP\<open>\<rightarrow>\<close>DOWN
  trains (one per channel, in channel order) in its first segment and the DOWN\<open>\<rightarrow>\<close>UP
  trains in a new last segment that is named \<open>Segment UP -> DOWN\<close> although its
  description says \<open>Transitions from DOWN to UP state\<close>.
\<close>

theorem detection_main_output:
  assumes seg: "blk_segments block = seg0 # segs"
    and ok: "create_all_state_vectors fit
               (map2 (\<lambda>a ann. a\<lparr>sig_annotations := ann\<rparr>) (seg_analogsignals seg0)
                  (remove_duplicate_properties (map sig_annotations (seg_analogsignals seg0)) dup_keys))
               (da_min_state_duration args) (da_remove_down_first args)
               (of_int (da_fixed_threshold args)) (of_int (da_sigma_threshold args)) = Inr (svs, ups, downs)"
    and nm: "blk_name block = Some name"
  shows "\<exists>blk. detection_main fit args block = ([SaveStateVectors svs, WriteBlock blk], None) \<and>
           blk_name blk = Some (name @ ''and fp_up_down_detection.py'') \<and>
           length (blk_segments blk) = Suc (length (blk_segments block)) \<and>
           seg_spiketrains (hd (blk_segments blk)) = ups \<and>
           length ups = length (seg_analogsignals seg0) \<and>
           seg_name (last (blk_segments blk)) = ''Segment UP -> DOWN'' \<and>
           seg_description (last (blk_segments blk)) = ''Transitions from DOWN to UP state'' \<and>
           seg_spiketrains (last (blk_segments blk)) = downs"
proof -
  have "length ups = length (seg_analogsignals seg0)"
    using batch_channels [OF ok [unfolded create_all_state_vectors_def channel_iteration_def]] by auto
  then show ?thesis using seg ok nm by (simp add: detection_main_def Let_def)
qed

theorem detection_main_output_witness:
  "\<exists>svs blk. detection_main (\<lambda>_ _ _. Some (1, 2)) demo_args demo_block = ([SaveStateVectors svs, WriteBlock blk], None) \<and>
     blk_name blk = Some ''Results of fp_logMUA_estimation.pyand fp_up_down_detection.py'' \<and>
     seg_name (last (blk_segments blk)) = ''Segment UP -> DOWN''"
proof -
  have strip: "map2 (\<lambda>a ann. a\<lparr>sig_annotations := ann\<rparr>) [demo_signal [''t_stop'' \<mapsto> PFloat 2]]
      (remove_duplicate_properties (map sig_annotations [demo_signal [''t_stop'' \<mapsto> PFloat 2]]) dup_keys) =
      [demo_signal [''t_stop'' \<mapsto> PFloat 2]]"
    by (simp add: remove_duplicate_properties_def dup_keys_def demo_signal_def)
  from demo_batch obtain svs us ds where r: "create_all_state_vectors (\<lambda>_ _ _. Some (1, 2))
      [demo_signal [''t_stop'' \<mapsto> PFloat 2]] 2 True 0 1 = Inr (svs, us, ds)"
    by (metis prod_cases3)
  have ok: "create_all_state_vectors (\<lambda>_ _ _. Some (1, 2))
      (map2 (\<lambda>a ann. a\<lparr>sig_annotations := ann\<rparr>) (seg_analogsignals (hd (blk_segments demo_block)))
         (remove_duplicate_properties (map sig_annotations (seg_analogsignals (hd (blk_segments demo_block)))) dup_keys))
      (da_min_state_duration demo_args) (da_remove_down_first demo_args)
      (of_int (da_fixed_threshold demo_args)) (of_int (da_sigma_threshold demo_args)) = Inr (svs, us, ds)"
    using r unfolding demo_block_def demo_args_def nix_block.simps nix_segment.simps detection_args.simps
      list.sel strip by simp
  have "blk_segments demo_block = hd (blk_segments demo_block) # []" by (simp add: demo_block_def)
  from detection_main_output [OF this ok] show ?thesis by (auto simp add: demo_block_def)
qed

end
