(* ===== verification/AvgTransitions.thy ===== *)
theory AvgTransitions
  imports LogMUA
begin

text \<open>
  The transition-window selection of \<open>src/wavesnakephant/scripts/plot_avg_transitions.py\<close>:
  \<open>plot_avg_transisitons\<close> collects the logMUA windows of \<open>2 * slope_window\<close> samples
  around every state change (lines 10--24) and averages them; \<open>plot_main\<close> (lines 57--66)
  picks the channel and reads the command-line options, and \<open>plot_script\<close> is the whole
  main block (lines 47--72) with the files it reads as parameters and the calls that show
  or write something (\<open>plt.show\<close>, \<open>os.makedirs\<close>, \<open>plt.savefig\<close>) as a list of
  \<open>plot_effect\<close>s.  The figure itself is matplotlib output and is not modelled, except for
  the check \<open>ax.plot(x, y)\<close> makes that \<open>x\<close> and \<open>y\<close> have the same length, which decides
  whether the script fails.  A logMUA channel is its list of samples.
\<close>

section \<open>Python indexing\<close>

text \<open>\<open>xs[i]\<close> for an integer \<open>i\<close>: a negative index counts from the end.\<close>

definition py_index :: "'a list \<Rightarrow> int \<Rightarrow> py_error + 'a" where
  "py_index xs i =
     (if 0 \<le> i \<and> i < int (length xs) then Inr (xs ! nat i)
      else if i < 0 \<and> - int (length xs) \<le> i then Inr (xs ! nat (int (length xs) + i))
      else Inl IndexError)"

section \<open>Window selection\<close>

text \<open>
  \<open>logMUA[i-w:i+w].any()\<close>: some sample of the window is non-zero (NaN counts as true).
\<close>

definition np_any :: "f64 list \<Rightarrow> bool" where
  "np_any xs = list_ex (\<lambda>x. x \<noteq> Fin 0) xs"

text \<open>
  One iteration of \<open>for (i, bin_state) in enumerate(state_vector)\<close>; at \<open>i = 0\<close>,
  \<open>state_vector[i-1]\<close> is the last sample.
\<close>

definition transition_window_step ::
  "f64 list \<Rightarrow> bool list \<Rightarrow> int \<Rightarrow> nat \<Rightarrow> f64 list list \<times> f64 list list \<Rightarrow> f64 list list \<times> f64 list list" where
  "transition_window_step logMUA state_vector slope_window i acc =
     (case acc of (up_transitions, down_transitions) \<Rightarrow>
        (let bin_state = state_vector ! i;
             prev = (if i = 0 then last state_vector else state_vector ! (i - 1));
             window = py_slice logMUA (int i - slope_window) (int i + slope_window)
         in if prev \<noteq> bin_state \<and> slope_window < int i \<and> int i < int (length state_vector) - slope_window
            then (if bin_state \<and> np_any window then (up_transitions @ [window], down_transitions)
                  else if np_any window then (up_transitions, down_transitions @ [window])
                  else (up_transitions, down_transitions))
            else (up_transitions, down_transitions)))"

definition transition_windows :: "f64 list \<Rightarrow> bool list \<Rightarrow> int \<Rightarrow> f64 list list \<times> f64 list list" where
  "transition_windows logMUA state_vector slope_window =
     fold (transition_window_step logMUA state_vector slope_window) [0..<length state_vector] ([], [])"

text \<open>
  \<open>np.mean(windows, axis=0)\<close>: the sample-wise mean of equally long windows; the mean of an
  empty list is a NaN scalar.
\<close>

definition np_mean_axis0 :: "f64 list list \<Rightarrow> ndarray" where
  "np_mean_axis0 ws =
     (if ws = [] then A0 NaN else A1 (map (\<lambda>j. f64_mean (map (\<lambda>w. w ! j) ws)) [0..<length (hd ws)]))"

text \<open>\<open>ax.plot(x, y)\<close> with \<open>len(x) = n\<close>: matplotlib raises ValueError unless \<open>y\<close> has \<open>n\<close> rows.\<close>

fun mpl_plot :: "nat \<Rightarrow> ndarray \<Rightarrow> py_error + unit" where
  "mpl_plot n (A1 ys) = (if length ys = n then Inr () else Inl (ValueError ''x and y must have same first dimension''))"
| "mpl_plot n (A2 c rows) = (if length rows = n then Inr () else Inl (ValueError ''x and y must have same first dimension''))"
| "mpl_plot n (A0 _) = (if n = 1 then Inr () else Inl (ValueError ''x and y must have same first dimension''))"

definition plot_avg_transisitons :: "f64 list \<Rightarrow> bool list \<Rightarrow> int \<Rightarrow> py_error + ndarray \<times> ndarray" where
  "plot_avg_transisitons logMUA state_vector slope_window =
     (case transition_windows logMUA state_vector slope_window of
        (up_transitions, down_transitions) \<Rightarrow>
          (let avg_up_slope = np_mean_axis0 up_transitions;
               avg_down_slope = np_mean_axis0 down_transitions;
               n = nat (2 * slope_window)
           in case mpl_plot n avg_up_slope of
                Inl e \<Rightarrow> Inl e
              | Inr _ \<Rightarrow> (case mpl_plot n avg_down_slope of
                            Inl e \<Rightarrow> Inl e
                          | Inr _ \<Rightarrow> Inr (avg_up_slope, avg_down_slope))))"

section \<open>The command line\<close>

text \<open>
  An option declared with \<open>nargs=1\<close>: given, argparse stores a one-element list; omitted,
  it stores the scalar default, and \<open>args.option[0]\<close> raises TypeError.
\<close>

datatype cli_arg = Given int | Omitted

fun cli_first :: "cli_arg \<Rightarrow> py_error + int" where
  "cli_first (Given v) = Inr v"
| "cli_first Omitted = Inl (TypeError ''int object is not subscriptable'')"

text \<open>
  Lines 62--66: the keyword arguments of the call are evaluated in order, then
  \<open>args.show_figure[0]\<close> is read.
\<close>

definition plot_main ::
  "f64 list list \<Rightarrow> bool list list \<Rightarrow> cli_arg \<Rightarrow> cli_arg \<Rightarrow> cli_arg \<Rightarrow> py_error + ndarray \<times> ndarray" where
  "plot_main analogsignals state_vectors slope_window channel show_figure =
     (case cli_first channel of
        Inl e \<Rightarrow> Inl e
      | Inr ch \<Rightarrow>
          (case py_index analogsignals (ch - 1) of
             Inl e \<Rightarrow> Inl e
           | Inr logMUA \<Rightarrow>
               (case py_index state_vectors (ch - 1) of
                  Inl e \<Rightarrow> Inl e
                | Inr sv \<Rightarrow>
                    (case cli_first slope_window of
                       Inl e \<Rightarrow> Inl e
                     | Inr w \<Rightarrow>
                         (case plot_avg_transisitons logMUA sv w of
                            Inl e \<Rightarrow> Inl e
                          | Inr r \<Rightarrow>
                              (case cli_first show_figure of
                                 Inl e \<Rightarrow> Inl e
                               | Inr _ \<Rightarrow> Inr r))))))"

text \<open>
  An option declared with \<open>nargs=1, type=str\<close> and no default: omitted, it is \<open>None\<close>
  and \<open>args.option[0]\<close> raises TypeError.
\<close>

definition cli_first_str :: "string option \<Rightarrow> py_error + string" where
  "cli_first_str a = (case a of Some v \<Rightarrow> Inr v | None \<Rightarrow> Inl (TypeError ''NoneType object is not subscriptable''))"

text \<open>
  \<open>os.path.dirname\<close> (posixpath): the part before the last \<open>/\<close>, without trailing
  slashes unless it consists of slashes only; a bare file name has the empty directory.
\<close>

definition py_dirname :: "string \<Rightarrow> string" where
  "py_dirname p =
     (let head = take (length p - length (takeWhile (\<lambda>c. c \<noteq> CHR ''/'') (rev p))) p
      in if head \<noteq> [] \<and> \<not> list_all (\<lambda>c. c = CHR ''/'') head
         then rev (dropWhile (\<lambda>c. c = CHR ''/'') (rev head)) else head)"

text \<open>
  The file system as the script sees it: \<open>path_exists\<close> tells which non-empty paths exist
  (\<open>os.path.exists('')\<close> is False), and \<open>os.makedirs('')\<close> raises FileNotFoundError.  The
  effects are the calls that show or write something.
\<close>

datatype plot_effect = ShowFigure | MakeDirs string | SaveFig string string

definition py_exists :: "(string \<Rightarrow> bool) \<Rightarrow> string \<Rightarrow> bool" where
  "py_exists path_exists d = (d \<noteq> [] \<and> path_exists d)"

definition py_makedirs :: "string \<Rightarrow> py_error + plot_effect" where
  "py_makedirs d =
     (if d = [] then Inl (FileNotFoundError ''No such file or directory'') else Inr (MakeDirs d))"

text \<open>
  The main block, lines 47--72: the segment and the state vectors are read from the files
  the options name (\<open>load_segment\<close> and \<open>np_load\<close> are parameters returning the channels'
  samples and the state vectors), the selected channel is plotted (\<open>plot_main\<close>), the
  figure is shown if asked, the output directory is created when it does not exist, and
  the figure is saved.  The result is the list of effects performed and the exception
  that ended the run, if any.
\<close>

definition plot_script ::
  "(string \<Rightarrow> py_error + f64 list list) \<Rightarrow> (string \<Rightarrow> py_error + bool list list) \<Rightarrow> (string \<Rightarrow> bool) \<Rightarrow>
   string option \<Rightarrow> string option \<Rightarrow> string option \<Rightarrow> cli_arg \<Rightarrow> cli_arg \<Rightarrow> string option \<Rightarrow> cli_arg \<Rightarrow>
   plot_effect list \<times> py_error option" where
  "plot_script load_segment np_load path_exists output logMUA_estimate state_vector slope_window
     show_figure format channel =
     (case cli_first_str logMUA_estimate of
        Inl e \<Rightarrow> ([], Some e)
      | Inr seg_file \<Rightarrow>
     (case load_segment seg_file of
        Inl e \<Rightarrow> ([], Some e)
      | Inr analogsignals \<Rightarrow>
     (case cli_first_str state_vector of
        Inl e \<Rightarrow> ([], Some e)
      | Inr sv_file \<Rightarrow>
     (case np_load sv_file of
        Inl e \<Rightarrow> ([], Some e)
      | Inr state_vectors \<Rightarrow>
     (case plot_main analogsignals state_vectors slope_window channel show_figure of
        Inl e \<Rightarrow> ([], Some e)
      | Inr _ \<Rightarrow>
     (let shown = (if show_figure \<noteq> Given 0 then [ShowFigure] else []) in
      case cli_first_str output of
        Inl e \<Rightarrow> (shown, Some e)
      | Inr out \<Rightarrow>
     (let data_dir = py_dirname out in
      case (if \<not> py_exists path_exists data_dir then map_sum id (\<lambda>m. [m]) (py_makedirs data_dir) else Inr []) of
        Inl e \<Rightarrow> (shown, Some e)
      | Inr made \<Rightarrow>
     (case cli_first_str format of
        Inl e \<Rightarrow> (shown @ made, Some e)
      | Inr fmt \<Rightarrow> (shown @ made @ [SaveFig out fmt], None)))))))))"

section \<open>Specification of the selection\<close>

text \<open>
  The windows the loop is meant to collect: around every index \<open>i\<close> whose state differs
  from the previous one, at least \<open>slope_window\<close> samples away from both ends, with a
  non-zero sample; UP windows where the new state is UP.
\<close>

definition selected :: "f64 list \<Rightarrow> bool list \<Rightarrow> int \<Rightarrow> nat \<Rightarrow> bool" where
  "selected logMUA sv w i =
     ((if i = 0 then last sv else sv ! (i - 1)) \<noteq> sv ! i \<and> w < int i \<and> int i < int (length sv) - w \<and>
      np_any (py_slice logMUA (int i - w) (int i + w)))"

definition windows_spec :: "f64 list \<Rightarrow> bool list \<Rightarrow> int \<Rightarrow> f64 list list \<times> f64 list list" where
  "windows_spec logMUA sv w =
     (map (\<lambda>i. py_slice logMUA (int i - w) (int i + w))
        (filter (\<lambda>i. selected logMUA sv w i \<and> sv ! i) [0..<length sv]),
      map (\<lambda>i. py_slice logMUA (int i - w) (int i + w))
        (filter (\<lambda>i. selected logMUA sv w i \<and> \<not> sv ! i) [0..<length sv]))"

text \<open>A six-sample channel with one DOWN\<open>\<rightarrow>\<close>UP change, used by the examples.\<close>

definition demo_logMUA :: "f64 list" where
  "demo_logMUA = [Fin 0, Fin 1, Fin 2, Fin 3, Fin 4, Fin 5]"

definition demo_states :: "bool list" where
  "demo_states = [False, False, False, True, True, True]"

text \<open>A channel with one UP and one DOWN window for \<open>slope_window = 1\<close>.\<close>

definition demo_plot_logMUA :: "f64 list" where
  "demo_plot_logMUA = [Fin 1, Fin 2, Fin 3, Fin 4, Fin 5, Fin 6]"

definition demo_plot_states :: "bool list" where
  "demo_plot_states = [False, False, True, True, False, False]"

section \<open>Lemmas\<close>

lemma transition_window_step_spec:
  "transition_window_step logMUA sv w i (ups, downs) =
     (if selected logMUA sv w i \<and> sv ! i then (ups @ [py_slice logMUA (int i - w) (int i + w)], downs)
      else if selected logMUA sv w i \<and> \<not> sv ! i then (ups, downs @ [py_slice logMUA (int i - w) (int i + w)])
      else (ups, downs))"
  by (auto simp: transition_window_step_def selected_def Let_def)

lemma fold_window_step:
  "fold (transition_window_step logMUA sv w) [0..<k] ([], []) =
     (map (\<lambda>i. py_slice logMUA (int i - w) (int i + w)) (filter (\<lambda>i. selected logMUA sv w i \<and> sv ! i) [0..<k]),
      map (\<lambda>i. py_slice logMUA (int i - w) (int i + w)) (filter (\<lambda>i. selected logMUA sv w i \<and> \<not> sv ! i) [0..<k]))"
  by (induction k) (auto simp: transition_window_step_spec)

lemma py_slice_centred:
  assumes "0 \<le> w" "w < int i" "int i < int n - w" "length xs = n"
  shows "length (py_slice xs (int i - w) (int i + w)) = nat (2 * w)"
proof -
  define lo where "lo = nat (int i - w)"
  define hi where "hi = nat (int i + w)"
  have a: "int i - w = int lo" and b: "int i + w = int hi" using assms by (simp_all add: lo_def hi_def)
  have "hi \<le> n" "lo \<le> hi" "int hi - int lo = 2 * w" using assms by (simp_all add: lo_def hi_def)
  then show ?thesis unfolding a b py_slice_nat using assms(4) by (simp add: min_def) linarith
qed

lemma plot_avg_no_up_window:
  "fst (transition_windows logMUA sv w) = [] \<Longrightarrow>
   plot_avg_transisitons logMUA sv w = Inl (ValueError ''x and y must have same first dimension'')"
proof -
  assume "fst (transition_windows logMUA sv w) = []"
  moreover have "nat (2 * w) \<noteq> 1" using nat_eq_iff [of "2 * w" 1] by presburger
  ultimately show ?thesis by (auto simp: plot_avg_transisitons_def np_mean_axis0_def split: prod.splits)
qed

lemma py_dirname_bare: "CHR ''/'' \<notin> set p \<Longrightarrow> py_dirname p = []"
proof -
  assume "CHR ''/'' \<notin> set p"
  then have "takeWhile (\<lambda>c. c \<noteq> CHR ''/'') (rev p) = rev p" by (auto simp: takeWhile_eq_all_conv)
  then show ?thesis unfolding py_dirname_def Let_def by (simp only: \<open>takeWhile _ _ = _\<close> length_rev) simp
qed

lemma py_dirname_examples:
  "py_dirname ''figs/avg.png'' = ''figs'' \<and> py_dirname ''/a//b'' = ''/a'' \<and> py_dirname ''//b'' = ''//''"
  by (simp add: py_dirname_def)

lemma demo_plot_windows:
  "transition_windows demo_plot_logMUA demo_plot_states 1 = ([[Fin 2, Fin 3]], [[Fin 4, Fin 5]])"
  by (simp add: transition_windows_def transition_window_step_def np_any_def py_slice_def py_slice_index_def
      demo_plot_logMUA_def demo_plot_states_def upt_rec Let_def)

lemma demo_plot_main:
  "plot_main [demo_plot_logMUA] [demo_plot_states] (Given 1) (Given 1) (Given 0) =
     Inr (A1 [Fin 2, Fin 3], A1 [Fin 4, Fin 5])"
  by (simp add: plot_main_def py_index_def plot_avg_transisitons_def demo_plot_windows np_mean_axis0_def
      f64_mean_def f64_sum_def Let_def)

lemma plot_script_bare_output:
  "plot_script (\<lambda>_. Inr [demo_plot_logMUA]) (\<lambda>_. Inr [demo_plot_states]) (\<lambda>_. True)
     (Some ''avg.png'') (Some ''logMUA.nix'') (Some ''states.npy'') (Given 1) (Given 0) (Some ''png'') (Given 1) =
   ([], Some (FileNotFoundError ''No such file or directory''))"
  by (simp add: plot_script_def cli_first_str_def demo_plot_main py_dirname_def py_exists_def py_makedirs_def)

section \<open>Properties\<close>

text \<open>
  C5 (refinement).  The loop of \<open>plot_avg_transisitons\<close> computes \<open>windows_spec\<close>: the
  windows \<open>logMUA[i-w:i+w]\<close> around the selected state changes, UP windows where the new
  state is UP, in index order.  For \<open>w >= 0\<close> every window has \<open>2w\<close> samples.
\<close>


theorem transition_windows_refines:
  assumes "length logMUA = length sv"
  shows "transition_windows logMUA sv w = windows_spec logMUA sv w \<and>
         (0 \<le> w \<longrightarrow> (\<forall>win \<in> set (fst (windows_spec logMUA sv w)) \<union> set (snd (windows_spec logMUA sv w)).
            length win = nat (2 * w)))"
proof -
  have "length (py_slice logMUA (int i - w) (int i + w)) = nat (2 * w)"
    if "0 \<le> w" "selected logMUA sv w i" for i
    using that assms by (intro py_slice_centred) (auto simp: selected_def)
  then show ?thesis by (auto simp: transition_windows_def windows_spec_def fold_window_step)
qed

theorem transition_windows_refines_witness:
  "transition_windows demo_logMUA demo_states 1 = ([[Fin 2, Fin 3]], [])"
  using transition_windows_refines [of demo_logMUA demo_states 1]
  by (simp add: windows_spec_def selected_def np_any_def py_slice_def py_slice_index_def
      demo_logMUA_def demo_states_def)

text \<open>
  \<open>--slope_window\<close>, \<open>--channel\<close> and \<open>--show_figure\<close> are declared with \<open>nargs=1\<close>
  and a scalar default, and the script reads \<open>args.option[0]\<close>: if any of them is omitted
  on the command line, the plot raises (TypeError from indexing the default).
\<close>

lemma plot_main_defaults:
  "Omitted \<in> {slope_window, channel, show_figure} \<Longrightarrow>
   \<exists>e. plot_main analogsignals state_vectors slope_window channel show_figure = Inl e"
  by (auto simp: plot_main_def split: sum.splits)

lemma plot_main_channel_zero:
  "0 < length analogsignals \<Longrightarrow> length state_vectors = length analogsignals \<Longrightarrow>
   plot_main analogsignals state_vectors sw (Given 0) sf =
   plot_main analogsignals state_vectors sw (Given (int (length analogsignals))) sf"
proof -
  assume "0 < length analogsignals" "length state_vectors = length analogsignals"
  moreover have "nat (int (length analogsignals) - 1) = length analogsignals - 1"
    and "Suc 0 \<le> length analogsignals" using calculation(1) by linarith+
  ultimately show ?thesis by (simp add: plot_main_def py_index_def)
qed

text \<open>
  C22 (error, finding).  The script saves its figure only when it ends without exception,
  every option was given on the command line (the \<open>nargs=1\<close> options have no usable
  default), the figure is saved under the name and format given, and the output path has
  a directory part: for a bare file name \<open>os.path.dirname\<close> is empty,
  \<open>os.makedirs('')\<close> raises FileNotFoundError, and nothing is saved.
\<close>

theorem plot_script_saves_only_complete:
  "SaveFig f fmt \<in> set (fst (plot_script load np_load ex output logMUA_estimate state_vector slope_window show_figure format channel)) \<Longrightarrow>
   snd (plot_script load np_load ex output logMUA_estimate state_vector slope_window show_figure format channel) = None \<and>
   logMUA_estimate \<noteq> None \<and> state_vector \<noteq> None \<and> Omitted \<notin> {slope_window, show_figure, channel} \<and>
   output = Some f \<and> format = Some fmt \<and> py_dirname f \<noteq> []"
  by (auto simp: plot_script_def cli_first_str_def plot_main_def py_makedirs_def py_exists_def Let_def
      split: option.splits sum.splits if_splits)

theorem plot_script_saves_only_complete_witness:
  "SaveFig ''figs/avg.png'' ''png'' \<in> set (fst (plot_script (\<lambda>_. Inr [demo_plot_logMUA]) (\<lambda>_. Inr [demo_plot_states])
      (\<lambda>_. False) (Some ''figs/avg.png'') (Some ''logMUA.nix'') (Some ''states.npy'') (Given 1) (Given 0)
      (Some ''png'') (Given 1))) \<and>
   py_dirname ''figs/avg.png'' \<noteq> []"
proof -
  have r: "plot_script (\<lambda>_. Inr [demo_plot_logMUA]) (\<lambda>_. Inr [demo_plot_states]) (\<lambda>_. False)
      (Some ''figs/avg.png'') (Some ''logMUA.nix'') (Some ''states.npy'') (Given 1) (Given 0) (Some ''png'') (Given 1) =
      ([MakeDirs ''figs'', SaveFig ''figs/avg.png'' ''png''], None)"
    by (simp add: plot_script_def cli_first_str_def demo_plot_main py_dirname_def py_exists_def py_makedirs_def)
  then have "SaveFig ''figs/avg.png'' ''png'' \<in> set (fst (plot_script (\<lambda>_. Inr [demo_plot_logMUA]) (\<lambda>_. Inr [demo_plot_states])
      (\<lambda>_. False) (Some ''figs/avg.png'') (Some ''logMUA.nix'') (Some ''states.npy'') (Given 1) (Given 0)
      (Some ''png'') (Given 1)))" by simp
  with plot_script_saves_only_complete [OF this] show ?thesis by simp
qed

end
