(* ===== verification/Spec2Isabelle.thy ===== *)
theory Spec2Isabelle
  imports Mains AvgTransitions
begin

text \<open>
  \<^bold>\<open>UP/DOWN state detection of wavescalephant.\<close>

  The program is two Python scripts run one after the other by the snakemake workflow:
  \<^item> \<open>src/snakemake_workflow/fieldpotential_analysis/scripts/fp_logMUA_estimation.py\<close>
    (the SpectralActivityEstimator) cuts every raw channel into windows of
    \<open>round(fs/low)\<close> samples, detrends each window, estimates its power spectrum with
    elephant's \<open>welch_psd\<close> and stores the logarithm of the mean band power per window as a
    logMUA AnalogSignal annotated with its provenance;
  \<^item> \<open>src/pipeline/fieldpotential_analysis/scripts/fp_up_down_detection.py\<close> reads these
    signals back and, per channel, fits the noise mode of the logMUA histogram
    (BimodalThresholdEstimator), thresholds the samples (StateClassifier), removes short
    runs (StateDebouncer) and turns the result into two spike trains of transition times
    (TransitionExtractor).

  \<^bold>\<open>Theories.\<close>
  \<^item> \<open>Prelude\<close>: the Python exceptions (\<open>py_error\<close>; a result is \<open>py_error + 'a\<close>, \<open>Inl\<close>
    the exception), float64 values with infinities and NaN (\<open>f64\<close>, \<open>f64_add\<close>,
    \<open>f64_mul\<close>, \<open>f64_mean\<close>, \<open>f64_log\<close>), numpy slice assignment, loops whose body may
    raise (\<open>fold_err\<close>, \<open>assign_err\<close>), keyword-argument merging (\<open>merge_kwargs\<close>), and
    the run-length encoding \<open>runs\<close>/\<open>unruns\<close> that specifies the debouncer.
  \<^item> \<open>Debounce\<close>: \<open>remove_short_states\<close> (lines 57--77) as \<open>count_run\<close> (inner while loop),
    \<open>clean_pass\<close> (outer while loop, \<open>function\<close> with a measure) and \<open>clean_order\<close>.
    The specification \<open>clear_short_runs\<close> works on runs; \<open>clean_pass_refines\<close> shows that
    a pass implements it, and C1--C4 follow: the two passes, no short run after them
    except the first, idempotence and the exempt first run.  \<open>T_clean_pass\<close> counts the
    iterations of both loops plus the samples a slice assignment overwrites, in the style of the running-time functions of
    HOL's Data_Structures; C21 bounds the work of \<open>remove_short_states\<close> by
    \<open>4 * len(state_vector)\<close>.  The spike example of the spec is C33.
  \<^item> \<open>Transitions\<close>: \<open>statevector_to_spiketrains\<close> (lines 121--141) with the scan as
    written (\<open>transition_step\<close>, where DOWN\<open>\<rightarrow>\<close>UP times are appended to a copy of
    \<open>ups\<close>); neo's SpikeTrain is modelled by the range check it performs.  C6.
  \<^item> \<open>Threshold\<close>: \<open>logMUA_distribution\<close> (lines 9--31) over an exact-real model of
    \<open>np.histogram(density=True)\<close>; scipy's \<open>curve_fit\<close> is a parameter \<open>fitter\<close>, returning
    \<open>None\<close> when it does not converge.  The plotting branch is the data it draws
    (\<open>distribution_figure\<close>, with numpy's \<open>gaussian\<close> on float64 values), and
    \<open>logMUA_distribution_plot\<close> is the function with its \<open>plot\<close> flag.  C8--C11.
  \<^item> \<open>Classify\<close>: \<open>create_state_vector\<close> (lines 80--90).  C12--C15, and C7: the
    figure changes nothing of the estimate and marks the classifier's cutoff.
  \<^item> \<open>Pipeline\<close>: \<open>create_all_state_vectors\<close> (lines 93--118) per channel
    (\<open>process_channel\<close>) with Python's argument binding (\<open>bind_call\<close>),
    \<open>remove_duplicate_properties\<close> and \<open>str2bool\<close>.  C16--C20.  The channel loop is
    \<open>fold_err\<close> of \<open>channel_iteration\<close>.
  \<^item> \<open>LogMUA\<close>: \<open>detrending\<close>, \<open>logMUA_estimation\<close> and \<open>build_logMUA_segment\<close> of the
    estimator, with numpy arrays of rank 0--2 (\<open>ndarray\<close>), broadcasting
    (\<open>bcast_sub\<close>), \<open>np.squeeze\<close>, Python slicing and \<open>np.where(...)[0][0]\<close>; elephant's
    \<open>welch_psd\<close> is a parameter.  C23--C26, C28--C31.
  \<^item> \<open>Mains\<close>: the \<open>__main__\<close> blocks of both scripts (\<open>logMUA_main\<close>, lines 98--113 of the
    estimator; \<open>detection_main\<close>, lines 175--206 of the detection script).  neo's Block
    and Segment are the records \<open>nix_block\<close> and \<open>nix_segment\<close>; the files written are a
    list of \<open>effect\<close>s (\<open>SaveStateVectors\<close> for \<open>np.save\<close>, \<open>WriteBlock\<close> for
    \<open>NixIO.write\<close>) returned with the exception that ended the run, if any.  C27.
  \<^item> \<open>AvgTransitions\<close>: the window selection of \<open>plot_avg_transisitons\<close>
    (\<open>src/wavesnakephant/scripts/plot_avg_transitions.py\<close>, lines 8--24) refined against
    \<open>windows_spec\<close> (C5), the length check \<open>ax.plot\<close> performs, and the main block
    (\<open>plot_script\<close>, lines 47--72) with the files it reads as parameters and its
    \<open>plt.show\<close>/\<open>os.makedirs\<close>/\<open>plt.savefig\<close> calls as \<open>plot_effect\<close>s (C22).
  \<^item> this theory: how the two scripts compose.  C32--C33.

  \<^bold>\<open>Loops and bounds.\<close>  Every loop of the scripts is modelled as a total function:
  the \<open>for\<close> loops as \<open>fold_err\<close> over the finite range they iterate, the two \<open>while\<close> loops
  of the debouncer as \<open>function\<close>s whose termination is proved with the measure
  \<open>len(state_vector) - i\<close>, and their work is bounded by a step-counting function
  (C21).  No fuel is needed.  Python integers are \<open>int\<close>/\<open>nat\<close>; floats
  are exact reals inside \<open>f64\<close>, so rounding is not modelled (IEEE infinities and NaN are).

  \<^bold>\<open>Findings\<close> (details in the theories): the DOWN\<open>\<rightarrow>\<close>UP spike train also holds the
  UP\<open>\<rightarrow>\<close>DOWN times (C6); the first run is never debounced (C4); a configuration with
  neither threshold set is not rejected (C14); a channel without a \<open>t_stop\<close> annotation fails,
  and one failing channel fails the batch (C16, C18); the order-2 detrending returns a
  square matrix (C23); orders 3 and 4 are accepted and 5 fails with IndexError (C24); every
  channel uses the first channel's window parameters (C25); the plotting script fails
  whenever one of its \<open>nargs=1\<close> options is omitted, and never saves a figure whose
  output name has no directory part (\<open>os.makedirs('')\<close> raises, C22); the detection script names
  its DOWN\<open>\<rightarrow>\<close>UP segment \<open>Segment UP -> DOWN\<close>, and extends the block's name without a
  separating space, raising after the state vectors are saved when the block has none
  (C27).  C32 shows that in the workflow, the estimator's main block followed by the
  detection script's main block on the block it wrote, the \<open>t_stop\<close> of C16 is always
  present: the estimator stores it as an annotation.

  \<^bold>\<open>Not modelled.\<close>  Persistence (NixIO, \<open>np.save\<close>): the main blocks receive the
  block that \<open>NixIO.read_block\<close> returns and return what they write as effects; the file
  formats are the libraries'.  Reading a written block back is \<open>read_back\<close> below
  (each signal through \<open>logmua_channel\<close>), assuming the store keeps magnitudes and
  annotations and adds at most its bookkeeping keys.  Plotting: the figures are matplotlib output; what the \<open>plot\<close> branch of
  \<open>logMUA_distribution\<close> draws is modelled as data, and of \<open>plot_avg_transitions.py\<close>
  the data selection, the shape check of \<open>ax.plot\<close> and the calls of the main block.  The argparse parsing of the command
  line is left out except \<open>str2bool\<close>: the main blocks take the options already converted
  (\<open>detection_args\<close>).  The file options are not modelled: \<open>logMUA_main\<close> receives the
  block read from \<open>--data\<close> and records the write without its file name, and
  \<open>detection_main\<close> neither reads \<open>--out_state_vector\<close>, \<open>--out_nix_file\<close> nor
  \<open>--logMUA_estimate\<close> (omitted, they are \<open>None\<close> and \<open>np.save\<close> or \<open>NixIO\<close> raise) nor
  \<open>--show_plots\<close> (only figures, see C7).  The numerics of \<open>welch_psd\<close> and \<open>curve_fit\<close>
  belong to the libraries and are parameters.
\<close>

text \<open>
  A logMUA signal as the detection script reads it back: the magnitudes, a time axis at
  the stored sampling rate \<open>r\<close> and the stored annotations.
\<close>

definition logmua_channel :: "logmua_signal \<Rightarrow> real \<Rightarrow> analogsignal" where
  "logmua_channel l r =
     \<lparr>sig_magnitude = lm_magnitude l,
      sig_times = map (\<lambda>k. lm_t_start l + real k / r) [0..<length (lm_magnitude l)],
      sig_t_start = lm_t_start l,
      sig_t_stop = lm_t_start l + real (length (lm_magnitude l)) / r,
      sig_sampling_rate = r, sig_annotations = lm_annotations l\<rparr>"

text \<open>
  The block the estimator writes, as the detection script reads it back: every logMUA
  signal becomes a channel (\<open>logmua_channel\<close>) whose annotations are the stored ones plus
  the keys the store adds itself (\<open>store\<close>, e.g. \<open>nix_name\<close>); names, descriptions and
  annotations of the block and segments are kept.
\<close>

definition read_back ::
  "(logmua_signal \<Rightarrow> string \<rightharpoonup> pyval) \<Rightarrow> (logmua_signal \<Rightarrow> real) \<Rightarrow> logmua_signal nix_block \<Rightarrow>
   analogsignal nix_block" where
  "read_back store rate blk =
     \<lparr>blk_name = blk_name blk,
      blk_segments =
        map (\<lambda>seg. \<lparr>seg_name = seg_name seg, seg_description = seg_description seg,
                    seg_analogsignals =
                      map (\<lambda>l. (logmua_channel l (rate l))\<lparr>sig_annotations := lm_annotations l ++ store l\<rparr>)
                        (seg_analogsignals seg),
                    seg_spiketrains = seg_spiketrains seg, seg_annotations = seg_annotations seg\<rparr>)
          (blk_segments blk),
      blk_annotations = blk_annotations blk\<rparr>"

text \<open>A raw recording of one channel, as the estimator reads it.\<close>

definition demo_raw_block :: "rawsignal nix_block" where
  "demo_raw_block =
     \<lparr>blk_name = None,
      blk_segments = [\<lparr>seg_name = ''Segment 1'', seg_description = ''Raw signals'',
                       seg_analogsignals = [demo_raw Map.empty], seg_spiketrains = [],
                       seg_annotations = Map.empty\<rparr>],
      blk_annotations = Map.empty\<rparr>"

section \<open>Properties of the composed workflow\<close>

text \<open>
  Per channel: a channel produced by \<open>logMUA_estimation\<close> carries the annotation
  \<open>t_stop\<close>, so the detection script never fails on it with the missing \<open>t_stop\<close>
  TypeError of C16, and both transition spike trains end at the stop time of the raw
  recording.
\<close>

lemma workflow_t_stop_supplied:
  assumes "logMUA_estimation welch a fs n W band rate order ov = Inr l"
  shows "process_channel fit m rdf f s (logmua_channel l r) \<noteq>
           Inl (TypeError ''missing required positional argument: t_stop'') \<and>
         (\<forall>sv up down. process_channel fit m rdf f s (logmua_channel l r) = Inr (sv, up, down) \<longrightarrow>
            st_t_stop up = raw_t_stop a \<and> st_t_stop down = raw_t_stop a)"
proof -
  have "lm_annotations l ''t_stop'' = Some (PFloat (raw_t_stop a))"
    using logMUA_estimation_annotations [OF assms]
    by (simp add: logMUA_kwargs_def neo_asig_params_def restrict_map_def)
  then have "sig_annotations (logmua_channel l r) ''t_stop'' = Some (PFloat (raw_t_stop a))"
    by (simp add: logmua_channel_def)
  from process_channel_t_stop_given [OF this] show ?thesis .
qed

text \<open>
  C33 (functional, composition).  The spec's round trip: a DOWN sequence with one UP sample
  followed by at least \<open>min_state_duration\<close> DOWN samples is debounced to all DOWN, and the
  transition scan of the result yields no event of either kind.
\<close>

theorem spike_yields_no_transitions:
  "0 < a \<Longrightarrow> m \<le> int b \<Longrightarrow> 1 < m \<Longrightarrow>
   transition_scan (remove_short_states (replicate a False @ True # replicate b False) m True) ts = Inr ([], [])"
proof -
  assume "0 < a" "m \<le> int b" "1 < m"
  then have "remove_short_states (replicate a False @ True # replicate b False) m True = replicate (a + 1 + b) False"
    by (rule remove_short_states_spike)
  then show ?thesis by (simp only: transition_scan_constant)
qed

theorem spike_yields_no_transitions_witness:
  "transition_scan (remove_short_states (replicate 500 False @ True # replicate 499 False) 5 True)
     (map real [0..<1000]) = Inr ([], [])"
  using spike_yields_no_transitions [of 500 5 499 "map real [0..<1000]"] by simp

text \<open>
  C32 (safety, composition).  The two scripts run one after the other: when the estimator
  ends by writing its block and the detection script reads that block back (the store
  may add its own bookkeeping keys \<open>nix_name\<close>/\<open>neo_name\<close>), the detection script never
  raises the missing-\<open>t_stop\<close> TypeError of C16, and when it succeeds it saves one state
  vector per raw channel and writes a block named
  \<open>Results of fp_logMUA_estimation.pyand fp_up_down_detection.py\<close>.
\<close>

theorem workflow_main_blocks:
  assumes est: "logMUA_main welch raw_block freq_band order ov = ([WriteBlock b], None)"
    and store: "\<forall>l. dom (store l) \<subseteq> set dup_keys"
  shows "snd (detection_main fit args (read_back store rate b)) \<noteq>
           Some (TypeError ''missing required positional argument: t_stop'') \<and>
         (\<forall>svs blk. detection_main fit args (read_back store rate b) = ([SaveStateVectors svs, WriteBlock blk], None) \<longrightarrow>
            blk_name blk = Some ''Results of fp_logMUA_estimation.pyand fp_up_down_detection.py'' \<and>
            length svs = length (seg_analogsignals (hd (blk_segments raw_block))))"
proof -
  from logMUA_main_written [OF est] obtain seg0 segs fb ls where
    seg: "blk_segments raw_block = seg0 # segs" and
    bl: "build_logMUA_segment welch (map2 (\<lambda>a ann. a\<lparr>raw_annotations := ann\<rparr>) (seg_analogsignals seg0)
        (remove_duplicate_properties_logmua (map raw_annotations (seg_analogsignals seg0)) dup_keys)) fb order ov = Inr ls" and
    b: "b = \<lparr>blk_name = Some ''Results of fp_logMUA_estimation.py'',
             blk_segments = [\<lparr>seg_name = ''Segment logMUA'', seg_description = ''Estimated logMUA activity'',
                              seg_analogsignals = ls, seg_spiketrains = [], seg_annotations = Map.empty\<rparr>],
             blk_annotations = Map.empty\<rparr>"
    by auto
  note ls = build_logMUA_segment_t_stop [OF bl]
  define seg1 where "seg1 = hd (blk_segments (read_back store rate b))"
  have segs1: "blk_segments (read_back store rate b) = seg1 # []" by (simp add: seg1_def read_back_def b)
  have ch: "seg_analogsignals seg1 =
      map (\<lambda>l. (logmua_channel l (rate l))\<lparr>sig_annotations := lm_annotations l ++ store l\<rparr>) ls"
    by (simp add: seg1_def read_back_def b)
  have ts: "\<forall>a\<in>set (seg_analogsignals seg1). \<exists>t. sig_annotations a ''t_stop'' = Some (PFloat t)"
  proof
    fix a assume "a \<in> set (seg_analogsignals seg1)"
    then obtain l where l: "l \<in> set ls" and a: "a = (logmua_channel l (rate l))\<lparr>sig_annotations := lm_annotations l ++ store l\<rparr>"
      by (auto simp: ch)
    have "store l ''t_stop'' = None" using store by (auto simp: dup_keys_def)
    with l ls a show "\<exists>t. sig_annotations a ''t_stop'' = Some (PFloat t)" by (auto simp: map_add_def)
  qed
  have len: "length (seg_analogsignals seg1) = length (seg_analogsignals seg0)"
    using ls by (simp add: ch remove_duplicate_properties_logmua_eq)
  show ?thesis
  proof (rule conjI)
    show "snd (detection_main fit args (read_back store rate b)) \<noteq>
           Some (TypeError ''missing required positional argument: t_stop'')"
      by (rule detection_main_no_t_stop_error [OF segs1 ts])
  next
    show "\<forall>svs blk. detection_main fit args (read_back store rate b) = ([SaveStateVectors svs, WriteBlock blk], None) \<longrightarrow>
            blk_name blk = Some ''Results of fp_logMUA_estimation.pyand fp_up_down_detection.py'' \<and>
            length svs = length (seg_analogsignals (hd (blk_segments raw_block)))"
    proof (intro allI impI)
    fix svs blk
    assume r: "detection_main fit args (read_back store rate b) = ([SaveStateVectors svs, WriteBlock blk], None)"
    let ?xs = "map2 (\<lambda>a ann. a\<lparr>sig_annotations := ann\<rparr>) (seg_analogsignals seg1)
                 (remove_duplicate_properties (map sig_annotations (seg_analogsignals seg1)) dup_keys)"
    have "\<exists>us ds. create_all_state_vectors fit ?xs (da_min_state_duration args) (da_remove_down_first args)
        (of_int (da_fixed_threshold args)) (of_int (da_sigma_threshold args)) = Inr (svs, us, ds)"
      using r segs1 by (auto simp: detection_main_def Let_def split: sum.splits option.splits)
    then obtain us ds where c: "create_all_state_vectors fit ?xs (da_min_state_duration args) (da_remove_down_first args)
        (of_int (da_fixed_threshold args)) (of_int (da_sigma_threshold args)) = Inr (svs, us, ds)" by blast
    have "length svs = length ?xs"
      using batch_channels [OF c [unfolded create_all_state_vectors_def channel_iteration_def]] by simp
    then have "length svs = length (seg_analogsignals (hd (blk_segments raw_block)))"
      using len seg by simp
    moreover have "blk_name blk = Some ''Results of fp_logMUA_estimation.pyand fp_up_down_detection.py''"
      using r segs1 c by (auto simp: detection_main_def Let_def read_back_def b)
    ultimately show "blk_name blk = Some ''Results of fp_logMUA_estimation.pyand fp_up_down_detection.py'' \<and>
          length svs = length (seg_analogsignals (hd (blk_segments raw_block)))" by simp
    qed
  qed
qed

theorem workflow_main_blocks_witness:
  "\<exists>b. logMUA_main demo_welch demo_raw_block (Some (1, 3)) 0 (1 / 2) = ([WriteBlock b], None) \<and>
       (\<forall>l. dom ((\<lambda>_. [''nix_name'' \<mapsto> PStr ''x'']) l) \<subseteq> set dup_keys) \<and>
       snd (detection_main (\<lambda>_ _ _. Some (1, 2)) demo_args (read_back (\<lambda>_. [''nix_name'' \<mapsto> PStr ''x'']) (\<lambda>_. 1) b)) \<noteq>
         Some (TypeError ''missing required positional argument: t_stop'')"
proof -
  have strip: "map2 (\<lambda>a ann. a\<lparr>raw_annotations := ann\<rparr>) [demo_raw Map.empty]
      (remove_duplicate_properties_logmua (map raw_annotations [demo_raw Map.empty]) dup_keys) = [demo_raw Map.empty]"
    by (simp add: remove_duplicate_properties_logmua_def dup_keys_def demo_raw_def)
  from demo_build_one obtain ls where ls: "build_logMUA_segment demo_welch [demo_raw Map.empty] (1, 3) 0 (1 / 2) = Inr ls" ..
  define b where "b = \<lparr>blk_name = Some ''Results of fp_logMUA_estimation.py'',
      blk_segments = [\<lparr>seg_name = ''Segment logMUA'', seg_description = ''Estimated logMUA activity'',
                       seg_analogsignals = ls, seg_spiketrains = [], seg_annotations = Map.empty\<rparr>],
      blk_annotations = Map.empty\<rparr>"
  have est: "logMUA_main demo_welch demo_raw_block (Some (1, 3)) 0 (1 / 2) = ([WriteBlock b], None)"
    unfolding logMUA_main_def demo_raw_block_def nix_block.simps nix_segment.simps list.case Let_def strip
    by (simp add: ls b_def)
  have dom: "\<forall>l. dom ((\<lambda>_. [''nix_name'' \<mapsto> PStr ''x'']) l) \<subseteq> set dup_keys" by (simp add: dup_keys_def)
  from workflow_main_blocks [OF est dom, of "\<lambda>_ _ _. Some (1, 2)" demo_args "\<lambda>_. 1"] est dom show ?thesis by blast
qed

end
